(* ===== verification/Prelude.thy ===== *)
theory Prelude
  imports Main "HOL-Library.Sublist" "HOL-Library.Multiset"
begin

text \<open>
  Shared vocabulary of the development. Python's \<open>str\<close> is a sequence of Unicode code
  points, so text is modelled as \<open>ustr\<close>, a list of code points (\<open>nat\<close>); Korean
  literals of the sources are written as their code points (for example
  \<open>[0xAC80, 0xCD9C]\<close> is the word for ``detected'').
  ASCII identifiers such as column names are written with \<open>asc\<close>.
  The collection \<open>pystr_eval\<close> holds the rules that let \<open>simp\<close> decide
  substring tests on literals; \<open>count_simps\<close> holds the counting lemmas that the
  validation and join proofs share.
\<close>

type_synonym ustr = "nat list"

named_theorems pystr_eval "rules evaluating Python string operations on literals"
named_theorems count_simps "counting lemmas on lists shared by the query models"

definition asc :: "string \<Rightarrow> ustr" where
  "asc s = map of_char s"

abbreviation py_in :: "ustr \<Rightarrow> ustr \<Rightarrow> bool" where
  "py_in needle s \<equiv> sublist needle s"

declare sublist_code [pystr_eval] prefix_code [pystr_eval] asc_def [pystr_eval]

subsection \<open>Generic list lemmas\<close>

lemma sublist_Cons_rightI [intro]: "sublist xs ys \<Longrightarrow> sublist xs (y # ys)"
  by (simp add: sublist_Cons_right)

lemma length_filter_conj_le [count_simps]:
  "length (filter (\<lambda>x. P x \<and> Q x) xs) \<le> length (filter P xs)"
  by (induction xs) auto

lemma count_mset_map_filter [count_simps]:
  "count (mset (map f xs)) k = length (filter (\<lambda>x. f x = k) xs)"
  by (induction xs) auto

lemma sum_list_map_sort_key [count_simps]:
  fixes f :: "'a \<Rightarrow> 'b::comm_monoid_add"
  shows "sum_list (map f (sort_key g xs)) = sum_list (map f xs)"
proof -
  have "mset (map f (sort_key g xs)) = mset (map f xs)"
    by simp
  then show ?thesis
    by (metis sum_mset_sum_list)
qed

lemma sum_list_map_filter_count [count_simps]:
  "sum_list (map (\<lambda>k. length (filter (\<lambda>x. f x = k) xs)) (remdups (map f xs))) = length xs"
proof -
  have e: "(\<lambda>k. length (filter (\<lambda>x. f x = k) xs)) = count (mset (map f xs))"
    by (rule ext) (rule count_mset_map_filter [symmetric])
  have "sum_list (map (count (mset (map f xs))) (remdups (map f xs))) = size (mset (map f xs))"
    by (simp add: sum_list_distinct_conv_sum_set size_multiset_overloaded_eq)
  then show ?thesis unfolding e by simp
qed

end
