(* ===== verification/PyStr.thy ===== *)
theory PyStr
  imports Prelude
begin

text \<open>
  The Python string operations the sources apply to data text, on \<open>ustr\<close>:
  \<open>sep in s\<close> is \<open>sublist sep s\<close> (see \<open>Prelude.py_in\<close>);
  \<open>s.split(sep)[0]\<close>, the text before the first occurrence of \<open>sep\<close>, is
  \<open>split_before sep s\<close>; \<open>s.strip()\<close> with no argument removes the code points
  for which \<open>str.isspace\<close> holds from both ends, \<open>py_strip\<close>.
  Python raises \<open>ValueError\<close> for an empty separator; the sources only split on a
  non-empty literal, so \<open>split_before\<close> is only used with one.
\<close>

fun split_before :: "ustr \<Rightarrow> ustr \<Rightarrow> ustr" where
  "split_before sep [] = []"
| "split_before sep (c # cs) = (if prefix sep (c # cs) then [] else c # split_before sep cs)"

text \<open>The code points of \<open>str.isspace\<close> (Unicode White_Space, as CPython's table).\<close>

definition py_space :: "nat \<Rightarrow> bool" where
  "py_space c \<longleftrightarrow>
     (0x09 \<le> c \<and> c \<le> 0x0D) \<or> (0x1C \<le> c \<and> c \<le> 0x20) \<or> c = 0x85 \<or> c = 0xA0 \<or>
     c = 0x1680 \<or> (0x2000 \<le> c \<and> c \<le> 0x200A) \<or> c = 0x2028 \<or> c = 0x2029 \<or>
     c = 0x202F \<or> c = 0x205F \<or> c = 0x3000"

definition py_strip :: "ustr \<Rightarrow> ustr" where
  "py_strip s = rev (dropWhile py_space (rev (dropWhile py_space s)))"

declare py_space_def [pystr_eval] py_strip_def [pystr_eval]

subsection \<open>split\<close>

lemma split_before_prefix: "prefix (split_before sep s) s"
  by (induction s) auto

lemma split_before_absent: "\<not> py_in sep s \<Longrightarrow> split_before sep s = s"
  by (induction s) (auto dest: prefix_imp_sublist)

lemma split_before_no_sep:
  assumes "sep \<noteq> []"
  shows "\<not> py_in sep (split_before sep s)"
proof (induction s)
  case Nil
  with assms show ?case by simp
next
  case (Cons c cs)
  show ?case
  proof (cases "prefix sep (c # cs)")
    case True
    with assms show ?thesis by simp
  next
    case False
    have "prefix (c # split_before sep cs) (c # cs)"
      by (simp add: split_before_prefix)
    with False have "\<not> prefix sep (c # split_before sep cs)"
      using prefix_order.trans by blast
    with False Cons.IH show ?thesis
      by (simp add: sublist_Cons_right)
  qed
qed

text \<open>Round trip: the text before the separator, the separator and a rest give back \<open>s\<close>.\<close>

lemma split_before_decomp:
  "py_in sep s \<Longrightarrow> \<exists>rest. s = split_before sep s @ sep @ rest"
proof (induction s)
  case Nil
  then show ?case by simp
next
  case (Cons c cs)
  show ?case
  proof (cases "prefix sep (c # cs)")
    case True
    then show ?thesis by (auto simp: prefix_def)
  next
    case False
    with Cons.prems have "py_in sep cs"
      by (simp add: sublist_Cons_right)
    with Cons.IH False show ?thesis by auto
  qed
qed

text \<open>
  Uniqueness: if \<open>sep\<close> occurs in \<open>pre @ sep\<close> only at its end, the text before
  the first occurrence in \<open>pre @ sep @ rest\<close> is \<open>pre\<close>.
\<close>

lemma split_before_first:
  assumes "sep \<noteq> []" and "\<not> py_in sep (pre @ butlast sep)"
  shows "split_before sep (pre @ sep @ rest) = pre"
  using assms(2)
proof (induction pre)
  case Nil
  from assms(1) show ?case by (cases sep) auto
next
  case (Cons c cs)
  have no_pre: "\<not> prefix sep (c # cs @ sep @ rest)"
  proof
    assume p: "prefix sep (c # cs @ sep @ rest)"
    have "prefix (c # cs @ butlast sep) (c # cs @ sep @ rest)"
      by (simp add: prefixeq_butlast)
    moreover have "length sep \<le> length (c # cs @ butlast sep)"
      by simp
    ultimately have "prefix sep (c # cs @ butlast sep)"
      using p prefix_length_prefix by blast
    with Cons.prems show False
      by (auto dest: prefix_imp_sublist)
  qed
  have "\<not> py_in sep (cs @ butlast sep)"
    using Cons.prems by auto
  with no_pre Cons.IH show ?case by simp
qed

subsection \<open>strip\<close>

lemma py_strip_sublist: "sublist (py_strip s) s"
proof -
  let ?ys = "dropWhile py_space s"
  have 1: "sublist ?ys s"
    by (rule suffix_imp_sublist) (rule suffix_dropWhile)
  have "sublist (dropWhile py_space (rev ?ys)) (rev ?ys)"
    by (rule suffix_imp_sublist) (rule suffix_dropWhile)
  then have "sublist (rev (dropWhile py_space (rev ?ys))) ?ys"
    by (subst sublist_rev [symmetric]) simp
  from this 1 show ?thesis
    unfolding py_strip_def by (rule sublist_order.order.trans)
qed

lemma py_strip_id:
  assumes "s = [] \<or> \<not> py_space (hd s) \<and> \<not> py_space (last s)"
  shows "py_strip s = s"
proof -
  have "dropWhile py_space s = s"
    using assms by (auto simp: dropWhile_eq_self_iff)
  moreover have "dropWhile py_space (rev s) = rev s"
    using assms by (auto simp: dropWhile_eq_self_iff hd_rev)
  ultimately show ?thesis by (simp add: py_strip_def)
qed

end
