(* ===== verification/Classifier.thy ===== *)
theory Classifier
  imports PyStr
begin

text \<open>
  The recall-reason classifier of \<open>local_to_ec2_etl.py\<close> (lines 236-255,
  inside the dataset loop of step 6): from the inspection item, the inspection result
  and the recall-action text of one analytical row it builds the output label of a
  dataset example. The Korean literals are written as code points, with their meaning
  in the comments. \<open>classify\<close> is the \<open>if\<close>/\<open>elif\<close> chain of lines 240-255;
  \<open>recall_reason\<close> adds the normalisation of lines 237-238.

  The abstract specification is \<open>cause_of\<close>, an inductive relation stating for each
  cause the conditions under which it applies, with the priority of the categories
  written out as premises (no keyword of an earlier category occurs). The executable
  \<open>classify_cause\<close> computes the cause, and \<open>render_cause\<close> the text of a cause.
\<close>

subsection \<open>Literals\<close>

definition kw_ecoli :: ustr where \<comment> \<open>E. coli\<close>
  "kw_ecoli = [0xB300, 0xC7A5, 0xADE0]"
definition kw_staph :: ustr where \<comment> \<open>Staphylococcus aureus\<close>
  "kw_staph = [0xD669, 0xC0C9, 0xD3EC, 0xB3C4, 0xC0C1, 0xAD6C, 0xADE0]"
definition kw_bacteria :: ustr where \<comment> \<open>bacteria\<close>
  "kw_bacteria = [0xC138, 0xADE0]"
definition kw_listeria :: ustr where \<comment> \<open>Listeria\<close>
  "kw_listeria = [0xB9AC, 0xC2A4, 0xD14C, 0xB9AC, 0xC544]"
definition kw_heavy :: ustr where \<comment> \<open>heavy metal\<close>
  "kw_heavy = [0xC911, 0xAE08, 0xC18D]"
definition kw_lead :: ustr where \<comment> \<open>lead\<close>
  "kw_lead = [0xB0A9]"
definition kw_cadmium :: ustr where \<comment> \<open>cadmium\<close>
  "kw_cadmium = [0xCE74, 0xB4DC, 0xBBB4]"
definition kw_preservative :: ustr where \<comment> \<open>preservative\<close>
  "kw_preservative = [0xBCF4, 0xC874, 0xB8CC]"
definition kw_synthetic :: ustr where \<comment> \<open>synthetic\<close>
  "kw_synthetic = [0xD569, 0xC131]"
definition kw_detected :: ustr where \<comment> \<open>detected\<close>
  "kw_detected = [0xAC80, 0xCD9C]"
definition kw_foreign :: ustr where \<comment> \<open>foreign matter\<close>
  "kw_foreign = [0xC774, 0xBB3C]"

definition microbial_keywords :: "ustr list" where
  "microbial_keywords = [kw_ecoli, kw_staph, kw_bacteria, kw_listeria]"
definition heavy_metal_keywords :: "ustr list" where
  "heavy_metal_keywords = [kw_heavy, kw_lead, kw_cadmium]"
definition preservative_keywords :: "ustr list" where
  "preservative_keywords = [kw_preservative, kw_synthetic]"

text \<open>\<open>"a" in item or "b" in item or ...\<close>: some keyword of the list occurs.\<close>

definition any_in :: "ustr list \<Rightarrow> ustr \<Rightarrow> bool" where
  "any_in ks s \<longleftrightarrow> list_ex (\<lambda>k. py_in k s) ks"

definition default_reason :: ustr where \<comment> \<open>"inspection result nonconforming"\<close>
  "default_reason = [0xAC80, 0xC0AC, 0xACB0, 0xACFC, 0x20, 0xBD80, 0xC801, 0xD569]"
definition micro_pre :: ustr where \<comment> \<open>"microbial contamination("\<close>
  "micro_pre = [0xBBF8, 0xC0DD, 0xBB3C, 0x20, 0xC624, 0xC5FC, 0x28]"
definition heavy_pre :: ustr where \<comment> \<open>"heavy metal("\<close>
  "heavy_pre = [0xC911, 0xAE08, 0xC18D, 0x28]"
definition exceed_post :: ustr where \<comment> \<open>") exceeding limit, recalled"\<close>
  "exceed_post = [0x29, 0x20, 0xAE30, 0xC900, 0xCE58, 0x20, 0xCD08, 0xACFC, 0xB85C, 0x20,
                  0xC778, 0xD55C, 0x20, 0xD68C, 0xC218]"
definition pres_pre :: ustr where \<comment> \<open>"synthetic preservative("\<close>
  "pres_pre = [0xD569, 0xC131, 0xBCF4, 0xC874, 0xB8CC, 0x28]"
definition pres_post :: ustr where \<comment> \<open>") detected, recalled"\<close>
  "pres_post = [0x29, 0x20, 0xAC80, 0xCD9C, 0xB85C, 0x20, 0xC778, 0xD55C, 0x20, 0xD68C, 0xC218]"
definition pres_exceed :: ustr where \<comment> \<open>"synthetic preservative exceeding limit, recalled"\<close>
  "pres_exceed = [0xD569, 0xC131, 0xBCF4, 0xC874, 0xB8CC, 0x20, 0xAE30, 0xC900, 0xCE58, 0x20,
                  0xCD08, 0xACFC, 0xB85C, 0x20, 0xC778, 0xD55C, 0x20, 0xD68C, 0xC218]"
definition foreign_msg :: ustr where \<comment> \<open>"foreign matter contamination, recalled"\<close>
  "foreign_msg = [0xC774, 0xBB3C, 0xC9C8, 0x20, 0xD63C, 0xC785, 0xC73C, 0xB85C, 0x20, 0xC778,
                  0xD55C, 0x20, 0xD68C, 0xC218]"
definition generic_post :: ustr where \<comment> \<open>" nonconforming to standard, recalled"\<close>
  "generic_post = [0x20, 0xAE30, 0xC900, 0x20, 0xBD80, 0xC801, 0xD569, 0xC73C, 0xB85C, 0x20,
                   0xC778, 0xD55C, 0x20, 0xD68C, 0xC218]"

lemmas classifier_literals [pystr_eval] =
  kw_ecoli_def kw_staph_def kw_bacteria_def kw_listeria_def kw_heavy_def kw_lead_def
  kw_cadmium_def kw_preservative_def kw_synthetic_def kw_detected_def kw_foreign_def
  microbial_keywords_def heavy_metal_keywords_def preservative_keywords_def any_in_def
  default_reason_def micro_pre_def heavy_pre_def exceed_post_def pres_pre_def pres_post_def
  pres_exceed_def foreign_msg_def generic_post_def

subsection \<open>The classifier\<close>

text \<open>\<open>row[4] if row[4] else "..."\<close>: an absent or empty action text gives the default.\<close>

definition fallback_text :: "ustr option \<Rightarrow> ustr" where
  "fallback_text action =
     (case action of None \<Rightarrow> default_reason | Some a \<Rightarrow> if a \<noteq> [] then a else default_reason)"

definition classify :: "ustr \<Rightarrow> ustr \<Rightarrow> ustr option \<Rightarrow> ustr" where
  "classify item result action =
     (if item = [] \<or> result = [] then fallback_text action
      else if any_in microbial_keywords item then micro_pre @ item @ exceed_post
      else if any_in heavy_metal_keywords item then heavy_pre @ item @ exceed_post
      else if any_in preservative_keywords item then
        (if py_in kw_detected result
         then pres_pre @ py_strip (split_before kw_detected result) @ pres_post
         else pres_exceed)
      else if py_in kw_foreign item then foreign_msg
      else item @ generic_post)"

text \<open>\<open>x = row[i] if row[i] else ""\<close>: SQL NULL (None) and the empty text both give "".\<close>

definition or_empty :: "ustr option \<Rightarrow> ustr" where
  "or_empty v = (case v of None \<Rightarrow> [] | Some s \<Rightarrow> s)"

definition recall_reason :: "ustr option \<Rightarrow> ustr option \<Rightarrow> ustr option \<Rightarrow> ustr" where
  "recall_reason item result action = classify (or_empty item) (or_empty result) action"

subsection \<open>Abstract specification: the cause of a recall\<close>

datatype cause =
    NoInspection
  | Microbial
  | HeavyMetal
  | PreservativeDetected ustr
  | PreservativeExceeded
  | ForeignMatter
  | OtherStandard

definition no_kw :: "ustr list \<Rightarrow> ustr \<Rightarrow> bool" where
  "no_kw ks s \<longleftrightarrow> (\<forall>k \<in> set ks. \<not> py_in k s)"

inductive cause_of :: "ustr \<Rightarrow> ustr \<Rightarrow> cause \<Rightarrow> bool" where
  no_inspection: "item = [] \<or> result = [] \<Longrightarrow> cause_of item result NoInspection"
| microbial: "\<lbrakk>item \<noteq> []; result \<noteq> []; k \<in> set microbial_keywords; py_in k item\<rbrakk>
    \<Longrightarrow> cause_of item result Microbial"
| heavy_metal: "\<lbrakk>item \<noteq> []; result \<noteq> []; no_kw microbial_keywords item;
    k \<in> set heavy_metal_keywords; py_in k item\<rbrakk> \<Longrightarrow> cause_of item result HeavyMetal"
| preservative_detected: "\<lbrakk>item \<noteq> []; result \<noteq> []; no_kw microbial_keywords item;
    no_kw heavy_metal_keywords item; k \<in> set preservative_keywords; py_in k item;
    result = d @ kw_detected @ rest; \<not> py_in kw_detected (d @ butlast kw_detected)\<rbrakk>
    \<Longrightarrow> cause_of item result (PreservativeDetected (py_strip d))"
| preservative_exceeded: "\<lbrakk>item \<noteq> []; result \<noteq> []; no_kw microbial_keywords item;
    no_kw heavy_metal_keywords item; k \<in> set preservative_keywords; py_in k item;
    \<not> py_in kw_detected result\<rbrakk> \<Longrightarrow> cause_of item result PreservativeExceeded"
| foreign_matter: "\<lbrakk>item \<noteq> []; result \<noteq> []; no_kw microbial_keywords item;
    no_kw heavy_metal_keywords item; no_kw preservative_keywords item; py_in kw_foreign item\<rbrakk>
    \<Longrightarrow> cause_of item result ForeignMatter"
| other_standard: "\<lbrakk>item \<noteq> []; result \<noteq> []; no_kw microbial_keywords item;
    no_kw heavy_metal_keywords item; no_kw preservative_keywords item; \<not> py_in kw_foreign item\<rbrakk>
    \<Longrightarrow> cause_of item result OtherStandard"

inductive_cases cause_ofE: "cause_of item result c"

definition classify_cause :: "ustr \<Rightarrow> ustr \<Rightarrow> cause" where
  "classify_cause item result =
     (if item = [] \<or> result = [] then NoInspection
      else if any_in microbial_keywords item then Microbial
      else if any_in heavy_metal_keywords item then HeavyMetal
      else if any_in preservative_keywords item then
        (if py_in kw_detected result
         then PreservativeDetected (py_strip (split_before kw_detected result))
         else PreservativeExceeded)
      else if py_in kw_foreign item then ForeignMatter
      else OtherStandard)"

fun render_cause :: "ustr \<Rightarrow> ustr option \<Rightarrow> cause \<Rightarrow> ustr" where
  "render_cause item action NoInspection = fallback_text action"
| "render_cause item action Microbial = micro_pre @ item @ exceed_post"
| "render_cause item action HeavyMetal = heavy_pre @ item @ exceed_post"
| "render_cause item action (PreservativeDetected d) = pres_pre @ d @ pres_post"
| "render_cause item action PreservativeExceeded = pres_exceed"
| "render_cause item action ForeignMatter = foreign_msg"
| "render_cause item action OtherStandard = item @ generic_post"

subsection \<open>Lemmas\<close>

lemma any_in_iff: "any_in ks s \<longleftrightarrow> (\<exists>k \<in> set ks. py_in k s)"
  by (simp add: any_in_def list_ex_iff)

lemma no_kw_iff_not_any_in: "no_kw ks s \<longleftrightarrow> \<not> any_in ks s"
  by (auto simp: no_kw_def any_in_iff)

lemma kw_detected_ne: "kw_detected \<noteq> []"
  by (simp add: kw_detected_def)

text \<open>The extraction of the detected text agrees with the declarative first occurrence.\<close>

lemma detected_split_unique:
  assumes "result = d @ kw_detected @ rest" and "\<not> py_in kw_detected (d @ butlast kw_detected)"
  shows "split_before kw_detected result = d"
  using split_before_first [OF kw_detected_ne assms(2)] assms(1) by simp

lemma detected_split_exists:
  assumes "py_in kw_detected result"
  obtains rest where "result = split_before kw_detected result @ kw_detected @ rest"
    and "\<not> py_in kw_detected (split_before kw_detected result @ butlast kw_detected)"
proof -
  obtain rest where r: "result = split_before kw_detected result @ kw_detected @ rest"
    using split_before_decomp [OF assms] by blast
  have "\<not> py_in kw_detected (split_before kw_detected result @ butlast kw_detected)"
  proof
    let ?d = "split_before kw_detected result"
    assume "py_in kw_detected (?d @ butlast kw_detected)"
    moreover have "\<not> py_in kw_detected ?d"
      by (rule split_before_no_sep [OF kw_detected_ne])
    ultimately show False
      by (auto simp: kw_detected_def sublist_append sublist_Cons_right prefix_Cons
          split: if_splits)
  qed
  with r show ?thesis using that by blast
qed

lemma cause_of_classify_cause: "cause_of item result (classify_cause item result)"
proof -
  consider (empty) "item = [] \<or> result = []"
    | (mic) "item \<noteq> []" "result \<noteq> []" "any_in microbial_keywords item"
    | (hvy) "item \<noteq> []" "result \<noteq> []" "\<not> any_in microbial_keywords item"
        "any_in heavy_metal_keywords item"
    | (pres) "item \<noteq> []" "result \<noteq> []" "\<not> any_in microbial_keywords item"
        "\<not> any_in heavy_metal_keywords item" "any_in preservative_keywords item"
    | (rest) "item \<noteq> []" "result \<noteq> []" "\<not> any_in microbial_keywords item"
        "\<not> any_in heavy_metal_keywords item" "\<not> any_in preservative_keywords item"
    by blast
  then show ?thesis
  proof cases
    case empty
    then show ?thesis by (simp add: classify_cause_def cause_of.no_inspection)
  next
    case mic
    then show ?thesis
      by (auto simp: classify_cause_def any_in_iff intro: cause_of.microbial)
  next
    case hvy
    then show ?thesis
      by (auto simp: classify_cause_def any_in_iff no_kw_iff_not_any_in
          intro: cause_of.heavy_metal)
  next
    case pres
    then obtain k where k: "k \<in> set preservative_keywords" "py_in k item"
      by (auto simp: any_in_iff)
    show ?thesis
    proof (cases "py_in kw_detected result")
      case True
      then obtain rest where
        "result = split_before kw_detected result @ kw_detected @ rest"
        "\<not> py_in kw_detected (split_before kw_detected result @ butlast kw_detected)"
        by (rule detected_split_exists)
      with pres k True show ?thesis
        by (simp add: classify_cause_def no_kw_iff_not_any_in cause_of.preservative_detected)
    next
      case False
      with pres k show ?thesis
        by (simp add: classify_cause_def no_kw_iff_not_any_in cause_of.preservative_exceeded)
    qed
  next
    case rest
    then show ?thesis
      by (cases "py_in kw_foreign item")
        (simp_all add: classify_cause_def no_kw_iff_not_any_in cause_of.foreign_matter
          cause_of.other_standard)
  qed
qed

lemma cause_of_unique: "cause_of item result c \<Longrightarrow> c = classify_cause item result"
proof (induction rule: cause_of.induct)
  case (preservative_detected item result k d rest)
  then have "split_before kw_detected result = d"
    by (intro detected_split_unique)
  with preservative_detected show ?case
    by (auto simp: classify_cause_def no_kw_iff_not_any_in any_in_iff)
qed (auto simp: classify_cause_def no_kw_iff_not_any_in any_in_iff)

subsection \<open>Properties of the classifier\<close>

text \<open>
  C1. The executable decision of the classifier agrees with the declarative
  specification: a cause satisfies \<open>cause_of\<close> exactly when it is the one
  \<open>classify_cause\<close> computes, so the specification is total and deterministic and the
  code's priority order is the documented one.
\<close>

theorem classify_cause_correct: "cause_of item result c \<longleftrightarrow> classify_cause item result = c"
  using cause_of_classify_cause cause_of_unique by blast

theorem classify_cause_correct_witness:
  "cause_of (kw_lead @ kw_bacteria) [0x31] Microbial \<and>
   \<not> cause_of (kw_lead @ kw_bacteria) [0x31] HeavyMetal"
  using classify_cause_correct [of "kw_lead @ kw_bacteria" "[0x31]" Microbial]
    classify_cause_correct [of "kw_lead @ kw_bacteria" "[0x31]" HeavyMetal]
  by (simp add: classify_cause_def pystr_eval)

text \<open>
  C2. Microbial keywords win: a non-empty item containing any microbial keyword with a
  non-empty result gives the microbial message with the item verbatim, whatever other
  keywords the item contains.
\<close>

theorem classify_microbial_priority:
  assumes "item \<noteq> []" and "result \<noteq> []"
    and "k \<in> set microbial_keywords" and "py_in k item"
  shows "classify item result action = micro_pre @ item @ exceed_post"
  using assms by (auto simp: classify_def any_in_iff)

theorem classify_microbial_priority_witness:
  "kw_lead @ kw_bacteria \<noteq> [] \<and> [0x31::nat] \<noteq> [] \<and> kw_bacteria \<in> set microbial_keywords \<and>
   py_in kw_bacteria (kw_lead @ kw_bacteria) \<and>
   classify (kw_lead @ kw_bacteria) [0x31] None = micro_pre @ (kw_lead @ kw_bacteria) @ exceed_post"
  using classify_microbial_priority [of "kw_lead @ kw_bacteria" "[0x31]" kw_bacteria None]
  by (simp add: pystr_eval)

text \<open>
  C3. Preservative extraction: for an item with a preservative keyword and no microbial
  or heavy-metal keyword, a result \<open>d @ "detected" @ rest\<close> in which \<open>d\<close> holds no
  earlier occurrence gives the preservative-detected message with \<open>d\<close> stripped of
  surrounding white space.
\<close>

theorem classify_preservative_detected:
  assumes "item \<noteq> []" and "no_kw microbial_keywords item" and "no_kw heavy_metal_keywords item"
    and "k \<in> set preservative_keywords" and "py_in k item"
    and "result = d @ kw_detected @ rest" and "\<not> py_in kw_detected (d @ butlast kw_detected)"
  shows "classify item result action = pres_pre @ py_strip d @ pres_post"
proof -
  have "split_before kw_detected result = d"
    using assms(6,7) by (rule detected_split_unique)
  moreover have "py_in kw_detected result"
    using assms(6) by (auto intro: sublist_appendI)
  ultimately show ?thesis
    using assms by (auto simp: classify_def any_in_iff no_kw_iff_not_any_in kw_detected_def)
qed

theorem classify_preservative_detected_witness:
  "kw_preservative \<noteq> [] \<and> no_kw microbial_keywords kw_preservative \<and>
   no_kw heavy_metal_keywords kw_preservative \<and> kw_preservative \<in> set preservative_keywords \<and>
   py_in kw_preservative kw_preservative \<and>
   [0xC18C, 0xBE0C, 0xC0B0, 0x20] @ kw_detected = [0xC18C, 0xBE0C, 0xC0B0, 0x20] @ kw_detected @ [] \<and>
   \<not> py_in kw_detected ([0xC18C, 0xBE0C, 0xC0B0, 0x20] @ butlast kw_detected) \<and>
   classify kw_preservative ([0xC18C, 0xBE0C, 0xC0B0, 0x20] @ kw_detected) None
     = pres_pre @ [0xC18C, 0xBE0C, 0xC0B0] @ pres_post"
  using classify_preservative_detected [of kw_preservative kw_preservative
      "[0xC18C, 0xBE0C, 0xC0B0, 0x20] @ kw_detected" "[0xC18C, 0xBE0C, 0xC0B0, 0x20]" "[]" None]
  by (simp add: no_kw_def pystr_eval)

text \<open>
  The label is never empty: the fallback replaces an absent or empty action text by
  the default reason, and every other message is a non-empty literal.
\<close>

lemma classify_nonempty: "classify item result action \<noteq> []"
  by (simp add: classify_def fallback_text_def pystr_eval split: option.split)

end
