(* ===== verification/Sql.thy ===== *)
theory Sql
  imports PyStr "HOL-Library.Word"
begin

text \<open>
  The part of MySQL the scripts rely on, as values and tables.
  \<^item> \<open>sqlval\<close>: a cell as the connector returns it. NULL is \<open>VNull\<close> (Python
    \<open>None\<close>), INT columns hold \<open>VInt\<close>, VARCHAR and TEXT columns \<open>VText\<close>.
    FLOAT and DATETIME values are kept as their MySQL text form, since the scripts
    only render and compare them. BOOLEAN is TINYINT in MySQL, so booleans are
    \<open>VInt 0\<close> and \<open>VInt 1\<close>.
  \<^item> \<open>sql_text\<close>: the text MySQL converts a value to when a string operation
    (\<open>LIKE\<close>) is applied to it. Integers are written in decimal by \<open>show_int\<close>.
  \<^item> Three-valued logic: a condition is \<open>bool option\<close>, with \<open>None\<close> for UNKNOWN;
    \<open>CASE WHEN\<close>, \<open>WHERE\<close> and \<open>ON\<close> keep a row only where the condition is
    \<open>Some True\<close> (\<open>sql_true\<close>). \<open>=\<close> and \<open>LIKE\<close> with a NULL operand are
    UNKNOWN.
    \<open>sql_eq\<close> compares two non-NULL values of the same kind exactly. MySQL's
    conversions across types (\<open>1 = 1.0\<close>, \<open>7 = '7'\<close>) and its collations are not
    modelled: values of different kinds compare unequal.
  \<^item> A table has an ordered list of typed columns and a list of rows. Row order is
    the insertion order; a bag of rows (\<open>mset\<close>) is what SQL promises.
  \<^item> Column ranges in strict mode, MySQL 8's default. \<open>INT\<close> holds a signed
    32-bit integer. \<open>VARCHAR(255)\<close> holds at most 255 characters (code points
    under utf8mb4). A value outside the range of its column fails the \<open>INSERT\<close>
    (errors 1264 and 1406). \<open>cell_fits\<close> checks these two ranges. The conversions
    between other types are not modelled.
  The pattern \<open>'%c%'\<close> is the only \<open>LIKE\<close> pattern the code uses. It is
  \<open>sql_like_contains\<close>: case folding of the default collation does not affect the
  digit patterns it is used with.
\<close>

datatype sqlval = VNull | VInt int | VFloat ustr | VText ustr | VDateTime ustr

datatype coltype = Varchar255 | SqlInt | SqlFloat | SqlDatetime | SqlBoolean

record table =
  tcols :: "(ustr \<times> coltype) list"
  trows :: "sqlval list list"

datatype sql_error =
    NoSuchTable ustr
  | UnknownColumn ustr
  | ColumnCountMismatch
  | WrongSchema ustr
  | OutOfRange ustr     \<comment> \<open>error 1264, with the column\<close>
  | DataTooLong ustr    \<comment> \<open>error 1406, with the column\<close>

definition int32_fits :: "int \<Rightarrow> bool" where
  "int32_fits i \<longleftrightarrow> - (2 ^ 31) \<le> i \<and> i < 2 ^ 31"

fun cell_fits :: "coltype \<Rightarrow> sqlval \<Rightarrow> bool" where
  "cell_fits SqlInt (VInt i) = int32_fits i"
| "cell_fits Varchar255 (VText s) = (length s \<le> 255)"
| "cell_fits _ _ = True"

text \<open>The error of the first cell of a row that does not fit its column.\<close>

definition misfit :: "(ustr \<times> coltype) list \<Rightarrow> sqlval list \<Rightarrow> sql_error option" where
  "misfit cols r =
     (case find (\<lambda>((n, t), v). \<not> cell_fits t v) (zip cols r) of
        None \<Rightarrow> None
      | Some ((n, t), v) \<Rightarrow> Some (if t = SqlInt then OutOfRange n else DataTooLong n))"

text \<open>The error of the first row of an \<open>INSERT\<close> that has a cell out of range.\<close>

fun first_misfit :: "(ustr \<times> coltype) list \<Rightarrow> sqlval list list \<Rightarrow> sql_error option" where
  "first_misfit cols [] = None"
| "first_misfit cols (r # rs) = (case misfit cols r of None \<Rightarrow> first_misfit cols rs | Some e \<Rightarrow> Some e)"

fun digits_of :: "nat \<Rightarrow> ustr" where
  "digits_of n = (if n < 10 then [48 + n] else digits_of (n div 10) @ [48 + n mod 10])"

declare digits_of.simps [simp del]

definition show_int :: "int \<Rightarrow> ustr" where
  "show_int i = (if i < 0 then 45 # digits_of (nat (- i)) else digits_of (nat i))"

fun sql_text :: "sqlval \<Rightarrow> ustr option" where
  "sql_text VNull = None"
| "sql_text (VInt i) = Some (show_int i)"
| "sql_text (VFloat s) = Some s"
| "sql_text (VText s) = Some s"
| "sql_text (VDateTime s) = Some s"

definition sql_like_contains :: "sqlval \<Rightarrow> ustr \<Rightarrow> bool option" where
  "sql_like_contains v pat = map_option (py_in pat) (sql_text v)"

fun sql_eq :: "sqlval \<Rightarrow> sqlval \<Rightarrow> bool option" where
  "sql_eq VNull _ = None"
| "sql_eq _ VNull = None"
| "sql_eq a b = Some (a = b)"

text \<open>\<open>AND\<close> of three-valued logic: FALSE wins over UNKNOWN.\<close>

fun sql_and :: "bool option \<Rightarrow> bool option \<Rightarrow> bool option" where
  "sql_and (Some False) _ = Some False"
| "sql_and _ (Some False) = Some False"
| "sql_and (Some True) (Some True) = Some True"
| "sql_and _ _ = None"

definition sql_true :: "bool option \<Rightarrow> bool" where
  "sql_true c \<longleftrightarrow> c = Some True"

definition is_null :: "sqlval \<Rightarrow> bool" where
  "is_null v \<longleftrightarrow> v = VNull"

fun col_index :: "(ustr \<times> coltype) list \<Rightarrow> ustr \<Rightarrow> nat option" where
  "col_index [] c = None"
| "col_index ((n, t) # cs) c = (if n = c then Some 0 else map_option Suc (col_index cs c))"

text \<open>The value of column \<open>c\<close> in a row of a table with columns \<open>cols\<close>.\<close>

definition cell :: "(ustr \<times> coltype) list \<Rightarrow> sqlval list \<Rightarrow> ustr \<Rightarrow> sqlval" where
  "cell cols r c =
     (case col_index cols c of None \<Rightarrow> VNull | Some i \<Rightarrow> if i < length r then r ! i else VNull)"

definition has_cols :: "(ustr \<times> coltype) list \<Rightarrow> ustr list \<Rightarrow> bool" where
  "has_cols cols cs \<longleftrightarrow> list_all (\<lambda>c. col_index cols c \<noteq> None) cs"

definition missing_col :: "(ustr \<times> coltype) list \<Rightarrow> ustr list \<Rightarrow> ustr option" where
  "missing_col cols cs = find (\<lambda>c. col_index cols c = None) cs"

declare sql_like_contains_def [pystr_eval] sql_true_def [pystr_eval] is_null_def [pystr_eval]
  show_int_def [pystr_eval] cell_def [pystr_eval]

subsection \<open>Lemmas\<close>

lemma digits_of_ne: "digits_of n \<noteq> []"
  by (subst digits_of.simps) simp

lemma digits_of_digits: "\<forall>d \<in> set (digits_of n). 48 \<le> d \<and> d \<le> 57"
proof (induction n rule: digits_of.induct)
  case (1 n)
  show ?case
  proof (cases "n < 10")
    case True
    then show ?thesis by (subst digits_of.simps) simp
  next
    case False
    with "1.IH" show ?thesis by (subst digits_of.simps) auto
  qed
qed

lemma sql_like_null [simp]: "sql_like_contains VNull p = None"
  by (simp add: sql_like_contains_def)

lemma sql_true_like_not_null: "sql_true (sql_like_contains v p) \<Longrightarrow> v \<noteq> VNull"
  by (auto simp: sql_true_def)

lemma sql_true_eq_iff: "sql_true (sql_eq a b) \<longleftrightarrow> a \<noteq> VNull \<and> a = b"
  by (cases a; cases b) (auto simp: sql_true_def)

lemma sql_true_and [simp]: "sql_true (sql_and a b) \<longleftrightarrow> sql_true a \<and> sql_true b"
  by (cases "(a, b)" rule: sql_and.cases) (auto simp: sql_true_def)

lemma int32_fits_sint: "int32_fits i \<longleftrightarrow> sint (word_of_int i :: 32 word) = i"
  by (simp add: int32_fits_def sint_sbintrunc' signed_take_bit_int_eq_self_iff)

lemma misfit_None_iff: "misfit cols r = None \<longleftrightarrow> (\<forall>((n, t), v) \<in> set (zip cols r). cell_fits t v)"
proof -
  have "misfit cols r = None \<longleftrightarrow> find (\<lambda>((n, t), v). \<not> cell_fits t v) (zip cols r) = None"
    by (auto simp: misfit_def split: option.splits prod.splits)
  then show ?thesis
    by (auto simp: find_None_iff)
qed

lemma first_misfit_None_iff: "first_misfit cols rs = None \<longleftrightarrow> (\<forall>r \<in> set rs. misfit cols r = None)"
  by (induction rs) (auto split: option.splits)

lemma col_index_None_iff: "col_index cs c = None \<longleftrightarrow> c \<notin> set (map fst cs)"
  by (induction cs c rule: col_index.induct) auto

lemma missing_col_None_iff: "missing_col cols cs = None \<longleftrightarrow> has_cols cols cs"
  by (auto simp: missing_col_def has_cols_def find_None_iff list_all_iff)

end
