(* ===== verification/Analytical.thy ===== *)
theory Analytical
  imports Sql
begin

text \<open>
  The analytical table of \<open>local_to_ec2_etl.py\<close>, step 4 (lines 136-180): a
  \<open>SELECT\<close> over the product table \<open>w\<close>, left joined with the inspection
  table \<open>b\<close> and the company table \<open>u\<close> on \<open>(doc_no, doc_cycl)\<close>, keeping the
  rows whose product name, type and country are not NULL. It computes two columns:
  the hazard flag (\<open>CASE WHEN rtrvl_rsn_cd IS NOT NULL THEN 1 ELSE 0\<close>) and the risk
  grade (\<open>CASE WHEN rtrvl_rsn_cd LIKE '%1%' ...\<close>, four values).

  A staging row is read through its table's columns as a function from column names
  to values, \<open>srow\<close>. A result row is the record \<open>arow\<close>, one field per selected
  column, in the order of the \<open>SELECT\<close>; the Korean aliases are named in the
  comments. \<open>analytic_select\<close> first checks that every referenced column exists,
  as MySQL does when it prepares the statement. It then evaluates the join row by row
  (\<open>join_rows\<close>) and applies the \<open>WHERE\<close> filter.
\<close>

type_synonym srow = "ustr \<Rightarrow> sqlval"

definition grade_danger :: ustr where \<comment> \<open>danger\<close>
  "grade_danger = [0xC704, 0xD5D8]"
definition grade_caution :: ustr where \<comment> \<open>caution\<close>
  "grade_caution = [0xC8FC, 0xC758]"
definition grade_watch :: ustr where \<comment> \<open>watch\<close>
  "grade_watch = [0xAD00, 0xC2EC]"
definition grade_normal :: ustr where \<comment> \<open>normal\<close>
  "grade_normal = [0xC815, 0xC0C1]"

definition hazard_flag :: "sqlval \<Rightarrow> int" where
  "hazard_flag code = (if \<not> is_null code then 1 else 0)"

definition risk_grade :: "sqlval \<Rightarrow> ustr" where
  "risk_grade code =
     (if sql_true (sql_like_contains code [0x31]) then grade_danger
      else if sql_true (sql_like_contains code [0x32]) then grade_caution
      else if sql_true (sql_like_contains code [0x33]) then grade_watch
      else grade_normal)"

record arow =
  a_doc_no :: sqlval
  a_doc_cycl :: sqlval
  a_prdct_nm :: sqlval      \<comment> \<open>product name\<close>
  a_prdct_type :: sqlval    \<comment> \<open>product type\<close>
  a_plor_nm :: sqlval       \<comment> \<open>country of manufacture\<close>
  a_mnftr_ymd :: sqlval     \<comment> \<open>manufacture date\<close>
  a_rtl_term :: sqlval      \<comment> \<open>shelf life\<close>
  a_safe_cert_no :: sqlval  \<comment> \<open>safety certification number\<close>
  a_prmsn_no :: sqlval      \<comment> \<open>product permit number\<close>
  a_rsn_nm :: sqlval        \<comment> \<open>recall action text\<close>
  a_rsn_cd :: sqlval        \<comment> \<open>recall action code\<close>
  a_rpt_ymd :: sqlval       \<comment> \<open>report date\<close>
  a_ntfctn_dt :: sqlval     \<comment> \<open>notification date\<close>
  a_cmd_bgng :: sqlval      \<comment> \<open>recall start date\<close>
  a_insp_item :: sqlval     \<comment> \<open>nonconforming inspection item\<close>
  a_insp_spec :: sqlval     \<comment> \<open>inspection specification\<close>
  a_insp_result :: sqlval   \<comment> \<open>inspection result\<close>
  a_bz_type :: sqlval       \<comment> \<open>company type\<close>
  a_bz_nm :: sqlval         \<comment> \<open>company name\<close>
  a_bz_brno :: sqlval       \<comment> \<open>business registration number\<close>
  a_bz_addr :: sqlval       \<comment> \<open>company address\<close>
  a_hazard :: int           \<comment> \<open>hazardous-product flag\<close>
  a_grade :: ustr           \<comment> \<open>risk grade\<close>

definition mk_arow :: "srow \<Rightarrow> srow \<Rightarrow> srow \<Rightarrow> arow" where
  "mk_arow w b u =
     \<lparr>a_doc_no = w (asc ''doc_no''), a_doc_cycl = w (asc ''doc_cycl''),
      a_prdct_nm = w (asc ''prdct_nm''), a_prdct_type = w (asc ''prdct_type_nm''),
      a_plor_nm = w (asc ''plor_nm''), a_mnftr_ymd = w (asc ''mnftr_ymd''),
      a_rtl_term = w (asc ''rtl_term_cn''), a_safe_cert_no = w (asc ''safe_cert_no''),
      a_prmsn_no = w (asc ''prdct_prmsn_no''), a_rsn_nm = w (asc ''rtrvl_rsn_nm''),
      a_rsn_cd = w (asc ''rtrvl_rsn_cd''), a_rpt_ymd = w (asc ''rpt_ymd''),
      a_ntfctn_dt = w (asc ''ntfctn_dt''), a_cmd_bgng = w (asc ''cmd_bgng_dd_cn''),
      a_insp_item = b (asc ''icpt_insp_artcl_cn''), a_insp_spec = b (asc ''icpt_insp_spcfct_cn''),
      a_insp_result = b (asc ''icpt_insp_rslt_cn''),
      a_bz_type = u (asc ''bzenty_type_nm''), a_bz_nm = u (asc ''bzenty_nm''),
      a_bz_brno = u (asc ''bzenty_brno''), a_bz_addr = u (asc ''bzenty_addr''),
      a_hazard = hazard_flag (w (asc ''rtrvl_rsn_cd'')),
      a_grade = risk_grade (w (asc ''rtrvl_rsn_cd''))\<rparr>"

definition product_cols :: "ustr list" where
  "product_cols = map asc [''doc_no'', ''doc_cycl'', ''prdct_nm'', ''prdct_type_nm'', ''plor_nm'',
     ''mnftr_ymd'', ''rtl_term_cn'', ''safe_cert_no'', ''prdct_prmsn_no'', ''rtrvl_rsn_nm'',
     ''rtrvl_rsn_cd'', ''rpt_ymd'', ''ntfctn_dt'', ''cmd_bgng_dd_cn'']"

definition inspection_cols :: "ustr list" where
  "inspection_cols = map asc [''doc_no'', ''doc_cycl'', ''icpt_insp_artcl_cn'',
     ''icpt_insp_spcfct_cn'', ''icpt_insp_rslt_cn'']"

definition company_cols :: "ustr list" where
  "company_cols = map asc [''doc_no'', ''doc_cycl'', ''bzenty_type_nm'', ''bzenty_nm'',
     ''bzenty_brno'', ''bzenty_addr'']"

text \<open>\<open>ON w.doc_no = b.doc_no AND w.doc_cycl = b.doc_cycl\<close>.\<close>

definition key_match :: "srow \<Rightarrow> srow \<Rightarrow> bool" where
  "key_match w b \<longleftrightarrow>
     sql_true (sql_and (sql_eq (w (asc ''doc_no'')) (b (asc ''doc_no'')))
                       (sql_eq (w (asc ''doc_cycl'')) (b (asc ''doc_cycl''))))"

definition null_row :: srow where
  "null_row = (\<lambda>_. VNull)"

text \<open>A left join keeps a row without partner once, padded with NULLs.\<close>

definition left_matches :: "srow \<Rightarrow> srow list \<Rightarrow> srow list" where
  "left_matches w bs = (let ms = filter (key_match w) bs in if ms = [] then [null_row] else ms)"

definition join_rows :: "srow list \<Rightarrow> srow list \<Rightarrow> srow list \<Rightarrow> arow list" where
  "join_rows W B U =
     concat (map (\<lambda>w. concat (map (\<lambda>b. map (mk_arow w b) (left_matches w U)) (left_matches w B))) W)"

definition where_ok :: "arow \<Rightarrow> bool" where
  "where_ok r \<longleftrightarrow>
     \<not> is_null (a_prdct_nm r) \<and> \<not> is_null (a_prdct_type r) \<and> \<not> is_null (a_plor_nm r)"

definition srows :: "table \<Rightarrow> srow list" where
  "srows t = map (cell (tcols t)) (trows t)"

definition analytic_select :: "table \<Rightarrow> table \<Rightarrow> table \<Rightarrow> sql_error + arow list" where
  "analytic_select tw tb tu =
     (case missing_col (tcols tw) product_cols of Some c \<Rightarrow> Inl (UnknownColumn c) | None \<Rightarrow>
      case missing_col (tcols tb) inspection_cols of Some c \<Rightarrow> Inl (UnknownColumn c) | None \<Rightarrow>
      case missing_col (tcols tu) company_cols of Some c \<Rightarrow> Inl (UnknownColumn c) | None \<Rightarrow>
      Inr (filter where_ok (join_rows (srows tw) (srows tb) (srows tu))))"

definition valid_grades :: "ustr list" where
  "valid_grades = [grade_danger, grade_caution, grade_watch, grade_normal]"

text \<open>The \<open>WHERE\<close> clause reads only product columns: as a test on the product row.\<close>

definition product_ok :: "srow \<Rightarrow> bool" where
  "product_ok w \<longleftrightarrow>
     \<not> is_null (w (asc ''prdct_nm'')) \<and> \<not> is_null (w (asc ''prdct_type_nm'')) \<and>
     \<not> is_null (w (asc ''plor_nm''))"

text \<open>
  Example staging tables used by the witnesses: three products (one with recall code
  12, one with a NULL code, one without a name), two inspection rows for the first
  product, no company rows.
\<close>

definition ex_product :: table where
  "ex_product = \<lparr>tcols = map (\<lambda>c. (c, Varchar255)) product_cols,
     trows = [[VInt 7, VInt 1, VText [0xAC00], VText [0xAC01], VText [0xAC02], VNull, VNull, VNull,
               VNull, VText [0xD68C], VInt 12, VNull, VNull, VNull],
              [VInt 8, VInt 1, VText [0xAC00], VText [0xAC01], VText [0xAC02], VNull, VNull, VNull,
               VNull, VNull, VNull, VNull, VNull, VNull],
              [VInt 9, VInt 1, VNull, VText [0xAC01], VText [0xAC02], VNull, VNull, VNull,
               VNull, VNull, VInt 3, VNull, VNull, VNull]]\<rparr>"

definition ex_inspection :: table where
  "ex_inspection = \<lparr>tcols = map (\<lambda>c. (c, Varchar255)) inspection_cols,
     trows = [[VInt 7, VInt 1, VText [0xB0A9], VNull, VText [0x31]],
              [VInt 7, VInt 1, VText [0xB0A9], VNull, VText [0x32]]]\<rparr>"

definition ex_company :: table where
  "ex_company = \<lparr>tcols = map (\<lambda>c. (c, Varchar255)) company_cols, trows = []\<rparr>"

lemmas grade_literals [pystr_eval] =
  grade_danger_def grade_caution_def grade_watch_def grade_normal_def valid_grades_def

abbreviation ex_rows :: "arow list" where
  "ex_rows \<equiv> projr (analytic_select ex_product ex_inspection ex_company)"

lemmas analytic_eval =
  analytic_select_def product_cols_def inspection_cols_def company_cols_def missing_col_def
  join_rows_def left_matches_def key_match_def srows_def where_ok_def mk_arow_def risk_grade_def
  hazard_flag_def digits_of.simps null_row_def product_ok_def
  ex_product_def ex_inspection_def ex_company_def

subsection \<open>Lemmas\<close>

lemma length_left_matches:
  "length (left_matches w bs) = max 1 (length (filter (key_match w) bs))"
  by (cases "filter (key_match w) bs") (simp_all add: left_matches_def Let_def)

lemma length_join_rows:
  "length (join_rows W B U) =
     sum_list (map (\<lambda>w. max 1 (length (filter (key_match w) B)) *
                        max 1 (length (filter (key_match w) U))) W)"
proof (induction W)
  case Nil
  then show ?case by (simp add: join_rows_def)
next
  case (Cons w W)
  have "length (concat (map (\<lambda>b. map (mk_arow w b) (left_matches w U)) (left_matches w B)))
        = length (left_matches w B) * length (left_matches w U)"
    by (simp add: length_concat comp_def sum_list_triv)
  with Cons show ?case
    by (simp add: join_rows_def length_left_matches)
qed

lemma set_join_rows:
  "r \<in> set (join_rows W B U) \<longleftrightarrow>
     (\<exists>w \<in> set W. \<exists>b \<in> set (left_matches w B). \<exists>u \<in> set (left_matches w U). r = mk_arow w b u)"
  by (auto simp: join_rows_def)

lemma mk_arow_fields [simp]:
  "a_prdct_nm (mk_arow w b u) = w (asc ''prdct_nm'')"
  "a_prdct_type (mk_arow w b u) = w (asc ''prdct_type_nm'')"
  "a_plor_nm (mk_arow w b u) = w (asc ''plor_nm'')"
  "a_rsn_cd (mk_arow w b u) = w (asc ''rtrvl_rsn_cd'')"
  "a_hazard (mk_arow w b u) = hazard_flag (w (asc ''rtrvl_rsn_cd''))"
  "a_grade (mk_arow w b u) = risk_grade (w (asc ''rtrvl_rsn_cd''))"
  "a_doc_no (mk_arow w b u) = w (asc ''doc_no'')"
  "a_doc_cycl (mk_arow w b u) = w (asc ''doc_cycl'')"
  by (simp_all add: mk_arow_def)

text \<open>Every row of the result is a row of the join: the shape of \<open>analytic_select\<close>.\<close>

lemma analytic_select_Inr:
  assumes "analytic_select tw tb tu = Inr rs"
  shows "rs = filter where_ok (join_rows (srows tw) (srows tb) (srows tu))"
  using assms by (simp add: analytic_select_def split: option.splits)

lemma analytic_select_rowD:
  assumes "analytic_select tw tb tu = Inr rs" and "r \<in> set rs"
  obtains w b u where "r = mk_arow w b u" and "where_ok r"
proof -
  from assms(2) have "r \<in> set (join_rows (srows tw) (srows tb) (srows tu))" and "where_ok r"
    unfolding analytic_select_Inr [OF assms(1)] by auto
  then show ?thesis using that by (auto simp: set_join_rows)
qed

lemma where_ok_mk_arow [simp]: "where_ok (mk_arow w b u) \<longleftrightarrow> product_ok w"
  by (simp add: where_ok_def product_ok_def)

lemma filter_where_ok_join:
  "filter where_ok (join_rows W B U) = join_rows (filter product_ok W) B U"
  by (induction W) (auto simp: join_rows_def filter_concat comp_def)

lemma risk_grade_cases:
  "risk_grade code \<in> set valid_grades"
  by (simp add: risk_grade_def valid_grades_def)

lemma risk_grade_not_normal:
  "risk_grade code \<noteq> grade_normal \<Longrightarrow> \<not> is_null code"
  by (auto simp: risk_grade_def is_null_def sql_true_def)

lemma ex_select_Inr: "analytic_select ex_product ex_inspection ex_company = Inr ex_rows"
  by (simp add: analytic_eval pystr_eval)

lemma ex_rows_members: "hd ex_rows \<in> set ex_rows \<and> last ex_rows \<in> set ex_rows"
  by (simp add: analytic_eval pystr_eval)

subsection \<open>Properties of the analytical table\<close>

text \<open>
  C5. Join cardinality: the table has, for every product row that passes the
  \<open>WHERE\<close> filter, as many rows as it has inspection partners times company partners,
  each count taken as 1 when there is no partner (the left join keeps the row once).
\<close>

theorem analytic_select_cardinality:
  assumes "analytic_select tw tb tu = Inr rs"
  shows "length rs =
    sum_list (map (\<lambda>w. max 1 (length (filter (key_match w) (srows tb))) *
                       max 1 (length (filter (key_match w) (srows tu))))
                  (filter product_ok (srows tw)))"
  using analytic_select_Inr [OF assms] by (simp add: filter_where_ok_join length_join_rows)

theorem analytic_select_cardinality_witness:
  "analytic_select ex_product ex_inspection ex_company = Inr ex_rows \<and> length ex_rows = 3"
proof -
  note e = ex_select_Inr
  have "sum_list (map (\<lambda>w. max 1 (length (filter (key_match w) (srows ex_inspection))) *
                       max 1 (length (filter (key_match w) (srows ex_company))))
                  (filter product_ok (srows ex_product))) = 3"
    by (simp add: analytic_eval pystr_eval)
  with e analytic_select_cardinality [OF e] show ?thesis by simp
qed

text \<open>
  C6. The \<open>WHERE\<close> filter holds of the result: no row of the analytical table has a
  NULL product name, product type or country of manufacture.
\<close>

theorem analytic_rows_not_null:
  assumes "analytic_select tw tb tu = Inr rs" and "r \<in> set rs"
  shows "\<not> is_null (a_prdct_nm r) \<and> \<not> is_null (a_prdct_type r) \<and> \<not> is_null (a_plor_nm r)"
proof -
  obtain w b u where "r = mk_arow w b u" and "where_ok r"
    by (rule analytic_select_rowD [OF assms])
  then show ?thesis by (simp add: where_ok_def)
qed

theorem analytic_rows_not_null_witness:
  "analytic_select ex_product ex_inspection ex_company = Inr ex_rows \<and>
   hd ex_rows
     \<in> set ex_rows \<and>
   \<not> is_null (a_prdct_nm (hd ex_rows))"
proof -
  note e = ex_select_Inr
  have m: "hd ex_rows \<in> set ex_rows"
    using ex_rows_members by simp
  from e m analytic_rows_not_null [OF e m] show ?thesis by simp
qed

text \<open>
  C7. Every row of the analytical table has one of the four risk grades, and a grade
  other than normal only occurs together with hazard flag 1: \<open>LIKE\<close> on a NULL code
  is UNKNOWN, so a NULL code always falls through to the normal grade.
\<close>

theorem analytic_grade_invariant:
  assumes "analytic_select tw tb tu = Inr rs" and "r \<in> set rs"
  shows "a_grade r \<in> set valid_grades \<and> (a_grade r \<noteq> grade_normal \<longrightarrow> a_hazard r = 1)"
proof -
  obtain w b u where r: "r = mk_arow w b u"
    by (rule analytic_select_rowD [OF assms])
  then show ?thesis
    using risk_grade_cases risk_grade_not_normal by (simp add: hazard_flag_def)
qed

theorem analytic_grade_invariant_witness:
  "analytic_select ex_product ex_inspection ex_company = Inr ex_rows \<and>
   hd ex_rows
     \<in> set ex_rows \<and>
   a_hazard (hd ex_rows) = 1"
proof -
  note e = ex_select_Inr
  have m: "hd ex_rows \<in> set ex_rows"
    using ex_rows_members by simp
  have g: "a_grade (hd ex_rows) \<noteq> grade_normal"
    by (simp add: analytic_eval pystr_eval)
  from e m g analytic_grade_invariant [OF e m] show ?thesis by simp
qed

text \<open>
  C8. The end-to-end example of the specification: a row whose recall code is NULL has
  hazard flag 0 and the normal grade; a row whose code contains the digit 1 has hazard
  flag 1 and the danger grade, whatever other digits it contains.
\<close>

theorem analytic_code_grade:
  assumes "analytic_select tw tb tu = Inr rs" and "r \<in> set rs"
  shows "(is_null (a_rsn_cd r) \<longrightarrow> a_hazard r = 0 \<and> a_grade r = grade_normal) \<and>
         (sql_true (sql_like_contains (a_rsn_cd r) [0x31]) \<longrightarrow>
            a_hazard r = 1 \<and> a_grade r = grade_danger)"
proof -
  obtain w b u where "r = mk_arow w b u"
    by (rule analytic_select_rowD [OF assms])
  then show ?thesis
    by (simp add: hazard_flag_def risk_grade_def is_null_def sql_true_def)
qed

theorem analytic_code_grade_witness:
  "analytic_select ex_product ex_inspection ex_company = Inr ex_rows \<and>
   last ex_rows
     \<in> set ex_rows \<and>
   a_hazard (last ex_rows) = 0 \<and>
   a_grade (last ex_rows) = grade_normal"
proof -
  note e = ex_select_Inr
  have m: "last ex_rows \<in> set ex_rows"
    using ex_rows_members by simp
  have n: "is_null (a_rsn_cd (last ex_rows))"
    by (simp add: analytic_eval pystr_eval)
  from e m n analytic_code_grade [OF e m] show ?thesis by simp
qed

end
