(* ===== verification/Store.thy ===== *)
theory Store
  imports Analytical
begin

text \<open>
  The databases the scripts read and write. A database maps table names to stored
  tables. Each table has one of the schemas the code creates:
  \<^item> a staging table (\<open>StagingT\<close>) with the columns inferred from a spreadsheet;
  \<^item> the analytical table (\<open>AnalyticT\<close>), whose rows are the \<open>arow\<close>s of the join;
  \<^item> the dataset table (\<open>DatasetT\<close>): \<open>id\<close>, the JSON \<open>input_data\<close> and
    \<open>output_text\<close> (ETL lines 186-194);
  \<^item> the history table (\<open>HistoryT\<close>): \<open>id\<close>, \<open>process_name\<close>, \<open>status\<close> and
    \<open>error_message\<close> (ETL lines 70-78).
  The \<open>created_at\<close>/\<open>updated_at\<close> timestamps are not modelled (there is no clock).
  \<open>AUTO_INCREMENT\<close> ids are modelled as the row's position, counted from 1; the gaps
  MySQL leaves after rolled-back inserts are not modelled.
  A JSON object is an association list in insertion order, as \<open>json.dumps\<close> writes a
  Python dict.
\<close>

record dsrow =
  ds_id :: nat
  ds_input :: "(ustr \<times> sqlval) list"
  ds_output :: ustr

record hrow =
  h_id :: nat
  h_process :: ustr
  h_status :: ustr
  h_error :: "ustr option"

datatype stored =
    StagingT table
  | AnalyticT "arow list"
  | DatasetT "dsrow list"
  | HistoryT "hrow list"

type_synonym database = "ustr \<rightharpoonup> stored"

definition t_product :: ustr where \<comment> \<open>product table\<close>
  "t_product = [0xC704, 0xD574, 0xC0C1, 0xD488]"
definition t_inspection :: ustr where \<comment> \<open>nonconforming-inspection table\<close>
  "t_inspection = [0xC704, 0xD574, 0xC0C1, 0xD488, 0xBD80, 0xC801, 0xD569, 0xAC80, 0xC0AC]"
definition t_company :: ustr where \<comment> \<open>company table\<close>
  "t_company = [0xC704, 0xD574, 0xC0C1, 0xD488, 0xC5C5, 0xCCB4]"
definition t_analytic :: ustr where \<comment> \<open>risk-analysis table\<close>
  "t_analytic = [0xC704, 0xD574, 0xC0C1, 0xD488, 0x5F, 0xC704, 0xD5D8, 0xB3C4, 0x5F, 0xBD84, 0xC11D]"
definition t_dataset :: ustr where \<comment> \<open>dataset table\<close>
  "t_dataset = [0xC704, 0xD574, 0xC0C1, 0xD488, 0x5F, 0xB370, 0xC774, 0xD130, 0xC14B]"
definition t_history :: ustr where \<comment> \<open>dataset update history table\<close>
  "t_history = [0xB370, 0xC774, 0xD130, 0xC14B, 0x5F, 0xCD5C, 0xC2E0, 0xD654, 0x5F, 0xC774, 0xB825]"

lemmas table_names [pystr_eval] =
  t_product_def t_inspection_def t_company_def t_analytic_def t_dataset_def t_history_def

fun stored_count :: "stored \<Rightarrow> nat" where
  "stored_count (StagingT t) = length (trows t)"
| "stored_count (AnalyticT rs) = length rs"
| "stored_count (DatasetT rs) = length rs"
| "stored_count (HistoryT rs) = length rs"

text \<open>\<open>CREATE TABLE IF NOT EXISTS\<close>: an existing table of that name is kept as it is.\<close>

definition create_if_absent :: "ustr \<Rightarrow> stored \<Rightarrow> database \<Rightarrow> database" where
  "create_if_absent n t db = (if n \<in> dom db then db else db(n \<mapsto> t))"

text \<open>The rows of the analytical table, as the validation queries read them.\<close>

definition analytic_rows :: "database \<Rightarrow> sql_error + arow list" where
  "analytic_rows db =
     (case db t_analytic of
        None \<Rightarrow> Inl (NoSuchTable t_analytic)
      | Some (AnalyticT rs) \<Rightarrow> Inr rs
      | Some _ \<Rightarrow> Inl (WrongSchema t_analytic))"

lemma create_if_absent_dom: "dom (create_if_absent n t db) = insert n (dom db)"
  by (auto simp: create_if_absent_def)

lemma create_if_absent_keeps: "db n = Some t' \<Longrightarrow> create_if_absent n t db = db"
  by (auto simp: create_if_absent_def)

lemma create_if_absent_other [simp]: "m \<noteq> n \<Longrightarrow> create_if_absent n t db m = db m"
  by (simp add: create_if_absent_def)

end
