(* ===== verification/Validation.thy ===== *)
theory Validation
  imports Store
begin

text \<open>
  The five check functions of \<open>data_validation.py\<close> (lines 54-167). Each runs one or
  two queries, logs what it found, and returns the query result. On a
  \<open>mysql.connector.Error\<close> it logs an error line and re-raises. So a check is a
  function from the database to the log lines it writes and either the SQL error
  (\<open>Inl\<close>) or its result (\<open>Inr\<close>).

  Log lines are (level, message) pairs. The message datatype has one constructor per
  distinct log call of the code, carrying the values the f-string interpolates; the
  Korean wording of each line is fixed by the constructor.

  The queries over the analytical table read its rows through
  \<open>Store.analytic_rows\<close>, which fails as MySQL does when the table is missing.
  \<^item> \<open>GROUP BY\<close> is \<open>remdups\<close> of the grouping key, in first-occurrence order,
    with NULL as one group, as in SQL.
  \<^item> \<open>ORDER BY ... DESC\<close> is a stable sort on the negated key, since SQL leaves the
    order of ties open.
  Grouping compares values exactly: the model does not follow the case- and
  trailing-space-insensitive comparisons of MySQL's default collations, which the
  numeric keys and generated grades are not subject to.
\<close>

datatype level = INFO | WARNING | ERROR

datatype check_name = CkRowCount ustr | CkAggregation | CkDuplicates | CkNulls | CkRange

datatype msg =
    MRowCount ustr nat
  | MAggHeader
  | MAggRow sqlval nat int
  | MDupHeader
  | MDupRow sqlval sqlval nat
  | MNoDup
  | MNullHeader
  | MNullTotal nat
  | MNullName "nat option"
  | MNullCountry "nat option"
  | MNullType "nat option"
  | MGradeHeader
  | MGradeRow ustr nat
  | MInvalidGrades nat
  | MAllGradesValid
  | MCheckFailed check_name sql_error

type_synonym log = "(level \<times> msg) list"

text \<open>The \<open>try ... except mysql.connector.Error\<close> shared by the four analytical checks.\<close>

definition with_analytic ::
  "check_name \<Rightarrow> (arow list \<Rightarrow> log \<times> 'a) \<Rightarrow> database \<Rightarrow> log \<times> (sql_error + 'a)" where
  "with_analytic ck body db =
     (case analytic_rows db of
        Inl e \<Rightarrow> ([(ERROR, MCheckFailed ck e)], Inl e)
      | Inr rs \<Rightarrow> (let (lg, r) = body rs in (lg, Inr r)))"

subsection \<open>check_row_count (lines 54-64)\<close>

definition check_row_count :: "database \<Rightarrow> ustr \<Rightarrow> log \<times> (sql_error + nat)" where
  "check_row_count db name =
     (case db name of
        None \<Rightarrow> ([(ERROR, MCheckFailed (CkRowCount name) (NoSuchTable name))], Inl (NoSuchTable name))
      | Some t \<Rightarrow> ([(INFO, MRowCount name (stored_count t))], Inr (stored_count t)))"

subsection \<open>check_aggregation (lines 66-86)\<close>

definition type_group :: "arow list \<Rightarrow> sqlval \<Rightarrow> sqlval \<times> nat \<times> int" where
  "type_group rs t =
     (let g = filter (\<lambda>r. a_prdct_type r = t) rs in (t, length g, sum_list (map a_hazard g)))"

definition aggregate :: "arow list \<Rightarrow> (sqlval \<times> nat \<times> int) list" where
  "aggregate rs = sort_key (\<lambda>(t, c, h). - h) (map (type_group rs) (remdups (map a_prdct_type rs)))"

definition check_aggregation :: "database \<Rightarrow> log \<times> (sql_error + (sqlval \<times> nat \<times> int) list)" where
  "check_aggregation =
     with_analytic CkAggregation
       (\<lambda>rs. let res = aggregate rs
             in ((INFO, MAggHeader) # map (\<lambda>(t, c, h). (INFO, MAggRow t c h)) res, res))"

subsection \<open>check_duplicates (lines 88-111)\<close>

definition dup_key :: "arow \<Rightarrow> sqlval \<times> sqlval" where
  "dup_key r = (a_doc_no r, a_doc_cycl r)"

definition key_count :: "arow list \<Rightarrow> sqlval \<times> sqlval \<Rightarrow> nat" where
  "key_count rs k = length (filter (\<lambda>r. dup_key r = k) rs)"

definition duplicates :: "arow list \<Rightarrow> ((sqlval \<times> sqlval) \<times> nat) list" where
  "duplicates rs =
     filter (\<lambda>(k, c). 1 < c) (map (\<lambda>k. (k, key_count rs k)) (remdups (map dup_key rs)))"

definition check_duplicates :: "database \<Rightarrow> log \<times> (sql_error + ((sqlval \<times> sqlval) \<times> nat) list)" where
  "check_duplicates =
     with_analytic CkDuplicates
       (\<lambda>rs. let ds = duplicates rs
             in (if ds \<noteq> []
                 then (WARNING, MDupHeader) # map (\<lambda>((n, c), k). (WARNING, MDupRow n c k)) ds
                 else [(INFO, MNoDup)], ds))"

subsection \<open>check_null_values (lines 113-134)\<close>

text \<open>\<open>SUM(...)\<close> over no rows is NULL (\<open>None\<close> in Python), not 0.\<close>

definition sql_sum :: "nat list \<Rightarrow> nat option" where
  "sql_sum xs = (if xs = [] then None else Some (sum_list xs))"

definition null_counts :: "arow list \<Rightarrow> nat \<times> nat option \<times> nat option \<times> nat option" where
  "null_counts rs =
     (length rs, sql_sum (map (\<lambda>r. if is_null (a_prdct_nm r) then 1 else 0) rs),
      sql_sum (map (\<lambda>r. if is_null (a_plor_nm r) then 1 else 0) rs),
      sql_sum (map (\<lambda>r. if is_null (a_prdct_type r) then 1 else 0) rs))"

definition check_null_values ::
  "database \<Rightarrow> log \<times> (sql_error + nat \<times> nat option \<times> nat option \<times> nat option)" where
  "check_null_values =
     with_analytic CkNulls
       (\<lambda>rs. let (t, n, c, p) = null_counts rs
             in ([(INFO, MNullHeader), (INFO, MNullTotal t), (INFO, MNullName n),
                  (INFO, MNullCountry c), (INFO, MNullType p)], (t, n, c, p)))"

subsection \<open>check_data_range (lines 136-167)\<close>

definition grade_distribution :: "arow list \<Rightarrow> (ustr \<times> nat) list" where
  "grade_distribution rs =
     map (\<lambda>g. (g, length (filter (\<lambda>r. a_grade r = g) rs))) (remdups (map a_grade rs))"

definition invalid_grades :: "arow list \<Rightarrow> nat" where
  "invalid_grades rs = length (filter (\<lambda>r. a_grade r \<notin> set valid_grades) rs)"

definition check_data_range :: "database \<Rightarrow> log \<times> (sql_error + (ustr \<times> nat) list)" where
  "check_data_range =
     with_analytic CkRange
       (\<lambda>rs. let dist = grade_distribution rs; bad = invalid_grades rs
             in ((INFO, MGradeHeader) # map (\<lambda>(g, k). (INFO, MGradeRow g k)) dist @
                 [if 0 < bad then (WARNING, MInvalidGrades bad) else (INFO, MAllGradesValid)],
                 dist))"

text \<open>A row with every column NULL, from which the examples are built by update.\<close>

definition blank_arow :: arow where
  "blank_arow =
     \<lparr>a_doc_no = VNull, a_doc_cycl = VNull, a_prdct_nm = VNull, a_prdct_type = VNull,
      a_plor_nm = VNull, a_mnftr_ymd = VNull, a_rtl_term = VNull, a_safe_cert_no = VNull,
      a_prmsn_no = VNull, a_rsn_nm = VNull, a_rsn_cd = VNull, a_rpt_ymd = VNull,
      a_ntfctn_dt = VNull, a_cmd_bgng = VNull, a_insp_item = VNull, a_insp_spec = VNull,
      a_insp_result = VNull, a_bz_type = VNull, a_bz_nm = VNull, a_bz_brno = VNull,
      a_bz_addr = VNull, a_hazard = 0, a_grade = grade_normal\<rparr>"

lemmas check_defs =
  with_analytic_def check_row_count_def check_aggregation_def check_duplicates_def
  check_null_values_def check_data_range_def

subsection \<open>Lemmas\<close>

lemma with_analytic_Inr:
  "analytic_rows db = Inr rs \<Longrightarrow> with_analytic ck body db = (fst (body rs), Inr (snd (body rs)))"
  by (simp add: with_analytic_def split: prod.split)

lemma with_analytic_Inl:
  "analytic_rows db = Inl e \<Longrightarrow> with_analytic ck body db = ([(ERROR, MCheckFailed ck e)], Inl e)"
  by (simp add: with_analytic_def)

lemma distinct_map_fst_duplicates: "distinct (map fst (duplicates rs))"
proof -
  have "distinct (map fst (map (\<lambda>k. (k, key_count rs k)) (remdups (map dup_key rs))))"
    by (simp add: comp_def)
  then show ?thesis
    by (simp add: duplicates_def distinct_map_filter)
qed

lemma mem_duplicates:
  "(k, c) \<in> set (duplicates rs) \<longleftrightarrow> k \<in> dup_key ` set rs \<and> c = key_count rs k \<and> 1 < c"
  by (auto simp: duplicates_def)

lemma key_count_pos: "k \<in> dup_key ` set rs \<Longrightarrow> 0 < key_count rs k"
  by (auto simp: key_count_def filter_empty_conv)

lemma invalid_grades_append [count_simps]:
  "invalid_grades (rs @ xs) = invalid_grades rs + invalid_grades xs"
  by (simp add: invalid_grades_def)

lemma invalid_grades_zero_iff: "invalid_grades rs = 0 \<longleftrightarrow> (\<forall>r \<in> set rs. a_grade r \<in> set valid_grades)"
  by (auto simp: invalid_grades_def filter_empty_conv)

lemma key_count_pos_image: "0 < key_count rs k \<Longrightarrow> k \<in> dup_key ` set rs"
proof -
  assume "0 < key_count rs k"
  then have "filter (\<lambda>r. dup_key r = k) rs \<noteq> []"
    by (auto simp: key_count_def)
  then obtain r where "r \<in> set rs" and "dup_key r = k"
    by (auto simp: filter_empty_conv)
  then show ?thesis by blast
qed

lemma sorted_aggregate: "sorted_wrt (\<lambda>x y. snd (snd y) \<le> snd (snd x)) (aggregate rs)"
proof -
  have "sorted (map (\<lambda>(t, c, h). - h) (aggregate rs))"
    unfolding aggregate_def by (rule sorted_sort_key)
  then show ?thesis
    by (simp add: sorted_wrt_map case_prod_beta)
qed

lemma mset_aggregate:
  "mset (aggregate rs) = mset (map (type_group rs) (remdups (map a_prdct_type rs)))"
  by (simp add: aggregate_def)

lemma aggregate_counts: "sum_list (map (\<lambda>g. fst (snd g)) (aggregate rs)) = length rs"
proof -
  have "sum_list (map (\<lambda>g. fst (snd g)) (aggregate rs))
        = sum_list (map (\<lambda>t. length (filter (\<lambda>r. a_prdct_type r = t) rs))
                        (remdups (map a_prdct_type rs)))"
    by (simp add: aggregate_def sum_list_map_sort_key comp_def type_group_def Let_def)
  also have "\<dots> = length rs"
    by (rule sum_list_map_filter_count)
  finally show ?thesis .
qed

lemma aggregate_keys_mset:
  "mset (map fst (aggregate rs)) = mset (remdups (map a_prdct_type rs))"
proof -
  have "map fst (map (type_group rs) ks) = ks" for ks
    by (induction ks) (simp_all add: type_group_def Let_def)
  then show ?thesis
    by (metis aggregate_def mset_map mset_sort)
qed

lemma check_aggregation_Inr:
  "analytic_rows db = Inr rs \<Longrightarrow>
   check_aggregation db =
     ((INFO, MAggHeader) # map (\<lambda>(t, c, h). (INFO, MAggRow t c h)) (aggregate rs), Inr (aggregate rs))"
  by (simp add: check_aggregation_def with_analytic_Inr Let_def)

lemma check_data_range_Inr:
  "analytic_rows db = Inr rs \<Longrightarrow>
   check_data_range db =
     ((INFO, MGradeHeader) # map (\<lambda>(g, k). (INFO, MGradeRow g k)) (grade_distribution rs) @
      [if 0 < invalid_grades rs then (WARNING, MInvalidGrades (invalid_grades rs))
       else (INFO, MAllGradesValid)], Inr (grade_distribution rs))"
  by (simp add: check_data_range_def with_analytic_Inr Let_def)

lemma analytic_rows_stored: "db t_analytic = Some (AnalyticT rs) \<Longrightarrow> analytic_rows db = Inr rs"
  by (simp add: analytic_rows_def)

lemma analytic_select_where_ok:
  "analytic_select tw tb tu = Inr rs \<Longrightarrow> r \<in> set rs \<Longrightarrow> where_ok r"
  by (metis analytic_select_rowD)

lemma analytic_select_grades:
  "analytic_select tw tb tu = Inr rs \<Longrightarrow> r \<in> set rs \<Longrightarrow> a_grade r \<in> set valid_grades"
  by (metis analytic_select_rowD mk_arow_fields(6) risk_grade_cases)

subsection \<open>Properties of the checks\<close>

text \<open>
  C9. The duplicate check returns exactly the (doc_no, doc_cycl) groups with more than
  one row, each once and with its true size. It writes the header and a warning per
  group when there are any, and the single "no duplicates" line otherwise.
\<close>

theorem check_duplicates_exact:
  assumes "analytic_rows db = Inr rs"
  shows "\<exists>lg ds. check_duplicates db = (lg, Inr ds) \<and> distinct (map fst ds) \<and>
           (\<forall>k c. (k, c) \<in> set ds \<longleftrightarrow> c = key_count rs k \<and> 1 < c) \<and>
           (lg = [(INFO, MNoDup)] \<longleftrightarrow> ds = [])"
proof -
  let ?ds = "duplicates rs"
  let ?lg = "if ?ds \<noteq> []
             then (WARNING, MDupHeader) # map (\<lambda>((n, c), k). (WARNING, MDupRow n c k)) ?ds
             else [(INFO, MNoDup)]"
  have eq: "check_duplicates db = (?lg, Inr ?ds)"
    using assms by (simp add: check_duplicates_def with_analytic_Inr Let_def)
  have mem: "(k, c) \<in> set ?ds \<longleftrightarrow> c = key_count rs k \<and> 1 < c" for k c
  proof
    assume "(k, c) \<in> set ?ds"
    then show "c = key_count rs k \<and> 1 < c" by (simp add: mem_duplicates)
  next
    assume a: "c = key_count rs k \<and> 1 < c"
    then have "k \<in> dup_key ` set rs" by (intro key_count_pos_image) simp
    with a show "(k, c) \<in> set ?ds" by (simp add: mem_duplicates)
  qed
  have lg: "?lg = [(INFO, MNoDup)] \<longleftrightarrow> ?ds = []"
    by simp
  show ?thesis
    using eq mem lg distinct_map_fst_duplicates by blast
qed

theorem check_duplicates_exact_witness:
  "analytic_rows [t_analytic \<mapsto> AnalyticT [blank_arow\<lparr>a_doc_no := VInt 1\<rparr>, blank_arow\<lparr>a_doc_no := VInt 1\<rparr>,
      blank_arow\<lparr>a_doc_no := VInt 2\<rparr>]] =
     Inr [blank_arow\<lparr>a_doc_no := VInt 1\<rparr>, blank_arow\<lparr>a_doc_no := VInt 1\<rparr>, blank_arow\<lparr>a_doc_no := VInt 2\<rparr>] \<and>
   key_count [blank_arow\<lparr>a_doc_no := VInt 1\<rparr>, blank_arow\<lparr>a_doc_no := VInt 1\<rparr>,
      blank_arow\<lparr>a_doc_no := VInt 2\<rparr>] (VInt 1, VNull) = 2"
proof -
  let ?rs = "[blank_arow\<lparr>a_doc_no := VInt 1\<rparr>, blank_arow\<lparr>a_doc_no := VInt 1\<rparr>, blank_arow\<lparr>a_doc_no := VInt 2\<rparr>]"
  have a: "analytic_rows [t_analytic \<mapsto> AnalyticT ?rs] = Inr ?rs"
    by (simp add: analytic_rows_def)
  have "key_count ?rs (VInt 1, VNull) = 2"
    by (simp add: key_count_def dup_key_def blank_arow_def)
  with a check_duplicates_exact [OF a] show ?thesis by simp
qed

text \<open>
  C10. The aggregation lists every product type exactly once and in descending order
  of hazardous count (the \<open>ORDER BY ... DESC\<close>). Its per-type totals add up to the
  number of rows of the analytical table.
\<close>

theorem check_aggregation_ordered:
  assumes "analytic_rows db = Inr rs"
  shows "\<exists>lg res. check_aggregation db = (lg, Inr res) \<and>
           sorted_wrt (\<lambda>x y. snd (snd y) \<le> snd (snd x)) res \<and>
           distinct (map fst res) \<and> set (map fst res) = a_prdct_type ` set rs \<and>
           sum_list (map (\<lambda>g. fst (snd g)) res) = length rs"
proof -
  have "distinct (map fst (aggregate rs))"
    using mset_eq_imp_distinct_iff [OF aggregate_keys_mset] by simp
  moreover have "set (map fst (aggregate rs)) = a_prdct_type ` set rs"
    using mset_eq_setD [OF aggregate_keys_mset] by simp
  ultimately show ?thesis
    using check_aggregation_Inr [OF assms] sorted_aggregate aggregate_counts by blast
qed

theorem check_aggregation_ordered_witness:
  "analytic_rows [t_analytic \<mapsto> AnalyticT [blank_arow\<lparr>a_prdct_type := VText [0x41]\<rparr>,
      blank_arow\<lparr>a_prdct_type := VText [0x42], a_hazard := 1\<rparr>]] =
     Inr [blank_arow\<lparr>a_prdct_type := VText [0x41]\<rparr>, blank_arow\<lparr>a_prdct_type := VText [0x42], a_hazard := 1\<rparr>] \<and>
   snd (check_aggregation [t_analytic \<mapsto> AnalyticT [blank_arow\<lparr>a_prdct_type := VText [0x41]\<rparr>,
      blank_arow\<lparr>a_prdct_type := VText [0x42], a_hazard := 1\<rparr>]]) =
     Inr [(VText [0x42], 1, 1), (VText [0x41], 1, 0)]"
proof -
  let ?rs = "[blank_arow\<lparr>a_prdct_type := VText [0x41]\<rparr>, blank_arow\<lparr>a_prdct_type := VText [0x42], a_hazard := 1\<rparr>]"
  have a: "analytic_rows [t_analytic \<mapsto> AnalyticT ?rs] = Inr ?rs"
    by (simp add: analytic_rows_def)
  from check_aggregation_ordered [OF a] obtain lg res
    where "check_aggregation [t_analytic \<mapsto> AnalyticT ?rs] = (lg, Inr res)" by blast
  moreover have "aggregate ?rs = [(VText [0x42], 1, 1), (VText [0x41], 1, 0)]"
    by (simp add: aggregate_def type_group_def blank_arow_def)
  ultimately show ?thesis
    using a check_aggregation_Inr [OF a] by simp
qed

text \<open>On a table built by the analytical join, the NULL check reports the row count and
  zero NULL product names, countries and product types; on an empty table the three sums
  are NULL.\<close>

lemma sum_list_map_zero: "(\<forall>x \<in> set xs. \<not> P x) \<Longrightarrow> sum_list (map (\<lambda>x. if P x then 1 else 0) xs) = (0::nat)"
  by (induction xs) auto

lemma check_null_values_analytic:
  assumes "analytic_select tw tb tu = Inr rs" and "db t_analytic = Some (AnalyticT rs)"
  shows "snd (check_null_values db) =
           Inr (length rs, if rs = [] then None else Some 0, if rs = [] then None else Some 0,
                if rs = [] then None else Some 0)"
proof -
  have "\<forall>r \<in> set rs. where_ok r"
    using analytic_select_where_ok [OF assms(1)] by blast
  then have "null_counts rs = (length rs, if rs = [] then None else Some 0, if rs = [] then None else Some 0,
                if rs = [] then None else Some 0)"
    by (simp add: null_counts_def sql_sum_def where_ok_def sum_list_map_zero)
  then show ?thesis
    using analytic_rows_stored [of db rs, OF assms(2)]
    by (simp add: check_null_values_def with_analytic_Inr)
qed

text \<open>On a table built by the analytical join, the range check finds no invalid grade: its
  last log line is "all grades valid", and its distribution only names the four valid grades.\<close>

lemma check_data_range_analytic:
  assumes "analytic_select tw tb tu = Inr rs" and "db t_analytic = Some (AnalyticT rs)"
  shows "\<exists>lg dist. check_data_range db = (lg, Inr dist) \<and> last lg = (INFO, MAllGradesValid) \<and>
           set (map fst dist) \<subseteq> set valid_grades"
proof -
  have v: "\<forall>r \<in> set rs. a_grade r \<in> set valid_grades"
    using analytic_select_grades [OF assms(1)] by blast
  then have "invalid_grades rs = 0"
    by (simp add: invalid_grades_zero_iff)
  moreover have "set (map fst (grade_distribution rs)) \<subseteq> set valid_grades"
    using v by (auto simp: grade_distribution_def)
  ultimately show ?thesis
    using check_data_range_Inr [OF analytic_rows_stored [of db rs, OF assms(2)]] by simp
qed

text \<open>
  C12. The range check counts exactly the rows with a grade outside the four valid
  ones: appending such rows to a table of valid rows makes its last log line a warning
  with the number of appended rows.
\<close>

theorem check_data_range_invalid_count:
  assumes "analytic_rows db = Inr (rs @ xs)"
    and "\<forall>r \<in> set rs. a_grade r \<in> set valid_grades"
    and "\<forall>r \<in> set xs. a_grade r \<notin> set valid_grades" and "xs \<noteq> []"
  shows "last (fst (check_data_range db)) = (WARNING, MInvalidGrades (length xs))"
proof -
  have "invalid_grades rs = 0"
    using assms(2) by (simp add: invalid_grades_zero_iff)
  moreover have "invalid_grades xs = length xs"
    using assms(3) by (simp add: invalid_grades_def)
  ultimately have "invalid_grades (rs @ xs) = length xs"
    by (simp add: invalid_grades_append)
  with assms(4) show ?thesis
    by (simp add: check_data_range_Inr [OF assms(1)])
qed

theorem check_data_range_invalid_count_witness:
  "analytic_rows [t_analytic \<mapsto> AnalyticT ([blank_arow] @ [blank_arow\<lparr>a_grade := [0x41]\<rparr>])] =
     Inr ([blank_arow] @ [blank_arow\<lparr>a_grade := [0x41]\<rparr>]) \<and>
   a_grade blank_arow \<in> set valid_grades \<and>
   a_grade (blank_arow\<lparr>a_grade := [0x41]\<rparr>) \<notin> set valid_grades \<and>
   [blank_arow\<lparr>a_grade := [0x41]\<rparr>] \<noteq> [] \<and>
   last (fst (check_data_range [t_analytic \<mapsto> AnalyticT ([blank_arow] @ [blank_arow\<lparr>a_grade := [0x41]\<rparr>])]))
     = (WARNING, MInvalidGrades 1)"
proof -
  have a: "analytic_rows [t_analytic \<mapsto> AnalyticT ([blank_arow] @ [blank_arow\<lparr>a_grade := [0x41]\<rparr>])] =
     Inr ([blank_arow] @ [blank_arow\<lparr>a_grade := [0x41]\<rparr>])"
    by (simp add: analytic_rows_def)
  have v: "\<forall>r \<in> set [blank_arow]. a_grade r \<in> set valid_grades"
    by (simp add: blank_arow_def valid_grades_def)
  have i: "\<forall>r \<in> set [blank_arow\<lparr>a_grade := [0x41]\<rparr>]. a_grade r \<notin> set valid_grades"
    by (simp add: pystr_eval)
  from check_data_range_invalid_count [OF a v i] a v i show ?thesis by simp
qed

text \<open>
  C13. Error path: when the analytical table does not exist, each of the four checks
  on it logs one error line naming the check and returns the SQL error; the row count
  of a missing table does the same.
\<close>

theorem checks_missing_table:
  assumes "db t_analytic = None"
  shows "check_aggregation db =
           ([(ERROR, MCheckFailed CkAggregation (NoSuchTable t_analytic))], Inl (NoSuchTable t_analytic)) \<and>
         check_duplicates db =
           ([(ERROR, MCheckFailed CkDuplicates (NoSuchTable t_analytic))], Inl (NoSuchTable t_analytic)) \<and>
         check_null_values db =
           ([(ERROR, MCheckFailed CkNulls (NoSuchTable t_analytic))], Inl (NoSuchTable t_analytic)) \<and>
         check_data_range db =
           ([(ERROR, MCheckFailed CkRange (NoSuchTable t_analytic))], Inl (NoSuchTable t_analytic)) \<and>
         check_row_count db t_analytic =
           ([(ERROR, MCheckFailed (CkRowCount t_analytic) (NoSuchTable t_analytic))],
            Inl (NoSuchTable t_analytic))"
proof -
  have "analytic_rows db = Inl (NoSuchTable t_analytic)"
    using assms by (simp add: analytic_rows_def)
  then show ?thesis
    using assms
    by (simp add: check_aggregation_def check_duplicates_def check_null_values_def
        check_data_range_def check_row_count_def with_analytic_Inl)
qed

theorem checks_missing_table_witness:
  "Map.empty t_analytic = (None :: stored option) \<and>
   check_row_count Map.empty t_analytic =
     ([(ERROR, MCheckFailed (CkRowCount t_analytic) (NoSuchTable t_analytic))], Inl (NoSuchTable t_analytic))"
  using checks_missing_table [of Map.empty] by simp

end
