(* ===== verification/Logging.thy ===== *)
theory Logging
  imports Validation "HOL-Library.List_Lexorder"
begin

text \<open>
  The logging set-up at the top of both scripts (ETL lines 12-31, validation lines 7-22).
  \<^item> \<open>if not os.path.exists(log_dir): os.makedirs(log_dir)\<close> is a check followed by a
    create. \<open>setup_step\<close> is one step of it on the set of existing directories, and
    \<open>setup_reach\<close> lets two script instances interleave their steps. \<open>os.makedirs\<close>
    raises \<open>FileExistsError\<close> when the directory exists (state \<open>SRaised\<close>).
  \<^item> The log file name is \<open>os.path.join(log_dir, f"<script>_{stamp}.log")\<close> with the
    stamp \<open>datetime.now().strftime('%Y%m%d_%H%M%S')\<close>. The time \<open>now\<close> is an input, a
    \<open>py_datetime\<close> with the field ranges of Python's \<open>datetime\<close> (\<open>dt_valid\<close>).
    \<open>%Y\<close> prints the year in decimal without padding (glibc), the other fields are
    zero-padded to two digits (\<open>zpad\<close>).
  \<^item> \<open>logging.basicConfig(level=INFO, format='%(asctime)s - %(levelname)s -
    %(message)s', handlers=[FileHandler(log_file), StreamHandler()])\<close>: \<open>emit\<close>
    formats a record with \<open>format_record\<close> and appends the line to the file and to
    the stream of \<open>StreamHandler()\<close>, which is \<open>sys.stderr\<close>, when its level passes the
    root level. \<open>asctime\<close> is the default
    \<open>Formatter.formatTime\<close>, \<open>'%Y-%m-%d %H:%M:%S'\<close> and \<open>',%03d'\<close> milliseconds.
\<close>

subsection \<open>The log directory\<close>

definition log_dir :: ustr where
  "log_dir = asc ''logs''"

datatype setup_pc = SCheck | SMakedirs | SReady | SRaised

text \<open>One step of \<open>if not os.path.exists(log_dir): os.makedirs(log_dir)\<close> on the set of
  existing directories; a finished or failed instance does not move.\<close>

fun setup_step :: "ustr set \<times> setup_pc \<Rightarrow> ustr set \<times> setup_pc" where
  "setup_step (fs, SCheck) = (fs, if log_dir \<in> fs then SReady else SMakedirs)"
| "setup_step (fs, SMakedirs) = (if log_dir \<in> fs then (fs, SRaised) else (insert log_dir fs, SReady))"
| "setup_step (fs, p) = (fs, p)"

text \<open>Two instances (for example the ETL and the validation started together) run the set-up
  concurrently; either may take the next step.\<close>

inductive setup_reach :: "ustr set \<times> setup_pc \<times> setup_pc \<Rightarrow> ustr set \<times> setup_pc \<times> setup_pc \<Rightarrow> bool"
  for s0 where
  start: "setup_reach s0 s0"
| left: "setup_reach s0 (fs, p, q) \<Longrightarrow> setup_step (fs, p) = (fs', p') \<Longrightarrow> setup_reach s0 (fs', p', q)"
| right: "setup_reach s0 (fs, p, q) \<Longrightarrow> setup_step (fs, q) = (fs', q') \<Longrightarrow> setup_reach s0 (fs', p, q')"

subsection \<open>The log file name\<close>

record py_datetime =
  dt_year :: nat
  dt_month :: nat
  dt_day :: nat
  dt_hour :: nat
  dt_minute :: nat
  dt_second :: nat
  dt_microsecond :: nat

definition is_leap :: "nat \<Rightarrow> bool" where
  "is_leap y \<longleftrightarrow> y mod 4 = 0 \<and> (y mod 100 \<noteq> 0 \<or> y mod 400 = 0)"

definition days_in_month :: "nat \<Rightarrow> nat \<Rightarrow> nat" where
  "days_in_month y m =
     (if m = 2 then (if is_leap y then 29 else 28) else if m \<in> {4, 6, 9, 11} then 30 else 31)"

text \<open>The field ranges that the constructor of \<open>datetime\<close> enforces.\<close>

definition dt_valid :: "py_datetime \<Rightarrow> bool" where
  "dt_valid t \<longleftrightarrow> 1 \<le> dt_year t \<and> dt_year t \<le> 9999 \<and> 1 \<le> dt_month t \<and> dt_month t \<le> 12 \<and>
     1 \<le> dt_day t \<and> dt_day t \<le> days_in_month (dt_year t) (dt_month t) \<and>
     dt_hour t < 24 \<and> dt_minute t < 60 \<and> dt_second t < 60 \<and> dt_microsecond t < 1000000"

text \<open>\<open>'%0<w>d'\<close>: decimal, padded with zeros on the left to at least \<open>w\<close> digits.\<close>

definition zpad :: "nat \<Rightarrow> nat \<Rightarrow> ustr" where
  "zpad w k = replicate (w - length (digits_of k)) 48 @ digits_of k"

definition strftime_stamp :: "py_datetime \<Rightarrow> ustr" where
  "strftime_stamp t =
     digits_of (dt_year t) @ zpad 2 (dt_month t) @ zpad 2 (dt_day t) @ [95] @
     zpad 2 (dt_hour t) @ zpad 2 (dt_minute t) @ zpad 2 (dt_second t)"

text \<open>\<open>posixpath.join(a, b)\<close>: an absolute \<open>b\<close> replaces \<open>a\<close>, otherwise a slash is put
  between them unless \<open>a\<close> is empty or ends with one.\<close>

definition path_join :: "ustr \<Rightarrow> ustr \<Rightarrow> ustr" where
  "path_join a b = (if take 1 b = [47] then b else if a = [] \<or> last a = 47 then a @ b else a @ 47 # b)"

definition log_file :: "ustr \<Rightarrow> py_datetime \<Rightarrow> ustr" where
  "log_file script now = path_join log_dir (script @ [95] @ strftime_stamp now @ asc ''.log'')"

definition etl_log_file :: "py_datetime \<Rightarrow> ustr" where
  "etl_log_file now = log_file (asc ''local_to_ec2_etl'') now"

definition val_log_file :: "py_datetime \<Rightarrow> ustr" where
  "val_log_file now = log_file (asc ''validation'') now"

subsection \<open>Formatting and emitting records\<close>

fun level_no :: "level \<Rightarrow> nat" where
  "level_no INFO = 20"
| "level_no WARNING = 30"
| "level_no ERROR = 40"

fun levelname :: "level \<Rightarrow> ustr" where
  "levelname INFO = asc ''INFO''"
| "levelname WARNING = asc ''WARNING''"
| "levelname ERROR = asc ''ERROR''"

definition root_level :: nat where
  "root_level = level_no INFO"

definition asctime :: "py_datetime \<Rightarrow> ustr" where
  "asctime t =
     digits_of (dt_year t) @ [45] @ zpad 2 (dt_month t) @ [45] @ zpad 2 (dt_day t) @ [32] @
     zpad 2 (dt_hour t) @ [58] @ zpad 2 (dt_minute t) @ [58] @ zpad 2 (dt_second t) @ [44] @
     zpad 3 (dt_microsecond t div 1000)"

definition log_sep :: ustr where
  "log_sep = asc '' - ''"

definition format_record :: "py_datetime \<Rightarrow> level \<Rightarrow> ustr \<Rightarrow> ustr" where
  "format_record t l m = asctime t @ log_sep @ levelname l @ log_sep @ m"

record log_sinks =
  file_lines :: "ustr list"
  stderr_lines :: "ustr list"

definition emit :: "py_datetime \<Rightarrow> level \<Rightarrow> ustr \<Rightarrow> log_sinks \<Rightarrow> log_sinks" where
  "emit t l m s =
     (if root_level \<le> level_no l
      then (let line = format_record t l m
            in s\<lparr>file_lines := file_lines s @ [line], stderr_lines := stderr_lines s @ [line]\<rparr>)
      else s)"

subsection \<open>Reference definitions\<close>

text \<open>\<open>fixed_digits n k\<close> is the last \<open>n\<close> decimal digits of \<open>k\<close>, the reference for
  \<open>zpad\<close> and \<open>digits_of\<close> on numbers of a known width. \<open>dt_key\<close> is the
  broken-down time down to the second, compared field by field (chronological order).\<close>

fun fixed_digits :: "nat \<Rightarrow> nat \<Rightarrow> ustr" where
  "fixed_digits 0 k = []"
| "fixed_digits (Suc n) k = fixed_digits n (k div 10) @ [48 + k mod 10]"

definition dt_key :: "py_datetime \<Rightarrow> nat list" where
  "dt_key t = [dt_year t, dt_month t, dt_day t, dt_hour t, dt_minute t, dt_second t]"

text \<open>The invariant of two concurrent set-ups started from the directories \<open>fs0\<close>.\<close>

definition setup_inv :: "ustr set \<Rightarrow> ustr set \<times> setup_pc \<times> setup_pc \<Rightarrow> bool" where
  "setup_inv fs0 s \<longleftrightarrow> (case s of (fs, p, q) \<Rightarrow>
     fs0 \<subseteq> fs \<and> fs \<subseteq> insert log_dir fs0 \<and>
     (p = SMakedirs \<longrightarrow> log_dir \<notin> fs0) \<and> (q = SMakedirs \<longrightarrow> log_dir \<notin> fs0) \<and>
     (p = SRaised \<longrightarrow> log_dir \<notin> fs0 \<and> q = SReady) \<and> (q = SRaised \<longrightarrow> log_dir \<notin> fs0 \<and> p = SReady) \<and>
     (log_dir \<in> fs \<and> log_dir \<notin> fs0 \<longrightarrow> p = SReady \<or> q = SReady) \<and>
     (p = SReady \<longrightarrow> log_dir \<in> fs) \<and> (q = SReady \<longrightarrow> log_dir \<in> fs))"

text \<open>\<open>s.split(sep, 1)\<close> for a line that contains the separator, and the level names.\<close>

definition split_sep :: "ustr \<Rightarrow> ustr \<Rightarrow> (ustr \<times> ustr) option" where
  "split_sep sep s =
     (if py_in sep s then Some (split_before sep s, drop (length (split_before sep s) + length sep) s)
      else None)"

definition level_of_name :: "ustr \<Rightarrow> level option" where
  "level_of_name n = find (\<lambda>l. levelname l = n) [INFO, WARNING, ERROR]"

definition parse_record :: "ustr \<Rightarrow> (ustr \<times> level \<times> ustr) option" where
  "parse_record line =
     (case split_sep log_sep line of
        None \<Rightarrow> None
      | Some (a, r) \<Rightarrow>
          (case split_sep log_sep r of
             None \<Rightarrow> None
           | Some (b, m) \<Rightarrow> map_option (\<lambda>l. (a, l, m)) (level_of_name b)))"

subsection \<open>Lemmas\<close>

lemma length_fixed_digits [simp]: "length (fixed_digits n k) = n"
  by (induction n arbitrary: k) auto

lemma fixed_digits_zero: "fixed_digits n 0 = replicate n 48"
  by (induction n) (auto simp: replicate_append_same)

lemma length_digits_of_le: "k < 10 ^ m \<Longrightarrow> 0 < m \<Longrightarrow> length (digits_of k) \<le> m"
proof (induction k arbitrary: m rule: digits_of.induct)
  case (1 k)
  show ?case
  proof (cases "k < 10")
    case True
    with "1.prems" show ?thesis by (subst digits_of.simps) simp
  next
    case False
    obtain m' where m: "m = Suc m'"
      using "1.prems"(2) by (cases m) auto
    have "0 < m'"
    proof (rule ccontr)
      assume "\<not> 0 < m'"
      with m "1.prems"(1) False show False by simp
    qed
    have "k div 10 < 10 ^ m'" using "1.prems"(1) m by (simp add: div_less_iff_less_mult mult.commute)
    with "1.IH" False \<open>0 < m'\<close> have "length (digits_of (k div 10)) \<le> m'" by blast
    with False m show ?thesis by (subst digits_of.simps) simp
  qed
qed

lemma length_digits_of_gt: "10 ^ m \<le> k \<Longrightarrow> m < length (digits_of k)"
proof (induction k arbitrary: m rule: digits_of.induct)
  case (1 k)
  show ?case
  proof (cases "k < 10")
    case True
    have "m = 0"
    proof (rule ccontr)
      assume "m \<noteq> 0"
      then have "(10::nat) ^ 1 \<le> 10 ^ m" by (intro power_increasing) simp_all
      with "1.prems" True show False by simp
    qed
    then show ?thesis by (simp add: digits_of_ne)
  next
    case False
    show ?thesis
    proof (cases m)
      case 0
      then show ?thesis by (simp add: digits_of_ne)
    next
      case (Suc m')
      have "(10 * 10 ^ m') div 10 \<le> k div 10" using "1.prems" Suc by (intro div_le_mono) simp
      then have "10 ^ m' \<le> k div 10" by simp
      with "1.IH" False have "m' < length (digits_of (k div 10))" by blast
      with False Suc show ?thesis by (subst digits_of.simps) simp
    qed
  qed
qed

lemma fixed_digits_pad: "length (digits_of k) \<le> n \<Longrightarrow>
  fixed_digits n k = replicate (n - length (digits_of k)) 48 @ digits_of k"
proof (induction k arbitrary: n rule: digits_of.induct)
  case (1 k)
  obtain n' where n: "n = Suc n'"
    using "1.prems" digits_of_ne by (cases n) auto
  show ?case
  proof (cases "k < 10")
    case True
    then show ?thesis
      by (subst (1 2) digits_of.simps) (simp add: n fixed_digits_zero replicate_append_same)
  next
    case False
    have d: "digits_of k = digits_of (k div 10) @ [48 + k mod 10]"
      using False by (subst digits_of.simps) simp
    with "1.prems" n have "length (digits_of (k div 10)) \<le> n'" by simp
    with "1.IH" False have "fixed_digits n' (k div 10) =
        replicate (n' - length (digits_of (k div 10))) 48 @ digits_of (k div 10)" by blast
    then show ?thesis by (simp add: n d)
  qed
qed

lemma zpad_fixed: "k < 10 ^ w \<Longrightarrow> 0 < w \<Longrightarrow> zpad w k = fixed_digits w k"
  by (simp add: zpad_def fixed_digits_pad length_digits_of_le)

lemma digits_of_fixed: "10 ^ (n - 1) \<le> k \<Longrightarrow> k < 10 ^ n \<Longrightarrow> 0 < n \<Longrightarrow> digits_of k = fixed_digits n k"
proof -
  assume a: "10 ^ (n - 1) \<le> k" "k < 10 ^ n" "0 < n"
  then have "length (digits_of k) = n"
    using length_digits_of_le [of k n] length_digits_of_gt [of "n - 1" k] by linarith
  then show ?thesis by (simp add: fixed_digits_pad)
qed

lemma less_append_same_length:
  fixes xs :: "'a::linorder list"
  shows "length xs = length ys \<Longrightarrow> (xs @ zs < ys @ ws) \<longleftrightarrow> xs < ys \<or> (xs = ys \<and> zs < ws)"
proof (induction xs arbitrary: ys)
  case Nil
  then show ?case by simp
next
  case (Cons x xs)
  then obtain y ys' where "ys = y # ys'" by (cases ys) auto
  with Cons show ?case by auto
qed

lemma less_same_prefix [simp]:
  fixes p :: "'a::linorder list"
  shows "(p @ xs < p @ ys) \<longleftrightarrow> xs < ys"
  by (induction p) auto

lemma fixed_digits_less:
  "a < 10 ^ n \<Longrightarrow> b < 10 ^ n \<Longrightarrow> (fixed_digits n a < fixed_digits n b) \<longleftrightarrow> a < b"
  and fixed_digits_eq:
  "a < 10 ^ n \<Longrightarrow> b < 10 ^ n \<Longrightarrow> (fixed_digits n a = fixed_digits n b) \<longleftrightarrow> a = b"
proof (induction n arbitrary: a b)
  case 0
  { case 1 then show ?case by simp }
  { case 2 then show ?case by simp }
next
  case (Suc n)
  { case 1
    have "a div 10 < 10 ^ n" "b div 10 < 10 ^ n"
      using 1 by (simp_all add: div_less_iff_less_mult mult.commute)
    with Suc.IH have ih: "(fixed_digits n (a div 10) < fixed_digits n (b div 10)) \<longleftrightarrow> a div 10 < b div 10"
      "(fixed_digits n (a div 10) = fixed_digits n (b div 10)) \<longleftrightarrow> a div 10 = b div 10" by blast+
    have "a < b \<longleftrightarrow> a div 10 < b div 10 \<or> (a div 10 = b div 10 \<and> a mod 10 < b mod 10)"
    proof -
      have "a = 10 * (a div 10) + a mod 10" "b = 10 * (b div 10) + b mod 10"
        "a mod 10 < 10" "b mod 10 < 10" by simp_all
      then show ?thesis by arith
    qed
    then show ?case by (simp add: less_append_same_length ih)
  }
  { case 2
    have "a div 10 < 10 ^ n" "b div 10 < 10 ^ n"
      using 2 by (simp_all add: div_less_iff_less_mult mult.commute)
    with Suc.IH have ih: "(fixed_digits n (a div 10) = fixed_digits n (b div 10)) \<longleftrightarrow> a div 10 = b div 10"
      by blast
    have "a = b \<longleftrightarrow> a div 10 = b div 10 \<and> a mod 10 = b mod 10"
      by (metis div_mult_mod_eq)
    then show ?case by (simp add: ih)
  }
qed

lemma days_in_month_le: "days_in_month y m \<le> 31"
  by (simp add: days_in_month_def)

lemma strftime_stamp_fixed:
  assumes "dt_valid t" and "1000 \<le> dt_year t"
  shows "strftime_stamp t =
    fixed_digits 4 (dt_year t) @ fixed_digits 2 (dt_month t) @ fixed_digits 2 (dt_day t) @ [95] @
    fixed_digits 2 (dt_hour t) @ fixed_digits 2 (dt_minute t) @ fixed_digits 2 (dt_second t)"
proof -
  have d: "dt_day t < 10 ^ 2" using assms(1) days_in_month_le [of "dt_year t" "dt_month t"]
    by (simp add: dt_valid_def)
  have "digits_of (dt_year t) = fixed_digits 4 (dt_year t)"
    using assms by (intro digits_of_fixed) (simp_all add: dt_valid_def)
  with assms(1) d show ?thesis
    by (simp add: strftime_stamp_def zpad_fixed dt_valid_def)
qed

lemma log_file_split:
  "take 1 script \<noteq> [47] \<Longrightarrow>
   log_file script t = asc ''logs/'' @ script @ [95] @ strftime_stamp t @ asc ''.log''"
  by (cases script) (simp_all add: log_file_def path_join_def log_dir_def asc_def)

lemma strftime_stamp_less:
  assumes "dt_valid t1" "dt_valid t2" "1000 \<le> dt_year t1" "1000 \<le> dt_year t2"
  shows "(strftime_stamp t1 < strftime_stamp t2) \<longleftrightarrow> dt_key t1 < dt_key t2"
    and "(strftime_stamp t1 = strftime_stamp t2) \<longleftrightarrow> dt_key t1 = dt_key t2"
proof -
  have b: "dt_year t1 < 10 ^ 4" "dt_year t2 < 10 ^ 4" "dt_month t1 < 10 ^ 2" "dt_month t2 < 10 ^ 2"
    "dt_day t1 < 10 ^ 2" "dt_day t2 < 10 ^ 2" "dt_hour t1 < 10 ^ 2" "dt_hour t2 < 10 ^ 2"
    "dt_minute t1 < 10 ^ 2" "dt_minute t2 < 10 ^ 2" "dt_second t1 < 10 ^ 2" "dt_second t2 < 10 ^ 2"
    using assms(1,2) days_in_month_le [of "dt_year t1" "dt_month t1"]
      days_in_month_le [of "dt_year t2" "dt_month t2"]
    by (simp_all add: dt_valid_def)
  show "(strftime_stamp t1 < strftime_stamp t2) \<longleftrightarrow> dt_key t1 < dt_key t2"
    using b by (simp add: strftime_stamp_fixed assms less_append_same_length fixed_digits_less
        fixed_digits_eq dt_key_def)
  show "(strftime_stamp t1 = strftime_stamp t2) \<longleftrightarrow> dt_key t1 = dt_key t2"
    using b by (simp add: strftime_stamp_fixed assms fixed_digits_eq dt_key_def)
qed

lemma setup_step_cases:
  assumes "setup_step (fs, p) = (fs', p')"
  obtains (check_ready) "p = SCheck" "log_dir \<in> fs" "fs' = fs" "p' = SReady"
    | (check_make) "p = SCheck" "log_dir \<notin> fs" "fs' = fs" "p' = SMakedirs"
    | (raised) "p = SMakedirs" "log_dir \<in> fs" "fs' = fs" "p' = SRaised"
    | (created) "p = SMakedirs" "log_dir \<notin> fs" "fs' = insert log_dir fs" "p' = SReady"
    | (stays) "p \<in> {SReady, SRaised}" "fs' = fs" "p' = p"
  using assms
  by (cases p; cases "log_dir \<in> fs") (simp_all add: check_ready check_make raised created stays)

lemma setup_reach_inv:
  assumes "setup_reach (fs0, SCheck, SCheck) s"
  shows "setup_inv fs0 s"
  using assms
proof (induction rule: setup_reach.induct)
  case start
  then show ?case by (auto simp: setup_inv_def)
next
  case (left fs p q fs' p')
  from left.hyps(2) show ?case
    by (cases rule: setup_step_cases) (use left.IH in \<open>auto simp: setup_inv_def\<close>)
next
  case (right fs p q fs' q')
  from right.hyps(2) show ?case
    by (cases rule: setup_step_cases) (use right.IH in \<open>auto simp: setup_inv_def\<close>)
qed

text \<open>Emission: every level the scripts use passes the \<open>INFO\<close> threshold, so each record
  goes to the file and to the stream as the same line.\<close>

lemma emit_line:
  "emit t l m s = s\<lparr>file_lines := file_lines s @ [format_record t l m],
                    stderr_lines := stderr_lines s @ [format_record t l m]\<rparr>"
  by (cases l) (simp_all add: emit_def root_level_def Let_def)

lemma emit_same_sinks:
  "file_lines s = stderr_lines s \<Longrightarrow> file_lines (emit t l m s) = stderr_lines (emit t l m s)"
  by (simp add: emit_line)

text \<open>A formatted line splits back, by \<open>line.split(' - ', 2)\<close>, into its time, its level
  and its message, whatever the message contains.\<close>

lemma split_sep_first:
  assumes "sep \<noteq> []" and "\<not> py_in sep (pre @ butlast sep)"
  shows "split_sep sep (pre @ sep @ rest) = Some (pre, rest)"
  using split_before_first [OF assms, of rest] by (simp add: split_sep_def)

lemma sublist_skip:
  "x \<notin> set ds \<Longrightarrow> sublist (x # s) (ds @ ys) \<longleftrightarrow> sublist (x # s) ys"
  by (induction ds) (auto simp: sublist_Cons_right)

lemma digits_of_set: "set (digits_of k) \<subseteq> {48..57}"
  using digits_of_digits [of k] by auto

lemma zpad_set: "set (zpad w k) \<subseteq> {48..57}"
  using digits_of_set [of k] by (auto simp: zpad_def)

lemma zpad_ne: "zpad w k \<noteq> []"
  by (simp add: zpad_def digits_of_ne)

lemma not_prefix_dash_zpad: "\<not> prefix (45 # s) (zpad w k @ r)"
proof
  assume "prefix (45 # s) (zpad w k @ r)"
  then have "hd (zpad w k) = 45" using zpad_ne [of w k] by (cases "zpad w k") auto
  moreover have "hd (zpad w k) \<in> set (zpad w k)" using zpad_ne [of w k] by simp
  ultimately show False using zpad_set [of w k] by auto
qed

lemma asctime_no_sep: "\<not> py_in log_sep (asctime t @ butlast log_sep)"
proof -
  have sp: "32 \<notin> set (digits_of k)" "32 \<notin> set (zpad w k)" for k w
    using digits_of_set [of k] zpad_set [of w k] by auto
  show ?thesis
    by (simp add: asctime_def log_sep_def asc_def sublist_skip sp sublist_Cons_right
        not_prefix_dash_zpad)
qed

lemma levelname_no_sep: "\<not> py_in log_sep (levelname l @ butlast log_sep)"
  by (cases l) (simp_all add: log_sep_def asc_def sublist_Cons_right)

lemma level_of_name_levelname [simp]: "level_of_name (levelname l) = Some l"
  by (cases l) (simp_all add: level_of_name_def asc_def)

lemma format_record_roundtrip: "parse_record (format_record t l m) = Some (asctime t, l, m)"
proof -
  have ne: "log_sep \<noteq> []" by (simp add: log_sep_def asc_def)
  show ?thesis
    by (simp add: parse_record_def format_record_def split_sep_first [OF ne asctime_no_sep]
        split_sep_first [OF ne levelname_no_sep])
qed

subsection \<open>Properties of the logging set-up\<close>

text \<open>C16. Two instances that start the set-up together (for example the ETL and the
  validation launched by one scheduler on a fresh machine) race between
  \<open>os.path.exists\<close> and \<open>os.makedirs\<close>. In every interleaving an instance fails with
  \<open>FileExistsError\<close> only if the directory did not exist at the start and the other
  instance created it in between; an instance that finishes the set-up finds the
  directory in place.\<close>

theorem log_dir_race:
  assumes "setup_reach (fs0, SCheck, SCheck) (fs, p, q)"
  shows "(p = SRaised \<longrightarrow> log_dir \<notin> fs0 \<and> q = SReady) \<and> (q = SRaised \<longrightarrow> log_dir \<notin> fs0 \<and> p = SReady) \<and>
         (p = SReady \<longrightarrow> log_dir \<in> fs) \<and> (q = SReady \<longrightarrow> log_dir \<in> fs)"
  using setup_reach_inv [OF assms] by (simp add: setup_inv_def)

theorem log_dir_race_witness:
  "setup_reach ({}, SCheck, SCheck) ({log_dir}, SReady, SRaised) \<and>
   log_dir \<notin> ({} :: ustr set) \<and> SReady = SReady \<and> log_dir \<in> {log_dir}"
proof -
  have r: "setup_reach ({}, SCheck, SCheck) ({log_dir}, SReady, SRaised)"
  proof -
    have "setup_reach ({}, SCheck, SCheck) ({}, SMakedirs, SCheck)"
      by (rule setup_reach.left [OF setup_reach.start]) simp
    then have "setup_reach ({}, SCheck, SCheck) ({}, SMakedirs, SMakedirs)"
      by (rule setup_reach.right) simp
    then have "setup_reach ({}, SCheck, SCheck) ({log_dir}, SReady, SMakedirs)"
      by (rule setup_reach.left) simp
    then show ?thesis
      by (rule setup_reach.right) simp
  qed
  from log_dir_race [OF r] r show ?thesis by simp
qed


text \<open>C22. Log file names follow time: for two start times with four-digit years, the name
  of the earlier run sorts before the name of the later one, and two runs get the same
  file exactly when they start in the same second (their lines then go into one file,
  which \<open>FileHandler\<close> opens for appending).\<close>

theorem log_file_chronological:
  assumes "take 1 script \<noteq> [47]" and "dt_valid t1" "dt_valid t2"
    and "1000 \<le> dt_year t1" "1000 \<le> dt_year t2"
  shows "(log_file script t1 < log_file script t2 \<longleftrightarrow> dt_key t1 < dt_key t2) \<and>
         (log_file script t1 = log_file script t2 \<longleftrightarrow> dt_key t1 = dt_key t2)"
proof -
  have "length (strftime_stamp t1) = length (strftime_stamp t2)"
    using assms by (simp add: strftime_stamp_fixed)
  then show ?thesis
    using strftime_stamp_less [OF assms(2-5)]
    by (simp add: log_file_split [OF assms(1)] less_append_same_length)
qed


definition ex_now1 :: py_datetime where
  "ex_now1 = \<lparr>dt_year = 2025, dt_month = 3, dt_day = 7, dt_hour = 9, dt_minute = 5, dt_second = 0,
     dt_microsecond = 123456\<rparr>"

definition ex_now2 :: py_datetime where
  "ex_now2 = ex_now1\<lparr>dt_microsecond := 987000\<rparr>"

theorem log_file_chronological_witness:
  "take 1 (asc ''local_to_ec2_etl'') \<noteq> [47] \<and> dt_valid ex_now1 \<and> dt_valid ex_now2 \<and>
   1000 \<le> dt_year ex_now1 \<and> 1000 \<le> dt_year ex_now2 \<and>
   etl_log_file ex_now1 = etl_log_file ex_now2 \<and> \<not> etl_log_file ex_now1 < etl_log_file ex_now2"
proof -
  have h: "take 1 (asc ''local_to_ec2_etl'') \<noteq> [47]" "dt_valid ex_now1" "dt_valid ex_now2"
    "1000 \<le> dt_year ex_now1" "1000 \<le> dt_year ex_now2"
    by (simp_all add: asc_def ex_now1_def ex_now2_def dt_valid_def days_in_month_def)
  have "dt_key ex_now1 = dt_key ex_now2" by (simp add: dt_key_def ex_now2_def)
  with log_file_chronological [OF h] h show ?thesis
    by (simp add: etl_log_file_def)
qed

end
