(* ===== verification/Retry.thy ===== *)
theory Retry
  imports Prelude
begin

text \<open>
  \<open>connect_with_retry(config, max_retries=3)\<close> of \<open>data_validation.py\<close>
  (lines 41-52). The loop \<open>for i in range(max_retries)\<close> tries
  \<open>mysql.connector.connect\<close>:
  \<^item> on success it returns the connection;
  \<^item> on a \<open>mysql.connector.Error\<close> in the last iteration it logs an error and re-raises;
  \<^item> on such an error before the last iteration it logs a warning and sleeps 2 seconds.
  Any other exception leaves the loop at once, since the \<open>except\<close> names only
  \<open>mysql.connector.Error\<close>. When \<open>max_retries \<le> 0\<close> the loop body never runs and
  the function returns \<open>None\<close>.

  The outcome of the \<open>i\<close>-th call of \<open>connect\<close> is given by a function
  \<open>nat \<Rightarrow> 'c attempt\<close>, which stands for the server and the network; the model makes
  no assumption about it. The run records the log lines, the number of connection
  attempts and the seconds slept. \<open>retry_loop outcome max_retries i\<close> is the loop as
  written, from iteration \<open>i\<close>; it terminates by the measure \<open>max_retries - i\<close>.
  \<open>retry_from i k\<close> is the same loop with \<open>k\<close> iterations left, a structural
  recursion on \<open>k\<close> that the lemmas about the results reason with.
\<close>

datatype 'c attempt = AOk 'c | ADbError ustr | AOtherError ustr

datatype py_exc = DbError ustr | OtherError ustr

datatype 'c conn_result = RConn 'c | RNone | RRaise py_exc

datatype retry_log = RetryWarning nat | RetryError ustr

record 'c retry_run =
  r_log :: "retry_log list"
  r_attempts :: nat
  r_slept :: nat
  r_result :: "'c conn_result"

fun retry_from :: "(nat \<Rightarrow> 'c attempt) \<Rightarrow> nat \<Rightarrow> nat \<Rightarrow> 'c retry_run" where
  "retry_from outcome i 0 = \<lparr>r_log = [], r_attempts = 0, r_slept = 0, r_result = RNone\<rparr>"
| "retry_from outcome i (Suc k) =
     (case outcome i of
        AOk c \<Rightarrow> \<lparr>r_log = [], r_attempts = 1, r_slept = 0, r_result = RConn c\<rparr>
      | AOtherError e \<Rightarrow> \<lparr>r_log = [], r_attempts = 1, r_slept = 0, r_result = RRaise (OtherError e)\<rparr>
      | ADbError e \<Rightarrow>
          (if k = 0
           then \<lparr>r_log = [RetryError e], r_attempts = 1, r_slept = 0, r_result = RRaise (DbError e)\<rparr>
           else (let r = retry_from outcome (Suc i) k
                 in r\<lparr>r_log := RetryWarning (Suc i) # r_log r, r_attempts := Suc (r_attempts r),
                      r_slept := 2 + r_slept r\<rparr>)))"

function (domintros) retry_loop :: "(nat \<Rightarrow> 'c attempt) \<Rightarrow> int \<Rightarrow> nat \<Rightarrow> 'c retry_run" where
  "retry_loop outcome max_retries i =
     (if int i < max_retries then
        (case outcome i of
           AOk c \<Rightarrow> \<lparr>r_log = [], r_attempts = 1, r_slept = 0, r_result = RConn c\<rparr>
         | AOtherError e \<Rightarrow> \<lparr>r_log = [], r_attempts = 1, r_slept = 0, r_result = RRaise (OtherError e)\<rparr>
         | ADbError e \<Rightarrow>
             (if int i = max_retries - 1
              then \<lparr>r_log = [RetryError e], r_attempts = 1, r_slept = 0, r_result = RRaise (DbError e)\<rparr>
              else (let r = retry_loop outcome max_retries (Suc i)
                    in r\<lparr>r_log := RetryWarning (Suc i) # r_log r, r_attempts := Suc (r_attempts r),
                         r_slept := 2 + r_slept r\<rparr>)))
      else \<lparr>r_log = [], r_attempts = 0, r_slept = 0, r_result = RNone\<rparr>)"
  by pat_completeness auto
termination by (relation "measure (\<lambda>(_, m, i). nat (m - int i))") auto

declare retry_loop.simps [simp del]

definition connect_with_retry :: "(nat \<Rightarrow> 'c attempt) \<Rightarrow> int \<Rightarrow> 'c retry_run" where
  "connect_with_retry outcome max_retries = retry_loop outcome max_retries 0"

subsection \<open>Lemmas\<close>

text \<open>The loop as written, counting \<open>i\<close> up to \<open>max_retries\<close>, is the structural
  recursion on the number of iterations left.\<close>

lemma retry_loop_from: "retry_loop outcome m i = retry_from outcome i (nat m - i)"
proof (induction outcome m i rule: retry_loop.induct)
  case (1 outcome m i)
  show ?case
  proof (cases "int i < m")
    case True
    define k where "k = nat m - Suc i"
    have k: "nat m - i = Suc k" using True unfolding k_def by linarith
    have last: "int i = m - 1 \<longleftrightarrow> k = 0" using True unfolding k_def by linarith
    show ?thesis
    proof (cases "outcome i")
      case (ADbError e)
      show ?thesis
      proof (cases "k = 0")
        case True
        with \<open>int i < m\<close> ADbError last show ?thesis
          by (subst retry_loop.simps) (simp add: k)
      next
        case False
        have ih: "retry_loop outcome m (Suc i) = retry_from outcome (Suc i) k"
          using 1 [OF \<open>int i < m\<close> ADbError] False last by (simp add: k_def)
        from \<open>int i < m\<close> ADbError False last show ?thesis
          by (subst retry_loop.simps) (simp add: k ih Let_def)
      qed
    qed (subst retry_loop.simps, simp add: True k)+
  next
    case False
    then show ?thesis by (subst retry_loop.simps) simp
  qed
qed

lemma connect_with_retry_from: "connect_with_retry outcome m = retry_from outcome 0 (nat m)"
  by (simp add: connect_with_retry_def retry_loop_from)

lemma retry_from_attempts_le: "r_attempts (retry_from outcome i k) \<le> k"
  by (induction outcome i k rule: retry_from.induct) (auto simp: Let_def split: attempt.split)

lemma retry_from_attempts_pos: "0 < r_attempts (retry_from outcome i (Suc k))"
  by (auto simp: Let_def split: attempt.split)

lemma retry_from_not_none: "r_result (retry_from outcome i (Suc k)) \<noteq> RNone"
  by (induction k arbitrary: i) (auto simp: Let_def split: attempt.split)

lemma retry_from_slept: "r_slept (retry_from outcome i k) = 2 * (r_attempts (retry_from outcome i k) - 1)"
proof (induction outcome i k rule: retry_from.induct)
  case (2 outcome i k)
  then show ?case
  proof (cases "outcome i")
    case (ADbError e)
    show ?thesis
    proof (cases k)
      case 0
      with ADbError show ?thesis by simp
    next
      case (Suc k')
      have "0 < r_attempts (retry_from outcome (Suc i) k)"
        using Suc retry_from_attempts_pos by simp
      with 2 ADbError Suc show ?thesis by (simp add: Let_def)
    qed
  qed simp_all
qed simp

lemma retry_from_success:
  assumes "\<forall>j < n. \<exists>e. outcome (i + j) = ADbError e" and "outcome (i + n) = AOk c" and "n < k"
  shows "retry_from outcome i k =
           \<lparr>r_log = map (\<lambda>j. RetryWarning (Suc (i + j))) [0..<n], r_attempts = Suc n,
            r_slept = 2 * n, r_result = RConn c\<rparr>"
  using assms
proof (induction n arbitrary: i k)
  case 0
  then obtain k' where "k = Suc k'" by (cases k) auto
  with "0.prems"(2) show ?case by simp
next
  case (Suc n)
  obtain k' where k: "k = Suc k'" and "n < k'"
    using Suc.prems(3) by (cases k) auto
  obtain e where e: "outcome i = ADbError e"
    using Suc.prems(1) by (metis add_0_right zero_less_Suc)
  have ih: "retry_from outcome (Suc i) k' =
           \<lparr>r_log = map (\<lambda>j. RetryWarning (Suc (Suc i + j))) [0..<n], r_attempts = Suc n,
            r_slept = 2 * n, r_result = RConn c\<rparr>"
    using Suc.prems \<open>n < k'\<close> by (intro Suc.IH) (auto simp: add_Suc_shift)
  have "k' \<noteq> 0" using \<open>n < k'\<close> by simp
  with k e ih show ?case
    by (simp add: Let_def map_upt_Suc del: upt_Suc)
qed

lemma retry_from_all_fail:
  assumes "\<forall>j < k. outcome (i + j) = ADbError (errs j)" and "0 < k"
  shows "retry_from outcome i k =
           \<lparr>r_log = map (\<lambda>j. RetryWarning (Suc (i + j))) [0..<k - 1] @ [RetryError (errs (k - 1))],
            r_attempts = k, r_slept = 2 * (k - 1), r_result = RRaise (DbError (errs (k - 1)))\<rparr>"
  using assms
proof (induction k arbitrary: i errs)
  case 0
  then show ?case by simp
next
  case (Suc k)
  have e: "outcome i = ADbError (errs 0)"
    using Suc.prems(1) by (metis add_0_right zero_less_Suc)
  show ?case
  proof (cases "k = 0")
    case True
    with e show ?thesis by simp
  next
    case False
    have p: "\<forall>j < k. outcome (Suc i + j) = ADbError (errs (Suc j))"
    proof (intro allI impI)
      fix j
      assume "j < k"
      then show "outcome (Suc i + j) = ADbError (errs (Suc j))"
        using Suc.prems(1) [rule_format, of "Suc j"] by simp
    qed
    have ih: "retry_from outcome (Suc i) k =
           \<lparr>r_log = map (\<lambda>j. RetryWarning (Suc (Suc i + j))) [0..<k - 1] @
                    [RetryError (errs (Suc (k - 1)))],
            r_attempts = k, r_slept = 2 * (k - 1), r_result = RRaise (DbError (errs (Suc (k - 1))))\<rparr>"
      using Suc.IH [of "Suc i" "\<lambda>j. errs (Suc j)"] p False by simp
    have step: "retry_from outcome i (Suc k) =
        (let r = retry_from outcome (Suc i) k
         in r\<lparr>r_log := RetryWarning (Suc i) # r_log r, r_attempts := Suc (r_attempts r),
              r_slept := 2 + r_slept r\<rparr>)"
      using e False by simp
    obtain k' where k: "k = Suc k'"
      using False by (cases k) auto
    show ?thesis
      unfolding step ih by (simp add: k map_upt_Suc del: upt_Suc)
  qed
qed

subsection \<open>Properties of connect_with_retry\<close>

text \<open>
  C14. Success after failures: if the first \<open>n\<close> attempts fail with database errors,
  attempt \<open>n\<close> succeeds, and \<open>n < max_retries\<close>, the function returns that
  connection. It has logged one warning per failed attempt, numbered 1 to \<open>n\<close>, and
  slept \<open>2 n\<close> seconds.
\<close>

theorem connect_with_retry_success:
  assumes "\<forall>j < n. \<exists>e. outcome j = ADbError e" and "outcome n = AOk c" and "int n < max_retries"
  shows "connect_with_retry outcome max_retries =
           \<lparr>r_log = map (\<lambda>j. RetryWarning (Suc j)) [0..<n], r_attempts = Suc n,
            r_slept = 2 * n, r_result = RConn c\<rparr>"
proof -
  have "n < nat max_retries" using assms(3) by simp
  then show ?thesis
    using retry_from_success [of n outcome 0 c "nat max_retries"] assms(1,2)
    by (simp add: connect_with_retry_from)
qed

theorem connect_with_retry_success_witness:
  "(\<lambda>j::nat. if j < 2 then ADbError [0x45] else AOk (42::nat)) 0 = ADbError [0x45] \<and>
   (\<lambda>j::nat. if j < 2 then ADbError [0x45] else AOk (42::nat)) 1 = ADbError [0x45] \<and>
   (\<lambda>j::nat. if j < 2 then ADbError [0x45] else AOk (42::nat)) 2 = AOk 42 \<and> int 2 < 3 \<and>
   r_result (connect_with_retry (\<lambda>j. if j < 2 then ADbError [0x45] else AOk (42::nat)) 3) = RConn 42 \<and>
   r_slept (connect_with_retry (\<lambda>j. if j < 2 then ADbError [0x45] else AOk (42::nat)) 3) = 4"
proof -
  let ?o = "\<lambda>j::nat. if j < 2 then ADbError [0x45] else AOk (42::nat)"
  have a: "\<forall>j < 2. \<exists>e. ?o j = ADbError e" by auto
  have b: "?o 2 = AOk 42" by simp
  have c: "int 2 < 3" by simp
  from connect_with_retry_success [OF a b c] a b c show ?thesis by simp
qed

text \<open>
  C15. Exhaustion: if all \<open>max_retries > 0\<close> attempts fail with database errors, the
  function re-raises the error of the last attempt. It has logged \<open>max_retries - 1\<close>
  warnings and then one error line with that error, and slept
  \<open>2 (max_retries - 1)\<close> seconds.
\<close>

theorem connect_with_retry_exhausted:
  assumes "\<forall>j < nat max_retries. outcome j = ADbError (errs j)" and "0 < max_retries"
  shows "connect_with_retry outcome max_retries =
           \<lparr>r_log = map (\<lambda>j. RetryWarning (Suc j)) [0..<nat max_retries - 1] @
                    [RetryError (errs (nat max_retries - 1))],
            r_attempts = nat max_retries, r_slept = 2 * (nat max_retries - 1),
            r_result = RRaise (DbError (errs (nat max_retries - 1)))\<rparr>"
  using retry_from_all_fail [of "nat max_retries" outcome 0 errs] assms
  by (simp add: connect_with_retry_from)

theorem connect_with_retry_exhausted_witness:
  "(0::int) < 3 \<and>
   r_result (connect_with_retry (\<lambda>j. ADbError [0x45 + j] :: nat attempt) 3) = RRaise (DbError [0x47]) \<and>
   r_log (connect_with_retry (\<lambda>j. ADbError [0x45 + j] :: nat attempt) 3) =
     [RetryWarning 1, RetryWarning 2, RetryError [0x47]]"
proof -
  have a: "\<forall>j < nat 3. (\<lambda>j. ADbError [0x45 + j]) j = (ADbError ([0x45 + j]) :: nat attempt)" by simp
  have b: "(0::int) < 3" by simp
  from connect_with_retry_exhausted [where errs = "\<lambda>j. [0x45 + j]", OF a b] a b
  show ?thesis by (simp add: upt_rec)
qed

text \<open>
  Bounds: the loop makes at most \<open>max_retries\<close> attempts (none when
  \<open>max_retries \<le> 0\<close>), and sleeps 2 seconds between consecutive attempts only,
  so never more than \<open>2 (max_retries - 1)\<close> seconds, whatever the connection outcomes.
\<close>

lemma connect_with_retry_bounds:
  "r_attempts (connect_with_retry outcome max_retries) \<le> nat max_retries \<and>
   r_slept (connect_with_retry outcome max_retries) =
     2 * (r_attempts (connect_with_retry outcome max_retries) - 1) \<and>
   r_slept (connect_with_retry outcome max_retries) \<le> 2 * (nat max_retries - 1)"
  using retry_from_attempts_le [of outcome 0 "nat max_retries"]
    retry_from_slept [of outcome 0 "nat max_retries"]
  by (simp add: connect_with_retry_from)

text \<open>
  C17. A non-positive retry count makes no attempt at all and returns \<open>None\<close> without
  raising or logging: \<open>range(max_retries)\<close> is empty.
\<close>

theorem connect_with_retry_nonpositive:
  assumes "max_retries \<le> 0"
  shows "connect_with_retry outcome max_retries =
           \<lparr>r_log = [], r_attempts = 0, r_slept = 0, r_result = RNone\<rparr>"
  using assms by (simp add: connect_with_retry_from)

theorem connect_with_retry_nonpositive_witness:
  "(0::int) \<le> 0 \<and>
   r_result (connect_with_retry (\<lambda>j. AOk (42::nat)) 0) = RNone"
  using connect_with_retry_nonpositive [of 0 "\<lambda>j. AOk (42::nat)"] by simp

text \<open>
  An exception other than \<open>mysql.connector.Error\<close> is not retried: it leaves the
  loop after one attempt, without a log line or a sleep.
\<close>

lemma connect_with_retry_other_error:
  assumes "outcome 0 = AOtherError e" and "0 < max_retries"
  shows "connect_with_retry outcome max_retries =
           \<lparr>r_log = [], r_attempts = 1, r_slept = 0, r_result = RRaise (OtherError e)\<rparr>"
proof -
  obtain k where "nat max_retries = Suc k"
    using assms(2) by (cases "nat max_retries") auto
  with assms(1) show ?thesis by (simp add: connect_with_retry_from)
qed

text \<open>
  Termination: the loop \<open>for i in range(max_retries)\<close> ends for every retry count,
  every start index and every sequence of connection outcomes, after at most
  \<open>max_retries - i\<close> calls of \<open>connect\<close>.
\<close>

lemma retry_loop_terminates:
  "retry_loop_dom (outcome, m, i) \<and> r_attempts (retry_loop outcome m i) \<le> nat m - i"
proof
  show "retry_loop_dom (outcome, m, i)"
  proof (induction "nat m - i" arbitrary: i rule: less_induct)
    case less
    show ?case
    proof (rule retry_loop.domintros)
      assume "int i < m"
      then show "retry_loop_dom (outcome, m, Suc i)" by (intro less) linarith
    qed
  qed
  show "r_attempts (retry_loop outcome m i) \<le> nat m - i"
    using retry_from_attempts_le [of outcome i "nat m - i"] by (simp add: retry_loop_from)
qed

text \<open>
  C18. A positive retry count never lets the function fall off the end of its loop: whatever
  the connection outcomes, it makes at least one attempt and then either returns a
  connection or raises. \<open>None\<close>, on which the caller's \<open>.cursor()\<close> fails, comes only
  from \<open>max_retries \<le> 0\<close>; the test \<open>i == max_retries - 1\<close> is what makes the last
  failed attempt raise.
\<close>

theorem connect_with_retry_never_none:
  assumes "0 < max_retries"
  shows "r_result (connect_with_retry outcome max_retries) \<noteq> RNone \<and>
         0 < r_attempts (connect_with_retry outcome max_retries)"
proof -
  obtain k where k: "nat max_retries = Suc k"
    using assms by (cases "nat max_retries") auto
  show ?thesis
    using retry_from_not_none [of outcome 0 k] retry_from_attempts_pos [of outcome 0 k]
    by (simp add: connect_with_retry_from k)
qed

theorem connect_with_retry_never_none_witness:
  "(0::int) < 3 \<and> r_result (connect_with_retry (\<lambda>j. ADbError [0x45] :: nat attempt) 3) \<noteq> RNone"
  using connect_with_retry_never_none [of 3 "\<lambda>j. ADbError [0x45] :: nat attempt"] by simp

end
