(* ===== verification/Staging.thy ===== *)
theory Staging
  imports Store
begin

text \<open>
  Step 3 of \<open>local_to_ec2_etl.py\<close> (lines 84-133), for one spreadsheet after download
  and decoding. The decoded spreadsheet is a \<open>frame\<close>: its columns with their pandas
  dtypes, and its rows of pandas cells.
  \<^item> \<open>mysql_type_of\<close> is \<open>type_mapping.get(str(dtype), 'VARCHAR(255)')\<close>
    (lines 98-108). The mapping is an association list keyed by the dtype's name, as
    the Python dict is.
  \<^item> \<open>create_staging\<close> is the \<open>CREATE TABLE IF NOT EXISTS\<close> of lines 111-117.
    MySQL refuses a table without columns.
  \<^item> \<open>normalize_cell\<close> is the two \<open>df.replace\<close> calls of lines 121-122, which turn
    \<open>pd.NA\<close> and \<open>NaN\<close> into \<open>None\<close>. A \<open>NaT\<close> of a datetime column is
    treated as a missing value too.
  \<^item> \<open>insert_staging\<close> is the \<open>executemany\<close> of lines 124-132 followed by the
    commit. The \<open>INSERT\<close> names the frame's columns, so a column the existing table
    lacks is an unknown-column error. A column of the table that the frame lacks gets
    NULL. A cell out of the range of its column (\<open>cell_fits\<close>) fails the statement.
    The rows of one \<open>executemany\<close> are committed together or, on error, not at all.
  \<open>load_staging\<close> composes them as the loop body does. It returns the committed database
  with the error that stopped the load, if any: the \<open>CREATE TABLE\<close> commits at once, so
  a table created before a failing \<open>INSERT\<close> stays.
\<close>

datatype dtype = DObject | DInt64 | DFloat64 | DDatetime64 | DBool | DOther string

fun dtype_name :: "dtype \<Rightarrow> string" where
  "dtype_name DObject = ''object''"
| "dtype_name DInt64 = ''int64''"
| "dtype_name DFloat64 = ''float64''"
| "dtype_name DDatetime64 = ''datetime64[ns]''"
| "dtype_name DBool = ''bool''"
| "dtype_name (DOther n) = n"

definition type_mapping :: "(string \<times> coltype) list" where
  "type_mapping =
     [(''object'', Varchar255), (''int64'', SqlInt), (''float64'', SqlFloat),
      (''datetime64[ns]'', SqlDatetime), (''bool'', SqlBoolean)]"

definition mysql_type_of :: "dtype \<Rightarrow> coltype" where
  "mysql_type_of d = (case map_of type_mapping (dtype_name d) of None \<Rightarrow> Varchar255 | Some t \<Rightarrow> t)"

datatype pcell = PNaN | PNone | PVal sqlval

record frame =
  f_cols :: "(ustr \<times> dtype) list"
  f_rows :: "pcell list list"

fun normalize_cell :: "pcell \<Rightarrow> sqlval" where
  "normalize_cell PNaN = VNull"
| "normalize_cell PNone = VNull"
| "normalize_cell (PVal v) = v"

definition staging_cols :: "frame \<Rightarrow> (ustr \<times> coltype) list" where
  "staging_cols f = map (\<lambda>(c, d). (c, mysql_type_of d)) (f_cols f)"

definition create_staging :: "ustr \<Rightarrow> frame \<Rightarrow> database \<Rightarrow> sql_error + database" where
  "create_staging name f db =
     (if f_cols f = [] then Inl ColumnCountMismatch
      else Inr (create_if_absent name (StagingT \<lparr>tcols = staging_cols f, trows = []\<rparr>) db))"

text \<open>One inserted row, in the table's column order: named columns get their value, the
  others NULL.\<close>

definition place_row :: "(ustr \<times> coltype) list \<Rightarrow> ustr list \<Rightarrow> sqlval list \<Rightarrow> sqlval list" where
  "place_row tc names vals =
     map (\<lambda>(c, _). case map_of (zip names vals) c of None \<Rightarrow> VNull | Some v \<Rightarrow> v) tc"

definition insert_staging :: "ustr \<Rightarrow> frame \<Rightarrow> database \<Rightarrow> sql_error + database" where
  "insert_staging name f db =
     (case db name of
        None \<Rightarrow> Inl (NoSuchTable name)
      | Some (StagingT t) \<Rightarrow>
          (case missing_col (tcols t) (map fst (f_cols f)) of
             Some c \<Rightarrow> Inl (UnknownColumn c)
           | None \<Rightarrow>
               if list_all (\<lambda>r. length r = length (f_cols f)) (f_rows f)
               then (let new = map (\<lambda>r. place_row (tcols t) (map fst (f_cols f)) (map normalize_cell r))
                                 (f_rows f)
                     in case first_misfit (tcols t) new of
                          Some e \<Rightarrow> Inl e
                        | None \<Rightarrow> Inr (db(name \<mapsto> StagingT (t\<lparr>trows := trows t @ new\<rparr>))))
               else Inl ColumnCountMismatch)
      | Some _ \<Rightarrow> Inl (WrongSchema name))"

definition load_staging :: "ustr \<Rightarrow> frame \<Rightarrow> database \<Rightarrow> database \<times> sql_error option" where
  "load_staging name f db =
     (case create_staging name f db of
        Inl e \<Rightarrow> (db, Some e)
      | Inr db1 \<Rightarrow> (case insert_staging name f db1 of Inl e \<Rightarrow> (db1, Some e) | Inr db2 \<Rightarrow> (db2, None)))"

text \<open>The number of rows a table holds, 0 for an absent table.\<close>

definition table_count :: "database \<Rightarrow> ustr \<Rightarrow> nat" where
  "table_count db n = (case db n of None \<Rightarrow> 0 | Some s \<Rightarrow> stored_count s)"

text \<open>Well-formedness of the staging tables: every stored row has one value per column of
  its table.\<close>

definition table_wf :: "table \<Rightarrow> bool" where
  "table_wf t = list_all (\<lambda>r. length r = length (tcols t)) (trows t)"

definition staging_wf :: "database \<Rightarrow> bool" where
  "staging_wf db = (\<forall>n t. db n = Some (StagingT t) \<longrightarrow> table_wf t)"

text \<open>Example: a two-column spreadsheet with one missing value, loaded into an empty database.\<close>

definition ex_frame :: frame where
  "ex_frame = \<lparr>f_cols = [(asc ''doc_no'', DInt64), (asc ''note'', DOther ''category'')],
               f_rows = [[PVal (VInt 1), PNaN], [PVal (VInt 2), PVal (VText [0x41])]]\<rparr>"

subsection \<open>Lemmas\<close>

lemma map_of_type_mapping_Varchar:
  "map_of type_mapping n = Some Varchar255 \<longleftrightarrow> n = ''object''"
  by (simp add: type_mapping_def)

lemma place_row_same_cols:
  assumes "distinct (map fst tc)" and "length vals = length tc"
  shows "place_row tc (map fst tc) vals = vals"
  using assms
proof (induction tc arbitrary: vals)
  case Nil
  then show ?case by (simp add: place_row_def)
next
  case (Cons p tc)
  obtain c t where p: "p = (c, t)" by (cases p)
  obtain v vs where vals: "vals = v # vs"
    using Cons.prems(2) by (cases vals) auto
  have "c \<notin> set (map fst tc)" using Cons.prems(1) p by simp
  then have other: "map (\<lambda>(c', _). case map_of (zip (c # map fst tc) (v # vs)) c' of
                         None \<Rightarrow> VNull | Some w \<Rightarrow> w) tc
                  = map (\<lambda>(c', _). case map_of (zip (map fst tc) vs) c' of
                         None \<Rightarrow> VNull | Some w \<Rightarrow> w) tc"
    by (auto intro!: map_cong) (metis fst_conv image_eqI)
  have "place_row tc (map fst tc) vs = vs"
    using Cons.prems p vals by (intro Cons.IH) auto
  then show ?case
    using p vals other by (simp add: place_row_def)
qed

lemma map_fst_staging_cols [simp]: "map fst (staging_cols f) = map fst (f_cols f)"
  by (induction "f_cols f" arbitrary: f) (auto simp: staging_cols_def case_prod_beta)

lemma length_staging_cols [simp]: "length (staging_cols f) = length (f_cols f)"
  by (simp add: staging_cols_def)

lemma insert_staging_Inr:
  assumes "db name = Some (StagingT t)" and "set (map fst (f_cols f)) \<subseteq> set (map fst (tcols t))"
    and "list_all (\<lambda>r. length r = length (f_cols f)) (f_rows f)"
    and "first_misfit (tcols t) (map (\<lambda>r. place_row (tcols t) (map fst (f_cols f)) (map normalize_cell r)) (f_rows f)) = None"
  shows "insert_staging name f db =
           Inr (db(name \<mapsto> StagingT (t\<lparr>trows := trows t @
              map (\<lambda>r. place_row (tcols t) (map fst (f_cols f)) (map normalize_cell r)) (f_rows f)\<rparr>)))"
proof -
  have "missing_col (tcols t) (map fst (f_cols f)) = None"
    using assms(2) by (auto simp: missing_col_def find_None_iff col_index_None_iff)
  with assms(1,3,4) show ?thesis by (simp add: insert_staging_def Let_def)
qed

lemma create_staging_Inr:
  assumes "f_cols f \<noteq> []"
  shows "create_staging name f db = Inr (create_if_absent name (StagingT \<lparr>tcols = staging_cols f, trows = []\<rparr>) db)"
  using assms by (simp add: create_staging_def)

lemma load_staging_fresh_eq:
  assumes "db name = None" and "f_cols f \<noteq> []"
    and "list_all (\<lambda>r. length r = length (f_cols f)) (f_rows f)"
    and "first_misfit (staging_cols f)
           (map (\<lambda>r. place_row (staging_cols f) (map fst (f_cols f)) (map normalize_cell r)) (f_rows f)) = None"
  shows "load_staging name f db =
           (db(name \<mapsto> StagingT \<lparr>tcols = staging_cols f,
              trows = map (\<lambda>r. place_row (staging_cols f) (map fst (f_cols f)) (map normalize_cell r)) (f_rows f)\<rparr>), None)"
proof -
  let ?t = "\<lparr>tcols = staging_cols f, trows = []\<rparr>"
  have "create_if_absent name (StagingT ?t) db = db(name \<mapsto> StagingT ?t)"
    using assms(1) by (simp add: create_if_absent_def domIff)
  moreover have "insert_staging name f (db(name \<mapsto> StagingT ?t)) =
      Inr (db(name \<mapsto> StagingT (?t\<lparr>trows := trows ?t @
              map (\<lambda>r. place_row (tcols ?t) (map fst (f_cols f)) (map normalize_cell r)) (f_rows f)\<rparr>)))"
    using insert_staging_Inr [of "db(name \<mapsto> StagingT ?t)" name ?t f] assms(3,4) by simp
  ultimately show ?thesis
    using assms(2) by (simp add: load_staging_def create_staging_Inr)
qed

lemma load_staging_cases:
  assumes "load_staging name f db = (db', None)"
  obtains t where "create_if_absent name (StagingT \<lparr>tcols = staging_cols f, trows = []\<rparr>) db name = Some (StagingT t)"
    and "missing_col (tcols t) (map fst (f_cols f)) = None"
    and "db' = (create_if_absent name (StagingT \<lparr>tcols = staging_cols f, trows = []\<rparr>) db)(name \<mapsto> StagingT (t\<lparr>trows := trows t @
              map (\<lambda>r. place_row (tcols t) (map fst (f_cols f)) (map normalize_cell r)) (f_rows f)\<rparr>))"
  using assms
  by (auto simp: load_staging_def create_staging_def insert_staging_def Let_def
           split: if_splits option.splits stored.splits sum.splits)

lemma length_place_row [simp]: "length (place_row tc names vals) = length tc"
  by (simp add: place_row_def)

lemma staging_wf_upd:
  assumes "staging_wf db" and "table_wf t"
  shows "staging_wf (db(n \<mapsto> StagingT t))"
  using assms by (auto simp: staging_wf_def)

lemma staging_wf_create:
  assumes "staging_wf db"
  shows "staging_wf (create_if_absent n (StagingT \<lparr>tcols = cs, trows = []\<rparr>) db)"
  using assms by (auto simp: create_if_absent_def staging_wf_def table_wf_def)

lemma insert_staging_wf:
  assumes "staging_wf db" and "insert_staging n f db = Inr db'"
  shows "staging_wf db'"
proof -
  obtain t where t: "db n = Some (StagingT t)"
    and db': "db' = db(n \<mapsto> StagingT (t\<lparr>trows := trows t @
       map (\<lambda>r. place_row (tcols t) (map fst (f_cols f)) (map normalize_cell r)) (f_rows f)\<rparr>))"
    using assms(2) by (auto simp: insert_staging_def Let_def split: option.splits stored.splits if_splits)
  have "table_wf t" using assms(1) t by (simp add: staging_wf_def)
  then have "table_wf (t\<lparr>trows := trows t @
       map (\<lambda>r. place_row (tcols t) (map fst (f_cols f)) (map normalize_cell r)) (f_rows f)\<rparr>)"
    by (auto simp: table_wf_def list_all_iff)
  then show ?thesis
    using staging_wf_upd [OF assms(1)] db' by simp
qed

text \<open>A load keeps every staging table well-formed, on success and on failure.\<close>

lemma load_staging_wf:
  assumes "staging_wf db"
  shows "staging_wf (fst (load_staging n f db))"
  using assms staging_wf_create [OF assms] insert_staging_wf [OF staging_wf_create [OF assms]]
  by (auto simp: load_staging_def create_staging_def split: sum.splits)

text \<open>Into a table created from the spreadsheet itself, each row goes in unchanged.\<close>

lemma place_rows_fresh:
  assumes "distinct (map fst (f_cols f))" and "list_all (\<lambda>r. length r = length (f_cols f)) (f_rows f)"
  shows "map (\<lambda>r. place_row (staging_cols f) (map fst (f_cols f)) (map normalize_cell r)) (f_rows f)
           = map (map normalize_cell) (f_rows f)"
proof (rule map_cong [OF refl])
  fix r assume "r \<in> set (f_rows f)"
  then show "place_row (staging_cols f) (map fst (f_cols f)) (map normalize_cell r) = map normalize_cell r"
    using place_row_same_cols [of "staging_cols f"] assms by (simp add: list_all_iff)
qed

lemma misfit_range_error:
  assumes "misfit cols r = Some e"
  shows "\<exists>c. e = OutOfRange c \<or> e = DataTooLong c"
  using assms by (auto simp: misfit_def split: option.splits prod.splits if_splits)

lemma first_misfit_range_error:
  "first_misfit cols rs = Some e \<Longrightarrow> \<exists>c. e = OutOfRange c \<or> e = DataTooLong c"
  by (induction rs) (auto split: option.splits dest: misfit_range_error)

lemma misfit_at:
  assumes "k < length cols" and "k < length r" and "\<not> cell_fits (snd (cols ! k)) (r ! k)"
  shows "misfit cols r \<noteq> None"
proof -
  have "(cols ! k, r ! k) \<in> set (zip cols r)"
    using assms(1,2) by (metis in_set_zip fst_conv snd_conv)
  then show ?thesis
    using assms(3) misfit_None_iff [of cols r] by (cases "cols ! k") fastforce
qed

lemma first_misfit_at:
  assumes "r \<in> set rs" and "misfit cols r \<noteq> None"
  shows "first_misfit cols rs \<noteq> None"
  using assms by (auto simp: first_misfit_None_iff)

lemma load_staging_fresh_misfit:
  assumes "db name = None" and "f_cols f \<noteq> []" and "distinct (map fst (f_cols f))"
    and "list_all (\<lambda>r. length r = length (f_cols f)) (f_rows f)"
    and "first_misfit (staging_cols f) (map (map normalize_cell) (f_rows f)) = Some e"
  shows "load_staging name f db = (db(name \<mapsto> StagingT \<lparr>tcols = staging_cols f, trows = []\<rparr>), Some e)"
proof -
  let ?t = "\<lparr>tcols = staging_cols f, trows = []\<rparr>"
  have c: "create_staging name f db = Inr (db(name \<mapsto> StagingT ?t))"
    using assms(1,2) by (simp add: create_staging_def create_if_absent_def domIff)
  have "missing_col (tcols ?t) (map fst (f_cols f)) = None"
    by (auto simp: missing_col_def find_None_iff col_index_None_iff)
  then have "insert_staging name f (db(name \<mapsto> StagingT ?t)) = Inl e"
    using assms(4,5) by (simp add: insert_staging_def Let_def place_rows_fresh [OF assms(3,4)])
  with c show ?thesis by (simp add: load_staging_def)
qed

subsection \<open>Properties of the staging load\<close>

text \<open>C19. Loading a spreadsheet whose table does not exist yet, and whose cells fit the
  ranges of their columns, creates the table with one column per spreadsheet column, typed
  by the dtype mapping. It stores every row with its cells in order, each NaN or NA turned
  into NULL.\<close>

theorem load_staging_fresh:
  assumes "db name = None" and "f_cols f \<noteq> []" and "distinct (map fst (f_cols f))"
    and "list_all (\<lambda>r. length r = length (f_cols f)) (f_rows f)"
    and "first_misfit (staging_cols f) (map (map normalize_cell) (f_rows f)) = None"
  shows "load_staging name f db =
           (db(name \<mapsto> StagingT \<lparr>tcols = staging_cols f, trows = map (map normalize_cell) (f_rows f)\<rparr>), None)"
  using load_staging_fresh_eq [of db name f, OF assms(1,2,4)] assms(5)
  unfolding place_rows_fresh [OF assms(3,4)] by simp

theorem load_staging_fresh_witness:
  "load_staging (asc ''t'') ex_frame Map.empty =
     ([asc ''t'' \<mapsto> StagingT \<lparr>tcols = [(asc ''doc_no'', SqlInt), (asc ''note'', Varchar255)],
                         trows = [[VInt 1, VNull], [VInt 2, VText [0x41]]]\<rparr>], None)"
  using load_staging_fresh [of Map.empty "asc ''t''" ex_frame]
  by (simp add: ex_frame_def staging_cols_def mysql_type_of_def type_mapping_def asc_def
      misfit_def int32_fits_def)

text \<open>C20. A load appends: when it succeeds, the table holds its earlier rows plus one row per
  spreadsheet row. Nothing removes the rows of an earlier run, so running the script again
  duplicates the staging data.\<close>

theorem load_staging_appends:
  assumes "load_staging name f db = (db', None)"
  shows "table_count db' name = table_count db name + length (f_rows f)"
proof -
  let ?c = "create_if_absent name (StagingT \<lparr>tcols = staging_cols f, trows = []\<rparr>) db"
  obtain t where t: "?c name = Some (StagingT t)"
    and db': "db' = ?c(name \<mapsto> StagingT (t\<lparr>trows := trows t @
              map (\<lambda>r. place_row (tcols t) (map fst (f_cols f)) (map normalize_cell r)) (f_rows f)\<rparr>))"
    by (rule load_staging_cases [OF assms])
  have "table_count db name = length (trows t)"
    using t by (cases "db name") (auto simp: create_if_absent_def table_count_def split: if_splits)
  then show ?thesis
    using db' by (simp add: table_count_def)
qed

theorem load_staging_appends_witness:
  "table_count [asc ''t'' \<mapsto> StagingT \<lparr>tcols = [(asc ''doc_no'', SqlInt), (asc ''note'', Varchar255)],
                         trows = [[VInt 1, VNull], [VInt 2, VText [0x41]]]\<rparr>] (asc ''t'') =
   table_count Map.empty (asc ''t'') + length (f_rows ex_frame)"
proof -
  have "load_staging (asc ''t'') ex_frame Map.empty =
     ([asc ''t'' \<mapsto> StagingT \<lparr>tcols = [(asc ''doc_no'', SqlInt), (asc ''note'', Varchar255)],
                         trows = [[VInt 1, VNull], [VInt 2, VText [0x41]]]\<rparr>], None)"
    by (simp add: load_staging_def create_staging_def insert_staging_def create_if_absent_def
        ex_frame_def staging_cols_def mysql_type_of_def type_mapping_def asc_def missing_col_def
        place_row_def Let_def misfit_def int32_fits_def)
  then show ?thesis by (rule load_staging_appends)
qed

text \<open>C21. When the table already exists without one of the spreadsheet's columns, the load
  fails with an unknown-column error naming the first such column, and the database is left
  as it was.\<close>

theorem load_staging_unknown_column:
  assumes "db name = Some (StagingT t)" and "missing_col (tcols t) (map fst (f_cols f)) = Some c"
  shows "load_staging name f db = (db, Some (UnknownColumn c))"
proof -
  have "f_cols f \<noteq> []" using assms(2) by (auto simp: missing_col_def)
  then show ?thesis
    using assms by (simp add: load_staging_def create_staging_def create_if_absent_keeps insert_staging_def)
qed

theorem load_staging_unknown_column_witness:
  "load_staging (asc ''t'') ex_frame [asc ''t'' \<mapsto> StagingT \<lparr>tcols = [(asc ''doc_no'', SqlInt)], trows = []\<rparr>]
     = ([asc ''t'' \<mapsto> StagingT \<lparr>tcols = [(asc ''doc_no'', SqlInt)], trows = []\<rparr>],
        Some (UnknownColumn (asc ''note'')))"
  using load_staging_unknown_column
    [of "[asc ''t'' \<mapsto> StagingT \<lparr>tcols = [(asc ''doc_no'', SqlInt)], trows = []\<rparr>]" "asc ''t''"
        "\<lparr>tcols = [(asc ''doc_no'', SqlInt)], trows = []\<rparr>" ex_frame "asc ''note''"]
  by (simp add: ex_frame_def missing_col_def asc_def)

text \<open>The dtype mapping is total: a column is stored as \<open>VARCHAR(255)\<close> exactly when the
  name of its dtype is \<open>object\<close> or a name the mapping does not list, such as \<open>category\<close>.\<close>

lemma mysql_type_of_varchar:
  "mysql_type_of d = Varchar255 \<longleftrightarrow> dtype_name d = ''object'' \<or> dtype_name d \<notin> set (map fst type_mapping)"
proof (cases "map_of type_mapping (dtype_name d)")
  case None
  then show ?thesis
    using map_of_eq_None_iff [of type_mapping "dtype_name d"] by (simp add: mysql_type_of_def)
next
  case (Some t)
  then have "dtype_name d \<in> set (map fst type_mapping)"
    by (force dest: map_of_SomeD)
  with Some show ?thesis
    using map_of_type_mapping_Varchar [of "dtype_name d"] by (auto simp: mysql_type_of_def)
qed

text \<open>C4. Integer columns are 32-bit. A column that pandas reads as \<open>int64\<close> becomes an
  \<open>INT\<close> column, whose range is that of a signed 32-bit word. A spreadsheet with an
  integer outside that range, such as a 10-digit business registration number from
  2147483648 on, fails its load with a range error. The table is then created but left
  empty.\<close>

theorem load_staging_int_overflow:
  assumes "db name = None" and "distinct (map fst (f_cols f))"
    and "list_all (\<lambda>r. length r = length (f_cols f)) (f_rows f)"
    and "k < length (f_cols f)" and "snd (f_cols f ! k) = DInt64"
    and "r \<in> set (f_rows f)" and "r ! k = PVal (VInt i)"
    and "sint (word_of_int i :: 32 word) \<noteq> i"
  shows "\<exists>c e. load_staging name f db = (db(name \<mapsto> StagingT \<lparr>tcols = staging_cols f, trows = []\<rparr>), Some e) \<and>
               (e = OutOfRange c \<or> e = DataTooLong c)"
proof -
  have ne: "f_cols f \<noteq> []" using assms(4) by auto
  have len: "length r = length (f_cols f)" using assms(3,6) by (simp add: list_all_iff)
  have "snd (staging_cols f ! k) = SqlInt"
    using assms(4,5) by (simp add: staging_cols_def case_prod_beta mysql_type_of_def type_mapping_def)
  moreover have "map normalize_cell r ! k = VInt i" using assms(4,7) len by simp
  ultimately have "\<not> cell_fits (snd (staging_cols f ! k)) (map normalize_cell r ! k)"
    using assms(8) int32_fits_sint [of i] by simp
  then have "misfit (staging_cols f) (map normalize_cell r) \<noteq> None"
    by (rule misfit_at [rotated 2]) (use assms(4) len in simp_all)
  then obtain e where e: "first_misfit (staging_cols f) (map (map normalize_cell) (f_rows f)) = Some e"
    using first_misfit_at [of "map normalize_cell r"] assms(6) by fastforce
  show ?thesis
    using load_staging_fresh_misfit [of db name f e, OF assms(1) ne assms(2,3) e] first_misfit_range_error [OF e]
    by blast
qed

definition ex_brno_frame :: frame where
  "ex_brno_frame = \<lparr>f_cols = [(asc ''bzenty_brno'', DInt64)], f_rows = [[PVal (VInt 2208800767)]]\<rparr>"

theorem load_staging_int_overflow_witness:
  "\<exists>c e. load_staging (asc ''t'') ex_brno_frame Map.empty =
     ([asc ''t'' \<mapsto> StagingT \<lparr>tcols = [(asc ''bzenty_brno'', SqlInt)], trows = []\<rparr>], Some e) \<and>
     (e = OutOfRange c \<or> e = DataTooLong c)"
proof -
  have "sint (word_of_int 2208800767 :: 32 word) = -2086166529" by simp
  then have ov: "sint (word_of_int 2208800767 :: 32 word) \<noteq> 2208800767" by simp
  have "\<exists>c e. load_staging (asc ''t'') ex_brno_frame Map.empty =
      ([asc ''t'' \<mapsto> StagingT \<lparr>tcols = staging_cols ex_brno_frame, trows = []\<rparr>], Some e) \<and>
      (e = OutOfRange c \<or> e = DataTooLong c)"
    by (rule load_staging_int_overflow [of Map.empty "asc ''t''" ex_brno_frame 0 "[PVal (VInt 2208800767)]",
          OF _ _ _ _ _ _ _ ov])
       (simp_all add: ex_brno_frame_def)
  then show ?thesis
    by (simp add: ex_brno_frame_def staging_cols_def mysql_type_of_def type_mapping_def)
qed

end
