(* ===== verification/Dataset.thy ===== *)
theory Dataset
  imports Classifier Store
begin

text \<open>
  Step 6 of \<open>local_to_ec2_etl.py\<close> (lines 198-261): the derivation of the text dataset
  from the analytical table.
  \<^item> \<open>dataset_select\<close> is the \<open>SELECT DISTINCT\<close> of lines 199-216. \<open>dataset_row\<close>
    gives its ten columns in the order of the query.
  \<^item> \<open>input_data\<close> is the dict of lines 225-234.
  \<^item> \<open>dataset_reason\<close> is lines 237-255 on the values the connector returns, which
    are not always strings: a number is truthy unless it is zero, and \<open>"..." in x\<close>
    raises \<open>TypeError\<close> when \<open>x\<close> is not a string.
  \<^item> \<open>dataset_inserts\<close> is the loop of lines 223-258. It returns the rows inserted so
    far, which are still uncommitted, and the exception that stopped the loop, if one
    did. \<open>json_ok\<close> is the part of \<open>json.dumps\<close> that can fail: a \<open>datetime\<close>
    value is not serializable.
  \<^item> \<open>etl_error\<close> collects the exceptions the script can raise.

  The values the connector returns are \<open>sqlval\<close>s. \<open>VFloat s\<close> carries Python's
  \<open>repr\<close> of the float. \<open>DISTINCT\<close> compares with HOL equality, i.e. under a
  binary collation, and returns the rows in order of their last occurrence, since SQL
  leaves the order open.
\<close>

datatype etl_error =
    EtlSql sql_error    \<comment> \<open>\<open>mysql.connector.Error\<close> of a statement\<close>
  | ConnectFailed ustr  \<comment> \<open>\<open>mysql.connector.Error\<close> of \<open>connect\<close>, with the host\<close>
  | FetchError nat      \<comment> \<open>\<open>raise_for_status\<close> on an HTTP status\<close>
  | NotIterable         \<comment> \<open>\<open>TypeError\<close>: \<open>in\<close> on a value that is not a string\<close>
  | NotSerializable     \<comment> \<open>\<open>TypeError\<close> of \<open>json.dumps\<close>\<close>

subsection \<open>Python values\<close>

fun py_truthy :: "sqlval \<Rightarrow> bool" where
  "py_truthy VNull = False"
| "py_truthy (VInt i) = (i \<noteq> 0)"
| "py_truthy (VFloat s) = (s \<noteq> asc ''0.0'' \<and> s \<noteq> asc ''-0.0'')"
| "py_truthy (VText s) = (s \<noteq> [])"
| "py_truthy (VDateTime s) = True"

text \<open>\<open>x if x else d\<close>\<close>

definition py_or :: "sqlval \<Rightarrow> sqlval \<Rightarrow> sqlval" where
  "py_or x d = (if py_truthy x then x else d)"

text \<open>The text a value becomes when it is bound to \<open>%s\<close> for a \<open>TEXT\<close> column, for
  \<open>row[4] if row[4] else ...\<close>: a falsy value gives the default.\<close>

definition action_text :: "sqlval \<Rightarrow> ustr option" where
  "action_text v = (if py_truthy v then sql_text v else None)"

fun json_ok :: "sqlval \<Rightarrow> bool" where
  "json_ok (VDateTime _) = False"
| "json_ok _ = True"

fun is_textual :: "sqlval \<Rightarrow> bool" where
  "is_textual VNull = True"
| "is_textual (VText _) = True"
| "is_textual _ = False"

subsection \<open>The query and the loop\<close>

definition key_name :: ustr where "key_name = [0xC81C, 0xD488, 0xBA85]"  \<comment> \<open>product name\<close>
definition key_country :: ustr where "key_country = [0xC81C, 0xC870, 0xAD6D]"  \<comment> \<open>country\<close>
definition key_type :: ustr where "key_type = [0xC81C, 0xD488, 0xC720, 0xD615]"  \<comment> \<open>product type\<close>
definition key_mdate :: ustr where "key_mdate = [0xC81C, 0xC870, 0xC77C, 0xC790]"  \<comment> \<open>manufacture date\<close>
definition key_shelf :: ustr where "key_shelf = [0xC720, 0xD1B5, 0xAE30, 0xD55C]"  \<comment> \<open>shelf life\<close>
definition key_result :: ustr where "key_result = [0xAC80, 0xC0AC, 0xACB0, 0xACFC]"  \<comment> \<open>inspection result\<close>
definition key_bztype :: ustr where "key_bztype = [0xC5C5, 0xCCB4, 0xC720, 0xD615]"  \<comment> \<open>company type\<close>
definition key_grade :: ustr where "key_grade = [0xC704, 0xD5D8, 0xB3C4, 0xB4F1, 0xAE09]"  \<comment> \<open>risk grade\<close>

lemmas dataset_keys [pystr_eval] =
  key_name_def key_country_def key_type_def key_mdate_def key_shelf_def key_result_def
  key_bztype_def key_grade_def

definition dataset_row :: "arow \<Rightarrow> sqlval list" where
  "dataset_row r =
     [a_prdct_nm r, a_plor_nm r, a_insp_item r, a_insp_result r, a_rsn_nm r, VText (a_grade r),
      a_prdct_type r, a_mnftr_ymd r, a_rtl_term r, a_bz_type r]"

definition dataset_select :: "arow list \<Rightarrow> sqlval list list" where
  "dataset_select rs =
     remdups (map dataset_row
       (filter (\<lambda>r. a_insp_result r \<noteq> VNull \<and> a_prdct_nm r \<noteq> VNull \<and> a_plor_nm r \<noteq> VNull) rs))"

definition input_data :: "sqlval list \<Rightarrow> (ustr \<times> sqlval) list" where
  "input_data row =
     [(key_name, row ! 0), (key_country, row ! 1), (key_type, row ! 6), (key_mdate, row ! 7),
      (key_shelf, row ! 8), (key_result, row ! 3), (key_bztype, row ! 9), (key_grade, row ! 5)]"

definition dataset_reason :: "sqlval \<Rightarrow> sqlval \<Rightarrow> sqlval \<Rightarrow> etl_error + ustr" where
  "dataset_reason i r a =
     (let item = py_or i (VText []); result = py_or r (VText [])
      in if \<not> py_truthy item \<or> \<not> py_truthy result then Inr (fallback_text (action_text a))
         else (case item of
           VText it \<Rightarrow>
             if any_in microbial_keywords it then Inr (micro_pre @ it @ exceed_post)
             else if any_in heavy_metal_keywords it then Inr (heavy_pre @ it @ exceed_post)
             else if any_in preservative_keywords it then
               (case result of
                  VText rs \<Rightarrow>
                    Inr (if py_in kw_detected rs
                         then pres_pre @ py_strip (split_before kw_detected rs) @ pres_post
                         else pres_exceed)
                | _ \<Rightarrow> Inl NotIterable)
             else if py_in kw_foreign it then Inr foreign_msg
             else Inr (it @ generic_post)
         | _ \<Rightarrow> Inl NotIterable))"

fun dataset_inserts :: "nat \<Rightarrow> sqlval list list \<Rightarrow> dsrow list \<times> etl_error option" where
  "dataset_inserts n [] = ([], None)"
| "dataset_inserts n (row # rows) =
     (case dataset_reason (row ! 2) (row ! 3) (row ! 4) of
        Inl e \<Rightarrow> ([], Some e)
      | Inr out \<Rightarrow>
          if list_all json_ok (map snd (input_data row))
          then (let (ds, err) = dataset_inserts (Suc n) rows
                in (\<lparr>ds_id = n, ds_input = input_data row, ds_output = out\<rparr> # ds, err))
          else ([], Some NotSerializable))"

subsection \<open>Lemmas\<close>

lemma py_or_textual:
  assumes "is_textual v"
  shows "py_or v (VText []) = VText (or_empty (sql_text v))"
  using assms by (cases v) (auto simp: py_or_def or_empty_def)

lemma dataset_reason_text:
  assumes "py_or i (VText []) = VText it" and "py_or r (VText []) = VText rs"
  shows "dataset_reason i r a = Inr (classify it rs (action_text a))"
  using assms by (simp add: dataset_reason_def classify_def Let_def)

lemma dataset_inserts_append:
  assumes "dataset_inserts n pre = (ds, None)"
  shows "dataset_inserts n (pre @ rest) =
           (ds @ fst (dataset_inserts (n + length pre) rest), snd (dataset_inserts (n + length pre) rest))"
  using assms
proof (induction pre arbitrary: n ds)
  case Nil
  then show ?case by simp
next
  case (Cons row pre)
  then obtain out where out: "dataset_reason (row ! 2) (row ! 3) (row ! 4) = Inr out"
    and ok: "list_all json_ok (map snd (input_data row))"
    by (auto split: sum.splits if_splits prod.splits)
  obtain ds' where ds': "dataset_inserts (Suc n) pre = (ds', None)"
    and ds: "ds = \<lparr>ds_id = n, ds_input = input_data row, ds_output = out\<rparr> # ds'"
    using Cons.prems out ok by (auto split: prod.splits)
  show ?case
    using Cons.IH [OF ds'] out ok ds by (simp split: prod.splits)
qed

lemma dataset_inserts_complete:
  assumes "dataset_inserts n rows = (ds, None)"
  shows "map ds_input ds = map input_data rows \<and> map ds_id ds = [n..<n + length rows] \<and>
         map (\<lambda>row. dataset_reason (row ! 2) (row ! 3) (row ! 4)) rows = map (Inr \<circ> ds_output) ds"
  using assms
proof (induction rows arbitrary: n ds)
  case Nil
  then show ?case by simp
next
  case (Cons row rows)
  then obtain out where out: "dataset_reason (row ! 2) (row ! 3) (row ! 4) = Inr out"
    and ok: "list_all json_ok (map snd (input_data row))"
    by (auto split: sum.splits if_splits prod.splits)
  obtain ds' where ds': "dataset_inserts (Suc n) rows = (ds', None)"
    and ds: "ds = \<lparr>ds_id = n, ds_input = input_data row, ds_output = out\<rparr> # ds'"
    using Cons.prems out ok by (auto split: prod.splits)
  have "[n..<n + length (row # rows)] = n # [Suc n..<Suc n + length rows]"
    by (simp add: upt_rec)
  then show ?case
    using Cons.IH [OF ds'] out ds by simp
qed

subsection \<open>Properties of the dataset step\<close>

text \<open>C23. A truthy item that is not a string (a number or a date read from a numeric or date
  column) with a non-empty result raises \<open>TypeError\<close> at the first keyword test, so the
  step fails.\<close>

theorem dataset_reason_not_iterable:
  assumes "py_truthy i" and "py_truthy r" and "\<not> is_textual i"
  shows "dataset_reason i r a = Inl NotIterable"
  using assms by (cases i) (auto simp: dataset_reason_def py_or_def Let_def)

theorem dataset_reason_not_iterable_witness:
  "dataset_reason (VInt 5) (VText [0x41]) VNull = Inl NotIterable"
  by (rule dataset_reason_not_iterable) simp_all

text \<open>C24. When the loop runs to the end, it has inserted one row per selected row, in order,
  with consecutive ids, the row's \<open>input_data\<close>, and the label of the row.\<close>

theorem dataset_inserts_one_per_row:
  assumes "dataset_inserts n rows = (ds, None)"
  shows "length ds = length rows \<and> map ds_input ds = map input_data rows \<and>
         map ds_id ds = [n..<n + length rows] \<and>
         map (\<lambda>row. dataset_reason (row ! 2) (row ! 3) (row ! 4)) rows = map (Inr \<circ> ds_output) ds"
proof -
  have "map ds_input ds = map input_data rows \<and> map ds_id ds = [n..<n + length rows] \<and>
         map (\<lambda>row. dataset_reason (row ! 2) (row ! 3) (row ! 4)) rows = map (Inr \<circ> ds_output) ds"
    by (rule dataset_inserts_complete [OF assms])
  moreover then have "length ds = length rows"
    by (metis length_map)
  ultimately show ?thesis by simp
qed

definition ex_ds_row :: "sqlval list" where
  "ex_ds_row = [VText [0x41], VText [0x42], VText [0xB0A9], VText [0x43], VNull, VText grade_danger,
                VText [0x44], VInt 20240101, VNull, VNull]"

theorem dataset_inserts_one_per_row_witness:
  "length (fst (dataset_inserts 5 [ex_ds_row])) = 1"
proof -
  have eq: "dataset_inserts 5 [ex_ds_row] =
          ([\<lparr>ds_id = 5, ds_input = input_data ex_ds_row, ds_output = heavy_pre @ [0xB0A9] @ exceed_post\<rparr>], None)"
    unfolding ex_ds_row_def by (simp add: dataset_reason_def py_or_def input_data_def pystr_eval)
  have "length [\<lparr>ds_id = 5, ds_input = input_data ex_ds_row, ds_output = heavy_pre @ [0xB0A9] @ exceed_post\<rparr>]
          = length [ex_ds_row]"
    using dataset_inserts_one_per_row [OF eq] by (rule conjunct1)
  then show ?thesis unfolding eq by simp
qed

text \<open>C25. A \<open>datetime\<close> among the input fields of a row (a \<open>DATETIME\<close> manufacture
  date, say) stops the loop with the serialization \<open>TypeError\<close>; the rows before it are
  inserted but not committed.\<close>

theorem dataset_inserts_datetime:
  assumes "dataset_inserts n pre = (ds, None)"
    and "dataset_reason (row ! 2) (row ! 3) (row ! 4) = Inr out"
    and "\<not> list_all json_ok (map snd (input_data row))"
  shows "dataset_inserts n (pre @ row # post) = (ds, Some NotSerializable)"
  using dataset_inserts_append [OF assms(1), of "row # post"] assms(2,3) by simp

theorem dataset_inserts_datetime_witness:
  "dataset_inserts 5 [ex_ds_row, ex_ds_row[7 := VDateTime (asc ''2024-01-01'')]] =
     ([\<lparr>ds_id = 5, ds_input = input_data ex_ds_row, ds_output = heavy_pre @ [0xB0A9] @ exceed_post\<rparr>],
      Some NotSerializable)"
proof -
  have a: "dataset_inserts 5 [ex_ds_row] =
          ([\<lparr>ds_id = 5, ds_input = input_data ex_ds_row, ds_output = heavy_pre @ [0xB0A9] @ exceed_post\<rparr>], None)"
    unfolding ex_ds_row_def by (simp add: dataset_reason_def py_or_def input_data_def pystr_eval)
  have b: "dataset_reason (ex_ds_row[7 := VDateTime (asc ''2024-01-01'')] ! 2)
             (ex_ds_row[7 := VDateTime (asc ''2024-01-01'')] ! 3)
             (ex_ds_row[7 := VDateTime (asc ''2024-01-01'')] ! 4) = Inr (heavy_pre @ [0xB0A9] @ exceed_post)"
    by (simp add: ex_ds_row_def dataset_reason_def py_or_def pystr_eval)
  have c: "\<not> list_all json_ok (map snd (input_data (ex_ds_row[7 := VDateTime (asc ''2024-01-01'')])))"
    by (simp add: ex_ds_row_def input_data_def)
  show ?thesis
    using dataset_inserts_datetime [OF a b c, of "[]"] by simp
qed

text \<open>The query returns each distinct projection of an analytical row whose inspection
  result, product name and country are not NULL, once.\<close>

lemma dataset_select_distinct:
  "distinct (dataset_select rs) \<and>
   set (dataset_select rs) =
     dataset_row ` {r \<in> set rs. a_insp_result r \<noteq> VNull \<and> a_prdct_nm r \<noteq> VNull \<and> a_plor_nm r \<noteq> VNull}"
  by (auto simp: dataset_select_def)

end
