(* ===== verification/History.thy ===== *)
theory History
  imports Store
begin

text \<open>
  The pieces the two top-level runs share:
  \<^item> a connection to a server with its transaction. \<open>cn_committed\<close> is what the
    server keeps, and \<open>cn_work\<close> is what the connection sees, uncommitted writes
    included. A DDL statement commits implicitly. Closing a connection drops its
    uncommitted work.
  \<^item> the history recorder. \<open>insert_history\<close> is the \<open>INSERT\<close> into the history table of \<open>local_to_ec2_etl.py\<close> lines 264-269 and 276-281, and of
    \<open>data_validation.py\<close> lines 209-214 and 221-226. \<open>record_failure\<close> is the
    \<open>except\<close> handler around it (ETL lines 273-284, validation lines 218-229): insert
    the failure row and commit, and swallow any error. That includes the
    \<open>NameError\<close> raised when the EC2 cursor was never created.
  Ids are \<open>AUTO_INCREMENT\<close>: one more than the largest id in the table. InnoDB's
  counter can leave gaps after a rollback, which the model does not track.
\<close>

text \<open>The servers: the local database \<open>kopo\<close> holding the staging tables; the EC2
  database \<open>kopo2\<close>, holding the analytical, dataset and history tables; and the database
  \<open>kopo\<close> on the EC2 server.\<close>

record world =
  w_local :: database
  w_ec2 :: database
  w_ec2_kopo :: database

text \<open>The connection parameters, \<open>LOCAL_DB_CONFIG\<close> and \<open>EC2_DB_CONFIG\<close> of both
  scripts (ETL lines 40-55, validation lines 24-39), and the database of the world that a
  configuration reaches: a server is named by its host, a database by its name on it.\<close>

record db_config =
  cfg_host :: ustr
  cfg_port :: nat
  cfg_user :: ustr
  cfg_password :: ustr
  cfg_database :: ustr

definition etl_local_config :: db_config where
  "etl_local_config = \<lparr>cfg_host = asc ''localhost'', cfg_port = 3306, cfg_user = asc ''kopo'',
     cfg_password = asc ''1234'', cfg_database = asc ''kopo''\<rparr>"

definition etl_ec2_config :: db_config where
  "etl_ec2_config = \<lparr>cfg_host = asc ''54.180.237.238'', cfg_port = 3306, cfg_user = asc ''kopo'',
     cfg_password = asc ''1234'', cfg_database = asc ''kopo2''\<rparr>"

definition val_local_config :: db_config where
  "val_local_config = \<lparr>cfg_host = asc ''localhost'', cfg_port = 3306, cfg_user = asc ''kopo'',
     cfg_password = asc ''1234'', cfg_database = asc ''kopo''\<rparr>"

definition val_ec2_config :: db_config where
  "val_ec2_config = \<lparr>cfg_host = asc ''54.180.237.238'', cfg_port = 3306, cfg_user = asc ''kopo'',
     cfg_password = asc ''1234'', cfg_database = asc ''kopo2''\<rparr>"

definition config_db :: "world \<Rightarrow> db_config \<Rightarrow> database option" where
  "config_db w c =
     (if cfg_host c = asc ''localhost'' \<and> cfg_database c = asc ''kopo'' then Some (w_local w)
      else if cfg_host c = asc ''54.180.237.238'' \<and> cfg_database c = asc ''kopo2'' then Some (w_ec2 w)
      else if cfg_host c = asc ''54.180.237.238'' \<and> cfg_database c = asc ''kopo'' then Some (w_ec2_kopo w)
      else None)"

record conn =
  cn_committed :: database
  cn_work :: database

definition conn_open :: "database \<Rightarrow> conn" where
  "conn_open db = \<lparr>cn_committed = db, cn_work = db\<rparr>"

definition conn_ddl :: "(database \<Rightarrow> database) \<Rightarrow> conn \<Rightarrow> conn" where
  "conn_ddl f c = (let w = f (cn_work c) in \<lparr>cn_committed = w, cn_work = w\<rparr>)"

definition conn_commit :: "conn \<Rightarrow> conn" where
  "conn_commit c = c\<lparr>cn_committed := cn_work c\<rparr>"

definition conn_close :: "conn \<Rightarrow> database" where
  "conn_close c = cn_committed c"

definition p_etl :: ustr where \<comment> \<open>"ETL process"\<close>
  "p_etl = [0x45, 0x54, 0x4C, 0x20, 0xD504, 0xB85C, 0xC138, 0xC2A4]"
definition p_validation :: ustr where \<comment> \<open>"data validation"\<close>
  "p_validation = [0xB370, 0xC774, 0xD130, 0x20, 0xAC80, 0xC99D]"
definition st_success :: ustr where \<comment> \<open>"success"\<close>
  "st_success = [0xC131, 0xACF5]"
definition st_failure :: ustr where \<comment> \<open>"failure"\<close>
  "st_failure = [0xC2E4, 0xD328]"

lemmas history_literals [pystr_eval] = p_etl_def p_validation_def st_success_def st_failure_def

definition next_hid :: "hrow list \<Rightarrow> nat" where
  "next_hid hs = Suc (fold max (map h_id hs) 0)"

definition insert_history :: "ustr \<Rightarrow> ustr \<Rightarrow> ustr option \<Rightarrow> database \<Rightarrow> sql_error + database" where
  "insert_history p s e db =
     (case db t_history of
        None \<Rightarrow> Inl (NoSuchTable t_history)
      | Some (HistoryT hs) \<Rightarrow>
          Inr (db(t_history \<mapsto> HistoryT (hs @ [\<lparr>h_id = next_hid hs, h_process = p, h_status = s, h_error = e\<rparr>])))
      | Some _ \<Rightarrow> Inl (WrongSchema t_history))"

definition record_failure :: "ustr \<Rightarrow> ustr \<Rightarrow> conn option \<Rightarrow> conn option" where
  "record_failure p m c =
     (case c of
        None \<Rightarrow> None
      | Some cn \<Rightarrow>
          (case insert_history p st_failure (Some m) (cn_work cn) of
             Inl _ \<Rightarrow> Some cn
           | Inr db \<Rightarrow> Some (conn_commit (cn\<lparr>cn_work := db\<rparr>))))"

text \<open>The rows of the history table, none when it is absent or of another schema.\<close>

definition history :: "database \<Rightarrow> hrow list" where
  "history db = (case db t_history of Some (HistoryT hs) \<Rightarrow> hs | _ \<Rightarrow> [])"

definition history_ok :: "database \<Rightarrow> bool" where
  "history_ok db = (case db t_history of None \<Rightarrow> True | Some (HistoryT _) \<Rightarrow> True | Some _ \<Rightarrow> False)"

definition create_history :: "database \<Rightarrow> database" where
  "create_history = create_if_absent t_history (HistoryT [])"

subsection \<open>Lemmas\<close>

text \<open>Both scripts name the same two databases: the validation reads what the ETL
  wrote, the local \<open>kopo\<close> and the EC2 \<open>kopo2\<close>.\<close>

lemma config_db_scripts:
  "config_db w etl_local_config = Some (w_local w)" "config_db w val_local_config = Some (w_local w)"
  "config_db w etl_ec2_config = Some (w_ec2 w)" "config_db w val_ec2_config = Some (w_ec2 w)"
  by (simp_all add: config_db_def etl_local_config_def val_local_config_def etl_ec2_config_def
      val_ec2_config_def asc_def)

lemma configs_agree: "val_local_config = etl_local_config" "val_ec2_config = etl_ec2_config"
  by (simp_all add: etl_local_config_def val_local_config_def etl_ec2_config_def val_ec2_config_def)

lemma conn_ddl_simps [simp]:
  "cn_work (conn_ddl f c) = f (cn_work c)" "cn_committed (conn_ddl f c) = f (cn_work c)"
  by (simp_all add: conn_ddl_def Let_def)

lemma conn_open_simps [simp]: "cn_work (conn_open db) = db" "cn_committed (conn_open db) = db"
  by (simp_all add: conn_open_def)

lemma history_create_history [simp]: "history (create_history db) = history db"
  by (auto simp: history_def create_history_def create_if_absent_def split: option.splits)

lemma history_ok_create_history [simp]: "history_ok (create_history db) = history_ok db"
  by (auto simp: history_ok_def create_history_def create_if_absent_def split: option.splits)

lemma create_history_has: "\<exists>s. create_history db t_history = Some s"
  by (auto simp: create_history_def create_if_absent_def)

lemma insert_history_Inr:
  assumes "history_ok db" and "t_history \<in> dom db"
  shows "insert_history p s e db =
           Inr (db(t_history \<mapsto> HistoryT (history db @
              [\<lparr>h_id = next_hid (history db), h_process = p, h_status = s, h_error = e\<rparr>])))"
  using assms by (auto simp: insert_history_def history_def history_ok_def split: stored.splits)

lemma insert_history_history:
  assumes "insert_history p s e db = Inr db'"
  shows "history db' = history db @ [\<lparr>h_id = next_hid (history db), h_process = p, h_status = s, h_error = e\<rparr>]"
    and "history_ok db" and "t_history \<in> dom db"
  using assms by (auto simp: insert_history_def history_def history_ok_def split: option.splits stored.splits)

lemma insert_history_other [simp]:
  assumes "insert_history p s e db = Inr db'" and "t \<noteq> t_history"
  shows "db' t = db t"
  using assms by (auto simp: insert_history_def split: option.splits stored.splits)

lemma record_failure_insert:
  assumes "insert_history p st_failure (Some m) (cn_work cn) = Inr db'"
  shows "record_failure p m (Some cn) = Some \<lparr>cn_committed = db', cn_work = db'\<rparr>"
  using assms by (simp add: record_failure_def conn_commit_def)

lemma fold_max_ge: "a \<le> fold max xs (a::nat)" and fold_max_mem: "x \<in> set xs \<Longrightarrow> x \<le> fold max xs a"
proof (induction xs arbitrary: a)
  case Nil
  { case 1 show ?case by simp }
  { case 2 then show ?case by simp }
next
  case (Cons y ys)
  { case 1 show ?case using Cons.IH(1) [of "max y a"] by simp }
  { case 2 then show ?case using Cons.IH(1) [of "max y a"] Cons.IH(2) [of "max y a"] by auto }
qed

lemma next_hid_fresh: "h \<in> set hs \<Longrightarrow> h_id h < next_hid hs"
  using fold_max_mem [of "h_id h" "map h_id hs" 0] by (simp add: next_hid_def)

subsection \<open>Properties of the failure handler\<close>

text \<open>C27. The failure handler commits everything pending on the EC2 connection: when the
  history table is there, it appends one failure row with the error text and commits. The
  commit also makes every uncommitted write of the run on other tables permanent, such as
  the dataset rows inserted before the error.\<close>

theorem record_failure_commits_work:
  assumes "history_ok (cn_work cn)" and "t_history \<in> dom (cn_work cn)"
  shows "\<exists>db'. record_failure p m (Some cn) = Some \<lparr>cn_committed = db', cn_work = db'\<rparr> \<and>
           history db' = history (cn_work cn) @
             [\<lparr>h_id = next_hid (history (cn_work cn)), h_process = p, h_status = st_failure, h_error = Some m\<rparr>] \<and>
           (\<forall>t. t \<noteq> t_history \<longrightarrow> db' t = cn_work cn t)"
proof -
  obtain db' where ins: "insert_history p st_failure (Some m) (cn_work cn) = Inr db'"
    using insert_history_Inr [OF assms] by blast
  have "record_failure p m (Some cn) = Some \<lparr>cn_committed = db', cn_work = db'\<rparr>"
    by (rule record_failure_insert [OF ins])
  moreover note insert_history_history(1) [OF ins]
  moreover have "\<forall>t. t \<noteq> t_history \<longrightarrow> db' t = cn_work cn t"
    using insert_history_other [OF ins] by blast
  ultimately show ?thesis by blast
qed

definition ex_pending :: conn where
  "ex_pending =
     \<lparr>cn_committed = [t_history \<mapsto> HistoryT [], t_dataset \<mapsto> DatasetT []],
      cn_work = [t_history \<mapsto> HistoryT [],
                 t_dataset \<mapsto> DatasetT [\<lparr>ds_id = 1, ds_input = [], ds_output = [0x41]\<rparr>]]\<rparr>"

theorem record_failure_commits_work_witness:
  "map_option (\<lambda>c. cn_committed c t_dataset) (record_failure p_etl [0x45] (Some ex_pending)) =
     Some (Some (DatasetT [\<lparr>ds_id = 1, ds_input = [], ds_output = [0x41]\<rparr>]))"
proof -
  have a: "history_ok (cn_work ex_pending)" and b: "t_history \<in> dom (cn_work ex_pending)"
    by (simp_all add: ex_pending_def history_ok_def table_names)
  have "t_dataset \<noteq> t_history" by (simp add: table_names)
  with record_failure_commits_work [OF a b, of p_etl "[0x45]"] show ?thesis
    by (auto simp: ex_pending_def)
qed

end
