(* ===== verification/EtlRun.thy ===== *)
theory EtlRun
  imports Staging Dataset History
begin

text \<open>
  The top-level run of \<open>local_to_ec2_etl.py\<close> (lines 57-298), with the state of the two
  MySQL servers it talks to.
  \<^item> \<open>world\<close> (theory \<open>History\<close>) holds the three databases involved. The join
    reads the database \<open>kopo\<close> on the EC2 server as \<open>kopo.*\<close> (lines 170-176).
  \<^item> \<open>etl_env\<close>: what the run gets from outside. This is whether each server accepts the
    connection (the script does not retry), and the answer to the \<open>requests.get\<close> of
    each spreadsheet. That answer is a transport exception or a response, and a response
    carries the status code and the outcome of \<open>pd.read_excel\<close> on its body. The
    last input is \<open>str(e)\<close> of an exception.
  \<^item> \<open>download\<close> is lines 88-95: \<open>raise_for_status\<close> raises for a status from 400
    to 599, and only then is the body decoded.
  \<^item> \<open>etl_body\<close> is the \<open>try\<close> block (lines 57-271). It returns the state reached
    and the exception that left it, if any. \<open>load_all\<close> is the loop of step 3,
    \<open>build_analytic\<close> step 4, and \<open>dataset_step\<close> step 6.
  \<^item> \<open>etl_main\<close> adds the \<open>except\<close> handler (lines 273-286) and the \<open>finally\<close>
    block (lines 288-298), which closes the connections and drops their uncommitted work.
  Every local write is committed at once: the \<open>CREATE TABLE\<close> implicitly, the rows by
  the \<open>commit\<close> of line 132. On EC2 the DDL statements of steps 2, 4 and 5 commit
  implicitly, and the dataset rows and the history row wait for the commits of lines 260,
  270 and 282. \<open>build_analytic\<close> evaluates the \<open>SELECT\<close> before it looks at the target
  table, so a missing source table fails the statement even when the target exists.
  Two assumptions: a connection, once open, stays up until the \<open>finally\<close> block (a
  dropped connection is not modelled), and \<open>localhost\<close> and the EC2 host are
  different servers, so the three databases of \<open>world\<close> are separate.
\<close>

record http_response =
  resp_status :: nat
  resp_excel :: "etl_error + frame"  \<comment> \<open>\<open>pd.read_excel\<close> of the body\<close>

record etl_env =
  env_local_up :: bool
  env_ec2_up :: bool
  env_http :: "ustr \<Rightarrow> etl_error + http_response"
  env_str :: "etl_error \<Rightarrow> ustr"

definition raise_for_status :: "nat \<Rightarrow> etl_error option" where
  "raise_for_status s = (if 400 \<le> s \<and> s < 600 then Some (FetchError s) else None)"

text \<open>The spreadsheet of one key of \<open>EXCEL_FILES\<close>, each key having its own URL.\<close>

definition download :: "etl_env \<Rightarrow> ustr \<Rightarrow> etl_error + frame" where
  "download env n =
     (case env_http env n of
        Inl e \<Rightarrow> Inl e
      | Inr r \<Rightarrow> (case raise_for_status (resp_status r) of Some e \<Rightarrow> Inl e | None \<Rightarrow> resp_excel r))"

definition host_local :: ustr where "host_local = asc ''localhost''"
definition host_ec2 :: ustr where "host_ec2 = asc ''54.180.237.238''"

text \<open>The keys of \<open>EXCEL_FILES\<close>, in the dict's order (lines 34-38).\<close>

definition excel_files :: "ustr list" where
  "excel_files = [t_product, t_inspection, t_company]"

fun load_all :: "etl_env \<Rightarrow> ustr list \<Rightarrow> database \<Rightarrow> database \<times> etl_error option" where
  "load_all env [] db = (db, None)"
| "load_all env (n # ns) db =
     (case download env n of
        Inl e \<Rightarrow> (db, Some e)
      | Inr f \<Rightarrow>
          (case load_staging n f db of
             (db1, Some e) \<Rightarrow> (db1, Some (EtlSql e))
           | (db1, None) \<Rightarrow> load_all env ns db1))"

definition staging_table :: "database \<Rightarrow> ustr \<Rightarrow> sql_error + table" where
  "staging_table db n =
     (case db n of None \<Rightarrow> Inl (NoSuchTable n) | Some (StagingT t) \<Rightarrow> Inr t | Some _ \<Rightarrow> Inl (WrongSchema n))"

text \<open>The rows the \<open>SELECT\<close> of step 4 computes from the \<open>kopo\<close> database it names.\<close>

definition join_source :: "database \<Rightarrow> sql_error + arow list" where
  "join_source kopo =
     (case staging_table kopo t_product of
        Inl e \<Rightarrow> Inl e
      | Inr p \<Rightarrow>
          (case staging_table kopo t_inspection of
             Inl e \<Rightarrow> Inl e
           | Inr i \<Rightarrow>
               (case staging_table kopo t_company of
                  Inl e \<Rightarrow> Inl e
                | Inr c \<Rightarrow> analytic_select p i c)))"

definition build_analytic :: "database \<Rightarrow> database \<Rightarrow> sql_error + database" where
  "build_analytic kopo db =
     (case join_source kopo of Inl e \<Rightarrow> Inl e | Inr rs \<Rightarrow> Inr (create_if_absent t_analytic (AnalyticT rs) db))"

definition next_dsid :: "dsrow list \<Rightarrow> nat" where
  "next_dsid ds = Suc (fold max (map ds_id ds) 0)"

definition dataset_step :: "database \<Rightarrow> database \<times> etl_error option" where
  "dataset_step db =
     (case analytic_rows db of
        Inl e \<Rightarrow> (db, Some (EtlSql e))
      | Inr rs \<Rightarrow>
          (case db t_dataset of
             Some (DatasetT ds) \<Rightarrow>
               (case dataset_inserts (next_dsid ds) (dataset_select rs) of
                  (new, err) \<Rightarrow> (db(t_dataset \<mapsto> DatasetT (ds @ new)), err))
           | _ \<Rightarrow>
               (case dataset_select rs of
                  [] \<Rightarrow> (db, None)
                | row # _ \<Rightarrow>
                    (case dataset_inserts 0 [row] of
                       (_, Some e) \<Rightarrow> (db, Some e)
                     | (_, None) \<Rightarrow>
                         (db, Some (EtlSql (case db t_dataset of None \<Rightarrow> NoSuchTable t_dataset
                                                             | Some _ \<Rightarrow> WrongSchema t_dataset)))))))"

record etl_state =
  es_local :: database
  es_ec2 :: "conn option"

definition etl_body :: "etl_env \<Rightarrow> world \<Rightarrow> etl_state \<times> etl_error option" where
  "etl_body env w =
     (if \<not> env_local_up env
      then (\<lparr>es_local = w_local w, es_ec2 = None\<rparr>, Some (ConnectFailed host_local))
      else if \<not> env_ec2_up env
      then (\<lparr>es_local = w_local w, es_ec2 = None\<rparr>, Some (ConnectFailed host_ec2))
      else
        (let c1 = conn_ddl create_history (conn_open (w_ec2 w))
         in case load_all env excel_files (w_local w) of
              (l, Some e) \<Rightarrow> (\<lparr>es_local = l, es_ec2 = Some c1\<rparr>, Some e)
            | (l, None) \<Rightarrow>
                (case build_analytic (w_ec2_kopo w) (cn_work c1) of
                   Inl e \<Rightarrow> (\<lparr>es_local = l, es_ec2 = Some c1\<rparr>, Some (EtlSql e))
                 | Inr db2 \<Rightarrow>
                     (let c2 = conn_ddl (create_if_absent t_dataset (DatasetT [])) (conn_ddl (\<lambda>_. db2) c1)
                      in case dataset_step (cn_work c2) of
                           (db3, Some e) \<Rightarrow> (\<lparr>es_local = l, es_ec2 = Some (c2\<lparr>cn_work := db3\<rparr>)\<rparr>, Some e)
                         | (db3, None) \<Rightarrow>
                             (let c3 = conn_commit (c2\<lparr>cn_work := db3\<rparr>)
                              in case insert_history p_etl st_success None (cn_work c3) of
                                   Inl e \<Rightarrow> (\<lparr>es_local = l, es_ec2 = Some c3\<rparr>, Some (EtlSql e))
                                 | Inr db4 \<Rightarrow>
                                     (\<lparr>es_local = l, es_ec2 = Some (conn_commit (c3\<lparr>cn_work := db4\<rparr>))\<rparr>,
                                      None))))))"

definition etl_main :: "etl_env \<Rightarrow> world \<Rightarrow> world \<times> etl_error option" where
  "etl_main env w =
     (case etl_body env w of
        (s, err) \<Rightarrow>
          (let c = (case err of None \<Rightarrow> es_ec2 s | Some e \<Rightarrow> record_failure p_etl (env_str env e) (es_ec2 s))
           in (w\<lparr>w_local := es_local s, w_ec2 := (case c of None \<Rightarrow> w_ec2 w | Some cn \<Rightarrow> conn_close cn)\<rparr>, err)))"

subsection \<open>Lemmas\<close>

lemma history_eqI: "db' t_history = db t_history \<Longrightarrow> history db' = history db"
  by (simp add: history_def)

lemma history_ok_eqI: "db' t_history = db t_history \<Longrightarrow> history_ok db' = history_ok db"
  by (simp add: history_ok_def)

lemma dataset_step_other:
  assumes "dataset_step db = (db', e)" and "t \<noteq> t_dataset"
  shows "db' t = db t"
  using assms by (auto simp: dataset_step_def split: sum.splits option.splits stored.splits prod.splits list.splits)

lemma build_analytic_other:
  assumes "build_analytic kopo db = Inr db'" and "t \<noteq> t_analytic"
  shows "db' t = db t"
  using assms by (auto simp: build_analytic_def split: sum.splits)

lemma build_analytic_Inr:
  assumes "build_analytic kopo db = Inr db'"
  shows "\<exists>rs. join_source kopo = Inr rs \<and> db' = create_if_absent t_analytic (AnalyticT rs) db"
  using assms by (auto simp: build_analytic_def split: sum.splits)

lemma table_names_distinct [simp]:
  "t_history \<noteq> t_dataset" "t_history \<noteq> t_analytic" "t_analytic \<noteq> t_dataset"
  "t_dataset \<noteq> t_history" "t_analytic \<noteq> t_history" "t_dataset \<noteq> t_analytic"
  by (simp_all add: table_names)

text \<open>The two shapes of a run's outcome: every step done, or the state at the exception.\<close>

lemma etl_body_None:
  assumes "etl_body env w = (s, None)"
  obtains l db2 db3 db4 where "env_local_up env" and "env_ec2_up env"
    and "load_all env excel_files (w_local w) = (l, None)"
    and "build_analytic (w_ec2_kopo w) (create_history (w_ec2 w)) = Inr db2"
    and "dataset_step (create_if_absent t_dataset (DatasetT []) db2) = (db3, None)"
    and "insert_history p_etl st_success None db3 = Inr db4"
    and "s = \<lparr>es_local = l, es_ec2 = Some \<lparr>cn_committed = db4, cn_work = db4\<rparr>\<rparr>"
  using assms
  by (auto simp: etl_body_def Let_def conn_commit_def split: if_splits prod.splits option.splits sum.splits)

lemma etl_body_Some:
  assumes "etl_body env w = (s, Some e)" and "env_local_up env" and "env_ec2_up env"
  shows "\<exists>c. es_ec2 s = Some c \<and> cn_work c t_history = create_history (w_ec2 w) t_history \<and>
             es_local s = fst (load_all env excel_files (w_local w))"
  using assms
  by (auto simp: etl_body_def Let_def conn_commit_def
      split: if_splits prod.splits option.splits sum.splits
      dest!: insert_history_other [where t = t_history] build_analytic_other [where t = t_history]
             dataset_step_other [where t = t_history])

lemma etl_body_ec2_up:
  assumes "etl_body env w = (s, err)" and "es_ec2 s \<noteq> None"
  shows "env_local_up env \<and> env_ec2_up env"
  using assms by (auto simp: etl_body_def split: if_splits)

lemma analytic_rows_eqI: "db' t_analytic = db t_analytic \<Longrightarrow> analytic_rows db' = analytic_rows db"
  by (simp add: analytic_rows_def)

text \<open>The failure handler of the ETL run finds the history table in the state it left.\<close>

lemma etl_failure_insert:
  assumes "etl_body env w = (s, Some e)" and "es_ec2 s = Some c" and "history_ok (w_ec2 w)"
  obtains db' where "insert_history p_etl st_failure (Some (env_str env e)) (cn_work c) = Inr db'"
    and "history (cn_work c) = history (w_ec2 w)"
    and "w_ec2 (fst (etl_main env w)) = db'"
proof -
  have up: "env_local_up env" "env_ec2_up env" using etl_body_ec2_up [OF assms(1)] assms(2) by auto
  obtain c' where c': "es_ec2 s = Some c'" and h: "cn_work c' t_history = create_history (w_ec2 w) t_history"
    using etl_body_Some [OF assms(1) up] by blast
  have cc: "c' = c" using c' assms(2) by simp
  have ok: "history_ok (cn_work c)"
    using history_ok_eqI [of "cn_work c'" "create_history (w_ec2 w)", OF h] assms(3) cc by simp
  have dom: "t_history \<in> dom (cn_work c)" using h create_history_has [of "w_ec2 w"] cc by auto
  obtain db' where ins: "insert_history p_etl st_failure (Some (env_str env e)) (cn_work c) = Inr db'"
    using insert_history_Inr [OF ok dom] by blast
  have "w_ec2 (fst (etl_main env w)) = db'"
    using assms(1,2) record_failure_insert [OF ins] by (simp add: etl_main_def conn_close_def)
  moreover have "history (cn_work c) = history (w_ec2 w)"
    using history_eqI [of "cn_work c'" "create_history (w_ec2 w)", OF h] cc by simp
  ultimately show ?thesis using ins that by blast
qed

lemma load_all_wf: "staging_wf db \<Longrightarrow> staging_wf (fst (load_all env ns db))"
proof (induction ns arbitrary: db)
  case Nil
  then show ?case by simp
next
  case (Cons n ns)
  have wf1: "staging_wf (fst (load_staging n f db))" for f
    by (rule load_staging_wf [OF Cons.prems])
  show ?case
  proof (cases "download env n")
    case (Inr f)
    then show ?thesis
      using wf1 [of f] Cons.IH [of "fst (load_staging n f db)"]
      by (cases "load_staging n f db") (auto split: option.splits)
  qed (use Cons.prems in simp)
qed

lemma etl_body_local:
  "es_local (fst (etl_body env w)) =
     (if env_local_up env \<and> env_ec2_up env then fst (load_all env excel_files (w_local w)) else w_local w)"
  by (auto simp: etl_body_def Let_def split: prod.splits option.splits sum.splits)

lemma etl_main_local: "w_local (fst (etl_main env w)) = es_local (fst (etl_body env w))"
  by (simp add: etl_main_def split: prod.splits)

lemma load_staging_dom:
  assumes "load_staging n f db = (db1, None)"
  shows "n \<in> dom db1" and "dom db \<subseteq> dom db1"
  using assms
  by (auto simp: load_staging_def create_staging_def insert_staging_def create_if_absent_def Let_def
      split: sum.splits if_splits option.splits stored.splits)

lemma load_all_dom:
  assumes "load_all env ns db = (l, None)"
  shows "set ns \<union> dom db \<subseteq> dom l"
  using assms
proof (induction ns arbitrary: db)
  case Nil
  then show ?case by simp
next
  case (Cons n ns)
  obtain f db1 where f: "download env n = Inr f" and ld: "load_staging n f db = (db1, None)"
    and rest: "load_all env ns db1 = (l, None)"
    using Cons.prems by (auto split: sum.splits prod.splits option.splits)
  show ?case
    using Cons.IH [OF rest] load_staging_dom [OF ld] by (simp only: list.set(2)) blast
qed

lemma dataset_step_None:
  assumes "dataset_step db = (db', None)"
  shows "\<exists>rs. analytic_rows db = Inr rs" and "t_dataset \<in> dom db \<Longrightarrow> t_dataset \<in> dom db'"
  using assms
  by (auto simp: dataset_step_def split: sum.splits option.splits stored.splits prod.splits list.splits)

lemma analytic_rows_Inr_stored: "analytic_rows db = Inr rs \<Longrightarrow> db t_analytic = Some (AnalyticT rs)"
  by (auto simp: analytic_rows_def split: option.splits stored.splits)

text \<open>The state a successful run leaves: the three staging tables locally, and on EC2 an
  analytical table, the dataset table and a history table.\<close>

lemma etl_success_state:
  assumes "etl_main env w = (w', None)"
  shows "set excel_files \<subseteq> dom (w_local w')" and "\<exists>rs. w_ec2 w' t_analytic = Some (AnalyticT rs)"
    and "t_dataset \<in> dom (w_ec2 w')" and "\<exists>hs. w_ec2 w' t_history = Some (HistoryT hs)"
proof -
  obtain s where body: "etl_body env w = (s, None)"
    using assms by (cases "etl_body env w") (auto simp: etl_main_def)
  then obtain l db2 db3 db4
    where ld: "load_all env excel_files (w_local w) = (l, None)"
      and ds: "dataset_step (create_if_absent t_dataset (DatasetT []) db2) = (db3, None)"
      and ins: "insert_history p_etl st_success None db3 = Inr db4"
      and s: "s = \<lparr>es_local = l, es_ec2 = Some \<lparr>cn_committed = db4, cn_work = db4\<rparr>\<rparr>"
    by (rule etl_body_None)
  have w': "w_local w' = l" "w_ec2 w' = db4"
    using assms body s by (auto simp: etl_main_def conn_close_def)
  show "set excel_files \<subseteq> dom (w_local w')"
    using load_all_dom [OF ld] w' by auto
  obtain rs where "analytic_rows (create_if_absent t_dataset (DatasetT []) db2) = Inr rs"
    using dataset_step_None(1) [OF ds] by blast
  then have "create_if_absent t_dataset (DatasetT []) db2 t_analytic = Some (AnalyticT rs)"
    by (rule analytic_rows_Inr_stored)
  moreover have "db4 t_analytic = create_if_absent t_dataset (DatasetT []) db2 t_analytic"
    using dataset_step_other [OF ds, of t_analytic] insert_history_other [OF ins, of t_analytic] by simp
  ultimately show "\<exists>rs. w_ec2 w' t_analytic = Some (AnalyticT rs)"
    using w' by auto
  have "t_dataset \<in> dom db3"
    using dataset_step_None(2) [OF ds] by (simp add: create_if_absent_def)
  moreover have "db4 t_dataset = db3 t_dataset"
    using insert_history_other [OF ins, of t_dataset] by simp
  ultimately show "t_dataset \<in> dom (w_ec2 w')"
    using w' by (simp add: domIff)
  have "db4 = db3(t_history \<mapsto> HistoryT (history db3 @
              [\<lparr>h_id = next_hid (history db3), h_process = p_etl, h_status = st_success, h_error = None\<rparr>]))"
    using insert_history_Inr [OF insert_history_history(2,3) [OF ins]] ins by simp
  then show "\<exists>hs. w_ec2 w' t_history = Some (HistoryT hs)"
    using w' by simp
qed

lemma join_source_Inr: "join_source kopo = Inr rs \<Longrightarrow> \<exists>p i c. analytic_select p i c = Inr rs"
  by (auto simp: join_source_def split: sum.splits)

text \<open>A successful run that found no analytical table leaves the result of the join there.\<close>

lemma etl_success_fresh_analytic:
  assumes "etl_main env w = (w', None)" and "t_analytic \<notin> dom (w_ec2 w)"
  shows "\<exists>p i c rs. analytic_select p i c = Inr rs \<and> w_ec2 w' t_analytic = Some (AnalyticT rs)"
proof -
  obtain s where body: "etl_body env w = (s, None)"
    using assms by (cases "etl_body env w") (auto simp: etl_main_def)
  then obtain l db2 db3 db4
    where ba: "build_analytic (w_ec2_kopo w) (create_history (w_ec2 w)) = Inr db2"
      and ds: "dataset_step (create_if_absent t_dataset (DatasetT []) db2) = (db3, None)"
      and ins: "insert_history p_etl st_success None db3 = Inr db4"
      and s: "s = \<lparr>es_local = l, es_ec2 = Some \<lparr>cn_committed = db4, cn_work = db4\<rparr>\<rparr>"
    by (rule etl_body_None)
  obtain rs where rs: "join_source (w_ec2_kopo w) = Inr rs"
    and db2: "db2 = create_if_absent t_analytic (AnalyticT rs) (create_history (w_ec2 w))"
    using build_analytic_Inr [OF ba] by blast
  have "create_history (w_ec2 w) t_analytic = None"
    using assms(2) by (simp add: create_history_def domIff)
  then have "db2 t_analytic = Some (AnalyticT rs)"
    using db2 by (simp add: create_if_absent_def domIff)
  moreover have "w_ec2 w' t_analytic = db2 t_analytic"
    using assms(1) body s dataset_step_other [OF ds, of t_analytic] insert_history_other [OF ins, of t_analytic]
    by (auto simp: etl_main_def conn_close_def)
  ultimately show ?thesis
    using join_source_Inr [OF rs] by auto
qed

subsection \<open>Example runs\<close>

definition ex_kopo :: database where
  "ex_kopo = [t_product \<mapsto> StagingT (ex_product\<lparr>trows := []\<rparr>),
              t_inspection \<mapsto> StagingT (ex_inspection\<lparr>trows := []\<rparr>),
              t_company \<mapsto> StagingT ex_company]"

definition ex_env :: etl_env where
  "ex_env = \<lparr>env_local_up = True, env_ec2_up = True, env_http = (\<lambda>_. Inr \<lparr>resp_status = 200, resp_excel = Inr ex_frame\<rparr>), env_str = (\<lambda>_. [0x45])\<rparr>"

definition ex_world :: world where
  "ex_world = \<lparr>w_local = Map.empty, w_ec2 = Map.empty, w_ec2_kopo = ex_kopo\<rparr>"

text \<open>The same run when the EC2 server has no \<open>kopo\<close> tables: the join fails.\<close>

definition ex_world_nokopo :: world where
  "ex_world_nokopo = \<lparr>w_local = Map.empty, w_ec2 = Map.empty, w_ec2_kopo = Map.empty\<rparr>"

lemmas etl_run_eval =
  download_def raise_for_status_def etl_main_def etl_body_def ex_env_def ex_kopo_def Let_def
  load_staging_def create_staging_def insert_staging_def create_if_absent_def staging_cols_def
  mysql_type_of_def type_mapping_def ex_frame_def missing_col_def place_row_def excel_files_def
  build_analytic_def join_source_def staging_table_def analytic_eval
  dataset_step_def analytic_rows_def dataset_select_def insert_history_def create_history_def
  conn_commit_def conn_open_def conn_ddl_def table_names asc_def misfit_def int32_fits_def

lemma ex_run_ok: "etl_main ex_env ex_world = (fst (etl_main ex_env ex_world), None)"
proof -
  have "snd (etl_main ex_env ex_world) = None"
    by (simp add: etl_run_eval ex_world_def)
  then show ?thesis by (metis prod.collapse)
qed

lemma ex_run_nokopo_body:
  "\<exists>s. etl_body ex_env ex_world_nokopo = (s, Some (EtlSql (NoSuchTable t_product))) \<and>
       es_ec2 s = Some (conn_ddl create_history (conn_open Map.empty))"
  by (simp add: etl_run_eval ex_world_nokopo_def)

subsection \<open>Properties of the ETL run\<close>

text \<open>C28. A run that ends without an exception has appended exactly one row to the
  history table on EC2: process "ETL process", status "success", no error text.\<close>

theorem etl_success_history:
  assumes "etl_main env w = (w', None)"
  shows "\<exists>h. history (w_ec2 w') = history (w_ec2 w) @ [h] \<and>
             h_process h = p_etl \<and> h_status h = st_success \<and> h_error h = None"
proof -
  obtain s where body: "etl_body env w = (s, None)"
    using assms by (cases "etl_body env w") (auto simp: etl_main_def)
  then obtain l db2 db3 db4
    where ba: "build_analytic (w_ec2_kopo w) (create_history (w_ec2 w)) = Inr db2"
      and ds: "dataset_step (create_if_absent t_dataset (DatasetT []) db2) = (db3, None)"
      and ins: "insert_history p_etl st_success None db3 = Inr db4"
      and s: "s = \<lparr>es_local = l, es_ec2 = Some \<lparr>cn_committed = db4, cn_work = db4\<rparr>\<rparr>"
    by (rule etl_body_None)
  have "w_ec2 w' = db4"
    using assms body s by (auto simp: etl_main_def conn_close_def)
  moreover have "db3 t_history = create_history (w_ec2 w) t_history"
    using dataset_step_other [OF ds] build_analytic_other [OF ba] by simp
  then have "history db3 = history (w_ec2 w)"
    using history_eqI [of db3 "create_history (w_ec2 w)"] by simp
  ultimately show ?thesis
    using insert_history_history(1) [OF ins] by auto
qed

theorem etl_success_history_witness:
  "\<exists>h. history (w_ec2 (fst (etl_main ex_env ex_world))) = [h] \<and> h_status h = st_success"
  using etl_success_history [OF ex_run_ok] by (auto simp: ex_world_def history_def)

text \<open>C29. When both servers accept the connection and the run then fails, the history
  table on EC2 gains exactly one row: process "ETL process", status "failure", and the text
  of the exception. The history table must not already exist with another schema.\<close>

theorem etl_failure_history:
  assumes "etl_main env w = (w', Some e)" and "history_ok (w_ec2 w)"
    and "env_local_up env" and "env_ec2_up env"
  shows "history (w_ec2 w') = history (w_ec2 w) @
           [\<lparr>h_id = next_hid (history (w_ec2 w)), h_process = p_etl, h_status = st_failure,
             h_error = Some (env_str env e)\<rparr>]"
proof -
  obtain s where body: "etl_body env w = (s, Some e)"
    using assms(1) by (cases "etl_body env w") (auto simp: etl_main_def)
  obtain c where c: "es_ec2 s = Some c"
    using etl_body_Some [OF body assms(3,4)] by blast
  obtain db' where ins: "insert_history p_etl st_failure (Some (env_str env e)) (cn_work c) = Inr db'"
    and h: "history (cn_work c) = history (w_ec2 w)" and w: "w_ec2 (fst (etl_main env w)) = db'"
    by (rule etl_failure_insert [OF body c assms(2)])
  show ?thesis
    using insert_history_history(1) [OF ins] h w assms(1) by simp
qed

theorem etl_failure_history_witness:
  "history (w_ec2 (fst (etl_main ex_env ex_world_nokopo))) =
     [\<lparr>h_id = 1, h_process = p_etl, h_status = st_failure, h_error = Some [0x45]\<rparr>]"
proof -
  obtain s where "etl_body ex_env ex_world_nokopo = (s, Some (EtlSql (NoSuchTable t_product)))"
    using ex_run_nokopo_body by blast
  then have run: "etl_main ex_env ex_world_nokopo =
      (fst (etl_main ex_env ex_world_nokopo), Some (EtlSql (NoSuchTable t_product)))"
    by (simp add: etl_main_def)
  have "history_ok (w_ec2 ex_world_nokopo)" "env_local_up ex_env" "env_ec2_up ex_env"
    by (simp_all add: ex_world_nokopo_def history_ok_def ex_env_def)
  from etl_failure_history [OF run this] show ?thesis
    by (simp add: ex_world_nokopo_def history_def next_hid_def ex_env_def)
qed

text \<open>C30. When a server refuses the connection, the run raises the connection error of
  that server, local first, and changes nothing: no table is written and no history row is
  recorded, since the EC2 cursor does not exist when the handler runs.\<close>

theorem etl_connect_failure:
  assumes "\<not> env_local_up env \<or> \<not> env_ec2_up env"
  shows "etl_main env w = (w, Some (ConnectFailed (if env_local_up env then host_ec2 else host_local)))"
  using assms by (auto simp: etl_main_def etl_body_def record_failure_def)

theorem etl_connect_failure_witness:
  "etl_main (ex_env\<lparr>env_ec2_up := False\<rparr>) ex_world = (ex_world, Some (ConnectFailed host_ec2))"
  using etl_connect_failure [of "ex_env\<lparr>env_ec2_up := False\<rparr>" ex_world] by (simp add: ex_env_def)

text \<open>C31. The analytical table after a successful run is the one that was there before,
  if there was one (\<open>CREATE TABLE IF NOT EXISTS\<close> does not refresh it); otherwise it is
  the join of the \<open>kopo\<close> tables of the EC2 server. The local staging tables that the
  run has just loaded are never read.\<close>

theorem etl_join_source:
  assumes "etl_main env w = (w', None)"
  shows "analytic_rows (w_ec2 w') =
           (if t_analytic \<in> dom (w_ec2 w) then analytic_rows (w_ec2 w) else join_source (w_ec2_kopo w))"
proof -
  obtain s where body: "etl_body env w = (s, None)"
    using assms by (cases "etl_body env w") (auto simp: etl_main_def)
  then obtain l db2 db3 db4
    where ba: "build_analytic (w_ec2_kopo w) (create_history (w_ec2 w)) = Inr db2"
      and ds: "dataset_step (create_if_absent t_dataset (DatasetT []) db2) = (db3, None)"
      and ins: "insert_history p_etl st_success None db3 = Inr db4"
      and s: "s = \<lparr>es_local = l, es_ec2 = Some \<lparr>cn_committed = db4, cn_work = db4\<rparr>\<rparr>"
    by (rule etl_body_None)
  obtain rs where rs: "join_source (w_ec2_kopo w) = Inr rs"
    and db2: "db2 = create_if_absent t_analytic (AnalyticT rs) (create_history (w_ec2 w))"
    using build_analytic_Inr [OF ba] by blast
  have "w_ec2 w' t_analytic = db2 t_analytic"
    using assms body s dataset_step_other [OF ds] insert_history_other [OF ins]
    by (auto simp: etl_main_def conn_close_def)
  moreover have "create_history (w_ec2 w) t_analytic = w_ec2 w t_analytic"
    by (simp add: create_history_def)
  ultimately show ?thesis
    using rs db2 analytic_rows_eqI [of "w_ec2 w'" "w_ec2 w"]
    by (auto simp: create_if_absent_def analytic_rows_def domIff)
qed

theorem etl_join_source_witness:
  "analytic_rows (w_ec2 (fst (etl_main ex_env ex_world))) = join_source ex_kopo"
  using etl_join_source [OF ex_run_ok] by (simp add: ex_world_def)

text \<open>C32. After a failed run every write the run made on EC2 before the exception is kept,
  committed by the failure handler, for every table but the history table (which gains the
  failure row): nothing on EC2 is rolled back.\<close>

theorem etl_failure_keeps_writes:
  assumes "etl_body env w = (s, Some e)" and "es_ec2 s = Some c" and "history_ok (w_ec2 w)"
    and "t \<noteq> t_history"
  shows "w_ec2 (fst (etl_main env w)) t = cn_work c t"
proof -
  obtain db' where ins: "insert_history p_etl st_failure (Some (env_str env e)) (cn_work c) = Inr db'"
    and w: "w_ec2 (fst (etl_main env w)) = db'"
    by (rule etl_failure_insert [OF assms(1-3)])
  show ?thesis using insert_history_other [OF ins assms(4)] w by simp
qed

theorem etl_failure_keeps_writes_witness:
  "w_ec2 (fst (etl_main ex_env ex_world_nokopo)) t_analytic = None"
proof -
  obtain s where body: "etl_body ex_env ex_world_nokopo = (s, Some (EtlSql (NoSuchTable t_product)))"
    and c: "es_ec2 s = Some (conn_ddl create_history (conn_open Map.empty))"
    using ex_run_nokopo_body by blast
  have "history_ok (w_ec2 ex_world_nokopo)" "t_analytic \<noteq> t_history"
    by (simp_all add: ex_world_nokopo_def history_ok_def)
  from etl_failure_keeps_writes [OF body c this] show ?thesis
    by (simp add: create_history_def create_if_absent_def)
qed

text \<open>C33. Whatever happens after step 3, the local database keeps what the staging loads
  committed, up to the first failing load: nothing is rolled back there either.\<close>

theorem etl_local_committed:
  assumes "etl_main env w = (w', err)" and "env_local_up env" and "env_ec2_up env"
  shows "w_local w' = fst (load_all env excel_files (w_local w))"
proof (cases err)
  case None
  obtain s where body: "etl_body env w = (s, None)"
    using assms(1) None by (cases "etl_body env w") (auto simp: etl_main_def)
  then obtain l db2 db3 db4
    where "load_all env excel_files (w_local w) = (l, None)"
      and "s = \<lparr>es_local = l, es_ec2 = Some \<lparr>cn_committed = db4, cn_work = db4\<rparr>\<rparr>"
    by (rule etl_body_None)
  then show ?thesis using assms(1) body by (auto simp: etl_main_def)
next
  case (Some e)
  obtain s where body: "etl_body env w = (s, Some e)"
    using assms(1) Some by (cases "etl_body env w") (auto simp: etl_main_def)
  then have "es_local s = fst (load_all env excel_files (w_local w))"
    using etl_body_Some [OF body assms(2,3)] by blast
  then show ?thesis using assms(1) body by (auto simp: etl_main_def)
qed

theorem etl_local_committed_witness:
  "w_local (fst (etl_main ex_env ex_world)) = fst (load_all ex_env excel_files Map.empty)"
  using etl_local_committed [OF ex_run_ok] by (simp add: ex_env_def ex_world_def)

end
