(* ===== verification/ValRun.thy ===== *)
theory ValRun
  imports Validation Retry History
begin

text \<open>
  The top-level run of \<open>data_validation.py\<close> (lines 169-246).
  \<^item> \<open>val_env\<close>: the outcome of each \<open>mysql.connector.connect\<close> call, per server,
    and \<open>str(e)\<close> of an exception.
  \<^item> \<open>val_steps\<close> lists the checks of lines 181-206 in order: five row counts, then the
    four checks on the analytical table. \<open>run_steps\<close> runs them as straight-line code
    does. It collects their log lines and stops at the first exception.
  \<^item> \<open>val_body\<close> is the \<open>try\<close> block. It connects through \<open>connect_with_retry\<close>
    with its default of three attempts, runs the checks on the EC2 connection and records
    the success row.
  \<^item> \<open>val_main\<close> adds the \<open>except\<close> and \<open>finally\<close> blocks (lines 218-243).
  \<^item> \<open>val_script\<close> adds the module-level lines 245-246. They call \<open>main()\<close>, which
    the file does not define. So once the \<open>try\<close> block has finished normally, the
    script raises \<open>NameError\<close>.
  A connection attempt returning \<open>None\<close> (only possible for a non-positive retry count)
  makes \<open>.cursor()\<close> raise \<open>AttributeError\<close>; the model records that exception
  and does not follow the second \<open>AttributeError\<close> the \<open>finally\<close> block would
  raise on \<open>None.is_connected()\<close>.
\<close>

datatype val_error =
    VConn py_exc       \<comment> \<open>re-raised by \<open>connect_with_retry\<close>\<close>
  | VNoneCursor        \<comment> \<open>\<open>AttributeError\<close> on \<open>None.cursor()\<close>\<close>
  | VSql sql_error     \<comment> \<open>\<open>mysql.connector.Error\<close> of a query\<close>
  | VNameError ustr    \<comment> \<open>a name the module does not bind\<close>

record val_env =
  venv_local :: "nat \<Rightarrow> unit attempt"
  venv_ec2 :: "nat \<Rightarrow> unit attempt"
  venv_str :: "val_error \<Rightarrow> ustr"

definition val_connect :: "(nat \<Rightarrow> unit attempt) \<Rightarrow> val_error option" where
  "val_connect outcome =
     (case r_result (connect_with_retry outcome 3) of
        RConn _ \<Rightarrow> None
      | RNone \<Rightarrow> Some VNoneCursor
      | RRaise x \<Rightarrow> Some (VConn x))"

definition unit_result :: "log \<times> (sql_error + 'a) \<Rightarrow> log \<times> (sql_error + unit)" where
  "unit_result r = (fst r, map_sum id (\<lambda>_. ()) (snd r))"

definition val_steps :: "database \<Rightarrow> database \<Rightarrow> (log \<times> (sql_error + unit)) list" where
  "val_steps ldb edb =
     [unit_result (check_row_count ldb t_product), unit_result (check_row_count ldb t_inspection),
      unit_result (check_row_count ldb t_company),
      unit_result (check_row_count edb t_analytic), unit_result (check_row_count edb t_dataset),
      unit_result (check_aggregation edb), unit_result (check_duplicates edb),
      unit_result (check_null_values edb), unit_result (check_data_range edb)]"

fun run_steps :: "(log \<times> (sql_error + unit)) list \<Rightarrow> log \<times> sql_error option" where
  "run_steps [] = ([], None)"
| "run_steps ((lg, Inl e) # rest) = (lg, Some e)"
| "run_steps ((lg, Inr _) # rest) = (let (lg', err) = run_steps rest in (lg @ lg', err))"

definition val_body :: "val_env \<Rightarrow> world \<Rightarrow> conn option \<times> log \<times> val_error option" where
  "val_body env w =
     (case val_connect (venv_local env) of
        Some e \<Rightarrow> (None, [], Some e)
      | None \<Rightarrow>
          (case val_connect (venv_ec2 env) of
             Some e \<Rightarrow> (None, [], Some e)
           | None \<Rightarrow>
               (let c = conn_open (w_ec2 w)
                in case run_steps (val_steps (w_local w) (cn_work c)) of
                     (lg, Some e) \<Rightarrow> (Some c, lg, Some (VSql e))
                   | (lg, None) \<Rightarrow>
                       (case insert_history p_validation st_success None (cn_work c) of
                          Inl e \<Rightarrow> (Some c, lg, Some (VSql e))
                        | Inr db \<Rightarrow> (Some (conn_commit (c\<lparr>cn_work := db\<rparr>)), lg, None)))))"

definition val_main :: "val_env \<Rightarrow> world \<Rightarrow> world \<times> log \<times> val_error option" where
  "val_main env w =
     (case val_body env w of
        (c, lg, err) \<Rightarrow>
          (let c' = (case err of None \<Rightarrow> c | Some e \<Rightarrow> record_failure p_validation (venv_str env e) c)
           in (w\<lparr>w_ec2 := (case c' of None \<Rightarrow> w_ec2 w | Some cn \<Rightarrow> conn_close cn)\<rparr>, lg, err)))"

text \<open>The names the module binds once its top-level \<open>try\<close> has completed: its imports,
  the logging and configuration globals, the six \<open>def\<close>s, and the variables the
  \<open>try\<close> block assigns.\<close>

definition val_globals :: "ustr list" where
  "val_globals = map asc
     [''mysql'', ''logging'', ''datetime'', ''os'', ''time'', ''log_dir'', ''log_file'', ''logger'',
      ''LOCAL_DB_CONFIG'', ''EC2_DB_CONFIG'', ''connect_with_retry'', ''check_row_count'',
      ''check_aggregation'', ''check_duplicates'', ''check_null_values'', ''check_data_range'',
      ''local_connection'', ''local_cursor'', ''ec2_connection'', ''ec2_cursor'', ''local_counts'',
      ''ec2_counts'', ''insert_history_query'']"

text \<open>Lines 245-246, \<open>if __name__ == "__main__": main()\<close>: run as a script, the call
  looks \<open>main\<close> up among the module's names and raises \<open>NameError\<close> when it is not
  bound. (A bound \<open>main\<close> would be called; the module binds none.)\<close>

definition val_script :: "bool \<Rightarrow> val_env \<Rightarrow> world \<Rightarrow> world \<times> log \<times> val_error option" where
  "val_script as_main env w =
     (case val_main env w of
        (w', lg, None) \<Rightarrow>
          if as_main \<and> asc ''main'' \<notin> set val_globals then (w', lg, Some (VNameError (asc ''main'')))
          else (w', lg, None)
      | r \<Rightarrow> r)"

subsection \<open>Lemmas\<close>

lemma run_steps_None_iff: "snd (run_steps xs) = None \<longleftrightarrow> (\<forall>x \<in> set xs. \<exists>u. snd x = Inr u)"
  by (induction xs rule: run_steps.induct) (auto split: prod.splits)

lemma val_body_None:
  assumes "val_body env w = (c, lg, None)"
  obtains db where "val_connect (venv_local env) = None" and "val_connect (venv_ec2 env) = None"
    and "snd (run_steps (val_steps (w_local w) (w_ec2 w))) = None"
    and "insert_history p_validation st_success None (w_ec2 w) = Inr db"
    and "c = Some \<lparr>cn_committed = db, cn_work = db\<rparr>"
  using assms
  by (auto simp: val_body_def Let_def conn_open_def conn_commit_def
      split: option.splits prod.splits sum.splits)

lemma val_body_Some:
  assumes "val_body env w = (c, lg, Some e)"
    and "val_connect (venv_local env) = None" and "val_connect (venv_ec2 env) = None"
  shows "c = Some (conn_open (w_ec2 w))"
  using assms
  by (auto simp: val_body_def Let_def split: option.splits prod.splits sum.splits)

lemma val_body_conn:
  assumes "val_body env w = (c, lg, Some e)"
  shows "c = None \<or> c = Some (conn_open (w_ec2 w))"
  using assms
  by (auto simp: val_body_def Let_def split: option.splits prod.splits sum.splits)

lemma val_connect_ok: "val_connect (\<lambda>_. AOk ()) = None"
  by (simp add: val_connect_def connect_with_retry_from numeral_eq_Suc)

lemma val_main_cases:
  assumes "val_main env w = (w', lg, err)"
  obtains c where "val_body env w = (c, lg, err)"
    and "w' = w\<lparr>w_ec2 := (case (case err of None \<Rightarrow> c | Some e \<Rightarrow> record_failure p_validation (venv_str env e) c) of
                              None \<Rightarrow> w_ec2 w | Some cn \<Rightarrow> conn_close cn)\<rparr>"
  using assms by (cases "val_body env w") (auto simp: val_main_def)

text \<open>Progress of the checks: with the five tables in place and an analytical table of the
  right shape, none of the nine checks raises.\<close>

lemma val_steps_ok:
  assumes "{t_product, t_inspection, t_company} \<subseteq> dom ldb" and "t_dataset \<in> dom edb"
    and "edb t_analytic = Some (AnalyticT rs)"
  shows "snd (run_steps (val_steps ldb edb)) = None"
proof -
  have a: "analytic_rows edb = Inr rs" by (rule analytic_rows_stored [of edb rs, OF assms(3)])
  have rc: "\<exists>u. snd (unit_result (check_row_count db n)) = Inr u" if "n \<in> dom db" for db n
    using that by (auto simp: unit_result_def check_row_count_def)
  show ?thesis
    unfolding run_steps_None_iff val_steps_def check_aggregation_def check_duplicates_def
      check_null_values_def check_data_range_def
    using assms(1,2) rc [of t_product ldb] rc [of t_inspection ldb] rc [of t_company ldb]
      rc [of t_dataset edb] rc [of t_analytic edb] assms(3)
    by (simp add: domIff with_analytic_Inr [OF a] unit_result_def)
qed

lemma val_main_succeeds:
  assumes "val_connect (venv_local env) = None" and "val_connect (venv_ec2 env) = None"
    and "{t_product, t_inspection, t_company} \<subseteq> dom (w_local w)" and "t_dataset \<in> dom (w_ec2 w)"
    and "w_ec2 w t_analytic = Some (AnalyticT rs)" and "w_ec2 w t_history = Some (HistoryT hs)"
  shows "snd (snd (val_main env w)) = None"
proof -
  obtain lg where steps: "run_steps (val_steps (w_local w) (w_ec2 w)) = (lg, None)"
    using val_steps_ok [OF assms(3-5)] by (metis prod.collapse)
  have ok: "history_ok (w_ec2 w)" and dom: "t_history \<in> dom (w_ec2 w)"
    using assms(6) by (auto simp: history_ok_def)
  obtain db where "insert_history p_validation st_success None (w_ec2 w) = Inr db"
    using insert_history_Inr [OF ok dom] by blast
  then show ?thesis
    using assms(1,2) steps by (simp add: val_main_def val_body_def Let_def)
qed

text \<open>A run without exception has run the nine checks without error and committed one
  success row.\<close>

lemma val_main_success_row:
  assumes "val_main env w = (w', lg, None)"
  shows "snd (run_steps (val_steps (w_local w) (w_ec2 w))) = None \<and>
         history (w_ec2 w') = history (w_ec2 w) @
           [\<lparr>h_id = next_hid (history (w_ec2 w)), h_process = p_validation, h_status = st_success,
             h_error = None\<rparr>]"
proof -
  obtain c where body: "val_body env w = (c, lg, None)"
    and w': "w' = w\<lparr>w_ec2 := (case c of None \<Rightarrow> w_ec2 w | Some cn \<Rightarrow> conn_close cn)\<rparr>"
    using val_main_cases [OF assms] by auto
  obtain db where steps: "snd (run_steps (val_steps (w_local w) (w_ec2 w))) = None"
    and ins: "insert_history p_validation st_success None (w_ec2 w) = Inr db"
    and c: "c = Some \<lparr>cn_committed = db, cn_work = db\<rparr>"
    by (rule val_body_None [OF body])
  show ?thesis
    using steps insert_history_history(1) [OF ins] w' c by (simp add: conn_close_def)
qed

lemma val_globals_no_main: "asc ''main'' \<notin> set val_globals"
  by (simp add: val_globals_def asc_def)

subsection \<open>Example runs\<close>

definition ex_venv :: val_env where
  "ex_venv = \<lparr>venv_local = (\<lambda>_. AOk ()), venv_ec2 = (\<lambda>_. AOk ()), venv_str = (\<lambda>_. [0x45])\<rparr>"

definition ex_vworld :: world where
  "ex_vworld =
     \<lparr>w_local = [t_product \<mapsto> StagingT ex_product, t_inspection \<mapsto> StagingT ex_inspection,
                 t_company \<mapsto> StagingT ex_company],
      w_ec2 = [t_analytic \<mapsto> AnalyticT [], t_dataset \<mapsto> DatasetT [], t_history \<mapsto> HistoryT []],
      w_ec2_kopo = Map.empty\<rparr>"

lemmas val_run_eval =
  val_main_def val_body_def val_steps_def unit_result_def Let_def conn_open_def conn_commit_def
  check_defs analytic_rows_def insert_history_def record_failure_def table_names
  ex_venv_def val_connect_ok invalid_grades_def duplicates_def null_counts_def sql_sum_def grade_distribution_def
  aggregate_def

subsection \<open>Properties of the validation run\<close>

text \<open>C34. Run as a script, \<open>data_validation.py\<close> fails even when the validation
  succeeds: with both connections up and the five checked tables and the history table in
  place, the run commits its success row and then raises \<open>NameError\<close> for \<open>main\<close>,
  which the module never defines. Imported as a module, the same run ends normally.\<close>

theorem val_script_name_error:
  assumes "val_connect (venv_local env) = None" and "val_connect (venv_ec2 env) = None"
    and "{t_product, t_inspection, t_company} \<subseteq> dom (w_local w)" and "t_dataset \<in> dom (w_ec2 w)"
    and "w_ec2 w t_analytic = Some (AnalyticT rs)" and "w_ec2 w t_history = Some (HistoryT hs)"
  shows "snd (snd (val_script True env w)) = Some (VNameError (asc ''main'')) \<and>
         history (w_ec2 (fst (val_script True env w))) =
           hs @ [\<lparr>h_id = next_hid hs, h_process = p_validation, h_status = st_success, h_error = None\<rparr>] \<and>
         snd (snd (val_script False env w)) = None"
proof -
  obtain w' lg where run: "val_main env w = (w', lg, None)"
    using val_main_succeeds [OF assms] by (metis prod.collapse)
  have "history (w_ec2 w') =
          hs @ [\<lparr>h_id = next_hid hs, h_process = p_validation, h_status = st_success, h_error = None\<rparr>]"
    using val_main_success_row [OF run] assms(6) by (simp add: history_def)
  then show ?thesis
    using run val_globals_no_main by (simp add: val_script_def)
qed

theorem val_script_name_error_witness:
  "val_connect (venv_local ex_venv) = None \<and> val_connect (venv_ec2 ex_venv) = None \<and>
   {t_product, t_inspection, t_company} \<subseteq> dom (w_local ex_vworld) \<and> t_dataset \<in> dom (w_ec2 ex_vworld) \<and>
   w_ec2 ex_vworld t_analytic = Some (AnalyticT []) \<and> w_ec2 ex_vworld t_history = Some (HistoryT []) \<and>
   snd (snd (val_script True ex_venv ex_vworld)) = Some (VNameError (asc ''main''))"
proof -
  have h: "val_connect (venv_local ex_venv) = None" "val_connect (venv_ec2 ex_venv) = None"
    "{t_product, t_inspection, t_company} \<subseteq> dom (w_local ex_vworld)" "t_dataset \<in> dom (w_ec2 ex_vworld)"
    "w_ec2 ex_vworld t_analytic = Some (AnalyticT [])" "w_ec2 ex_vworld t_history = Some (HistoryT [])"
    by (simp_all add: ex_venv_def val_connect_ok ex_vworld_def table_names)
  show ?thesis
    using val_script_name_error [OF h] h by simp
qed

text \<open>C35. A validation run that ends without exception has run all nine checks without
  error and appended exactly one history row on EC2: process "data validation", status
  "success", no error text.\<close>

theorem val_success_history:
  assumes "val_main env w = (w', lg, None)"
  shows "snd (run_steps (val_steps (w_local w) (w_ec2 w))) = None \<and>
         history (w_ec2 w') = history (w_ec2 w) @
           [\<lparr>h_id = next_hid (history (w_ec2 w)), h_process = p_validation, h_status = st_success,
             h_error = None\<rparr>]"
  by (rule val_main_success_row [OF assms])

theorem val_success_history_witness:
  "history (w_ec2 (fst (val_main ex_venv ex_vworld))) =
     [\<lparr>h_id = 1, h_process = p_validation, h_status = st_success, h_error = None\<rparr>]"
proof -
  have run: "val_main ex_venv ex_vworld = (fst (val_main ex_venv ex_vworld), fst (snd (val_main ex_venv ex_vworld)), None)"
  proof -
    have "snd (snd (val_main ex_venv ex_vworld)) = None"
      by (simp add: val_run_eval ex_vworld_def)
    then show ?thesis by (metis prod.collapse)
  qed
  show ?thesis
    using val_success_history [OF run]
    by (simp add: ex_vworld_def history_def next_hid_def table_names)
qed

text \<open>C36. When both connections succeed and the run then fails, and the history table
  exists, the history table gains exactly one row: process "data validation", status
  "failure", and the text of the exception.\<close>

theorem val_failure_history:
  assumes "val_main env w = (w', lg, Some e)"
    and "val_connect (venv_local env) = None" and "val_connect (venv_ec2 env) = None"
    and "w_ec2 w t_history = Some (HistoryT hs)"
  shows "history (w_ec2 w') =
           hs @ [\<lparr>h_id = next_hid hs, h_process = p_validation, h_status = st_failure,
                  h_error = Some (venv_str env e)\<rparr>]"
proof -
  obtain c where body: "val_body env w = (c, lg, Some e)"
    and w': "w' = w\<lparr>w_ec2 := (case record_failure p_validation (venv_str env e) c of
                              None \<Rightarrow> w_ec2 w | Some cn \<Rightarrow> conn_close cn)\<rparr>"
    using val_main_cases [OF assms(1)] by auto
  have c: "c = Some (conn_open (w_ec2 w))"
    by (rule val_body_Some [OF body assms(2,3)])
  have ok: "history_ok (w_ec2 w)" and dom: "t_history \<in> dom (w_ec2 w)"
    using assms(4) by (auto simp: history_ok_def)
  obtain db' where ins: "insert_history p_validation st_failure (Some (venv_str env e)) (w_ec2 w) = Inr db'"
    using insert_history_Inr [OF ok dom] by blast
  have "record_failure p_validation (venv_str env e) c = Some \<lparr>cn_committed = db', cn_work = db'\<rparr>"
    using record_failure_insert [of p_validation "venv_str env e" "conn_open (w_ec2 w)"] ins c by simp
  then show ?thesis
    using insert_history_history(1) [OF ins] w' assms(4) by (simp add: conn_close_def history_def)
qed

theorem val_failure_history_witness:
  "history (w_ec2 (fst (val_main ex_venv (ex_vworld\<lparr>w_ec2 := [t_history \<mapsto> HistoryT []]\<rparr>)))) =
     [\<lparr>h_id = 1, h_process = p_validation, h_status = st_failure, h_error = Some [0x45]\<rparr>]"
proof -
  let ?w = "ex_vworld\<lparr>w_ec2 := [t_history \<mapsto> HistoryT []]\<rparr>"
  have "snd (snd (val_main ex_venv ?w)) = Some (VSql (NoSuchTable t_analytic))"
    by (simp add: val_run_eval ex_vworld_def)
  then have run: "val_main ex_venv ?w = (fst (val_main ex_venv ?w), fst (snd (val_main ex_venv ?w)),
                                         Some (VSql (NoSuchTable t_analytic)))"
    by (metis prod.collapse)
  have "val_connect (venv_local ex_venv) = None" "val_connect (venv_ec2 ex_venv) = None"
    "w_ec2 ?w t_history = Some (HistoryT [])"
    by (simp_all add: ex_venv_def val_connect_ok)
  from val_failure_history [OF run this] show ?thesis
    by (simp add: next_hid_def ex_venv_def)
qed

text \<open>C37. The validation run does not create the history table. When the EC2 database
  has none (validation before any ETL run), the run fails even if every check passes,
  since the success row cannot be inserted, and the failure row cannot be inserted
  either: no history is recorded and no database changes.\<close>

theorem val_no_history_table:
  assumes "w_ec2 w t_history = None"
  shows "fst (val_main env w) = w \<and> snd (snd (val_main env w)) \<noteq> None"
proof -
  obtain c lg err where body: "val_body env w = (c, lg, err)" by (cases "val_body env w") auto
  have ins: "insert_history p s e' (w_ec2 w) = Inl (NoSuchTable t_history)" for p s e'
    using assms by (simp add: insert_history_def)
  obtain e where err: "err = Some e"
  proof (cases err)
    case None
    then show ?thesis using val_body_None [of env w c lg] body ins by (metis sum.distinct(1))
  qed
  have "c = None \<or> c = Some (conn_open (w_ec2 w))"
    using val_body_conn [of env w c lg e] body err by simp
  then have "(case record_failure p_validation (venv_str env e) c of
                None \<Rightarrow> w_ec2 w | Some cn \<Rightarrow> conn_close cn) = w_ec2 w"
    using ins by (auto simp: record_failure_def conn_close_def)
  then show ?thesis
    using body err by (simp add: val_main_def)
qed

theorem val_no_history_table_witness:
  "fst (val_main ex_venv (ex_vworld\<lparr>w_ec2 := Map.empty\<rparr>)) = ex_vworld\<lparr>w_ec2 := Map.empty\<rparr>"
  using val_no_history_table [of "ex_vworld\<lparr>w_ec2 := Map.empty\<rparr>" ex_venv] by simp

end
