(* ===== verification/Spec2Isabelle.thy ===== *)
theory Spec2Isabelle
  imports Classifier Analytical Validation Logging Retry Staging Dataset EtlRun ValRun
begin

text \<open>
  \<^bold>\<open>A verification model of the recalled-product ETL pipeline and its validation script.\<close>

  The repository has two Python scripts, both in the one source directory under
  \<open>src/\<close> (its name is the Korean word for ``code''). Both run as module-level code.
  \<^item> \<open>local_to_ec2_etl.py\<close> does four things. It downloads three spreadsheets and
    creates and fills one staging table per spreadsheet in the local MySQL database
    \<open>kopo\<close>. On the EC2 server it builds the analytical table by a left join. It
    derives the text dataset with the recall-reason classifier. Finally it records a
    history row.
  \<^item> \<open>data_validation.py\<close> connects to both servers through
    \<open>connect_with_retry\<close>, runs five check functions and records a history row.
  Both scripts share one pattern. The whole run sits in one \<open>try\<close>. On an exception
  they make a best-effort insert of a failure history row, log and re-raise. A
  \<open>finally\<close> block closes the connections.

  \<^bold>\<open>Conventions.\<close>
  \<^item> Python \<open>str\<close> values are \<open>ustr\<close>, lists of Unicode code points (theory
    \<open>Prelude\<close>). Korean literals are written as code points with their meaning in
    comments.
  \<^item> Values read from MySQL are \<open>sqlval\<close>. NULL is \<open>VNull\<close> and \<open>None\<close> in
    Python.
  \<^item> Exceptions are values: \<open>sql_error\<close>, \<open>etl_error\<close> and \<open>val_error\<close>, returned
    as \<open>Inl\<close> or as the second component of a step's result.
  \<^item> A database is a map from table names to tables of the four shapes the code
    creates (theory \<open>Store\<close>).
  \<^item> A connection (theory \<open>History\<close>) keeps the committed state and its working
    state. DDL statements commit implicitly, and closing drops uncommitted work.
  \<^item> What the scripts get from outside is a parameter of the run: connection
    outcomes, downloaded and decoded spreadsheets, and \<open>str(e)\<close> of an exception.
  \<^item> The logging set-up is modelled (theory \<open>Logging\<close>). Log messages are modelled
    only where they are the checks' output (their log lines).

  \<^bold>\<open>Theories, the code they model, and what their claims show.\<close>
  \<^item> \<open>Prelude\<close>, \<open>PyStr\<close>: the text type and \<open>in\<close>,
    \<open>s.split(sep)[0]\<close> (\<open>split_before\<close>), \<open>str.strip()\<close> (\<open>py_strip\<close>),
    with their first-occurrence and substring lemmas.
  \<^item> \<open>Classifier\<close>: the recall-reason if/elif chain, ETL lines 236-255
    (\<open>classify\<close>, \<open>recall_reason\<close>). Its abstract specification is \<open>cause_of\<close>,
    an inductive relation with the priority of the categories as premises.
    \<open>classify_cause\<close> and \<open>render_cause\<close> are the executable cause and its text.
    C1-C3: specification and code agree, microbial priority, and extraction of the
    detected preservative. Lemmas show the label is the rendering of the cause and is
    never empty.
  \<^item> \<open>Sql\<close>: values, their text for \<open>LIKE\<close>, three-valued \<open>=\<close> and
    \<open>AND\<close>, column lookup and the unknown-column error. It also holds the range
    check that MySQL's strict mode (the default since 5.7) applies to an \<open>INSERT\<close>:
    an \<open>INT\<close> is a signed 32-bit integer (\<open>int32_fits\<close>, equal to
    \<open>sint (word_of_int i :: 32 word) = i\<close>), a \<open>VARCHAR(255)\<close> holds at most
    255 characters, and \<open>first_misfit\<close> finds the first cell that does not fit.
    \<open>=\<close> (\<open>sql_eq\<close>) compares values of the same kind only: MySQL's conversions
    across types (an \<open>INT\<close> 1 equals a \<open>FLOAT\<close> 1.0 and the text \<open>'1'\<close>) and
    its collations are not modelled. The join cardinality C5 is proved for any key
    comparison, so it does not depend on this.
  \<^item> \<open>Analytical\<close>: the \<open>SELECT\<close> of ETL lines 136-180 (\<open>analytic_select\<close>).
    It is the double left join on (doc_no, doc_cycl), the \<open>WHERE\<close> filter, and the
    \<open>CASE\<close> expressions for the hazard flag and the risk grade. C5-C8: cardinality of
    the join, no NULL in the filtered columns, the grade invariant, and the grade of NULL
    and of '1' codes.
  \<^item> \<open>Store\<close>: table names, the schemas of the dataset and history tables, and
    \<open>CREATE TABLE IF NOT EXISTS\<close> (\<open>create_if_absent\<close>).
  \<^item> \<open>Validation\<close>: the five checks of validation lines 54-167. Each returns its log
    lines and its result or SQL error. \<open>SUM\<close> over no rows is NULL (\<open>sql_sum\<close>), so
    the NULL check of an empty table reports \<open>(0, None, None, None)\<close>. C9, C10, C12,
    C13: exact duplicate groups, aggregation order and totals, the invalid-grade count,
    and the error path when the table is missing. Its lemmas show that a table built by
    the join passes the NULL and range checks.
  \<^item> \<open>Retry\<close>: \<open>connect_with_retry\<close> (validation lines 41-52). \<open>retry_loop\<close>
    is the loop as written, counting \<open>i\<close> up to \<open>max_retries\<close> with the test
    \<open>i == max_retries - 1\<close>; it is a \<open>function\<close> whose termination is proved with the
    measure \<open>max_retries - i\<close>. \<open>retry_from\<close> is the structural recursion over the
    attempts left, and a lemma proves the two equal. Each attempt's outcome is given by a
    function. C14, C15, C17, C18: success after failures, exhaustion re-raising the last
    error, a non-positive count returning \<open>None\<close>, and a positive count never
    returning \<open>None\<close> (the last failed attempt raises). Lemmas show termination of the
    loop within \<open>max_retries - i\<close> attempts, bound the sleep and show that
    non-database errors propagate at once.
  \<^item> \<open>Logging\<close>: the logging set-up of both scripts (ETL lines 12-27, validation lines
    7-22).
    \<^item> \<open>setup_step\<close> is the check-then-create of the log directory. The inductive
      \<open>setup_reach\<close> interleaves two instances of it.
    \<^item> \<open>log_file\<close> is the name built with \<open>datetime.now().strftime\<close> and
      \<open>os.path.join\<close>. The current time is an input, a \<open>py_datetime\<close> within the
      ranges of Python's \<open>datetime\<close>.
    \<^item> \<open>emit\<close> and \<open>format_record\<close> model \<open>basicConfig\<close>'s format and its file
      and \<open>stderr\<close> handlers.
    C16 (proved by rule induction on an invariant): under any interleaving an instance
    fails with \<open>FileExistsError\<close> only when the directory was missing and the other
    instance created it in between. C22: log file names sort chronologically, and runs in
    the same second share a file. This goes through \<open>fixed_digits\<close>, a reference
    definition of fixed-width decimals that \<open>zpad\<close> and \<open>digits_of\<close> are proved to
    equal. A lemma shows a formatted line splits back into its time, level and message.
  \<^item> \<open>Staging\<close>: step 3 of the ETL (lines 97-133, after the download). It covers the dtype mapping,
    \<open>CREATE TABLE IF NOT EXISTS\<close>, the NaN replacement and the \<open>executemany\<close>
    append. C19-C21: a fresh load round-trips every cell, loads append (reruns
    duplicate), and an unknown column fails the load. A lemma shows the type mapping is
    total with its \<open>VARCHAR(255)\<close> fallback. C4: a value of an \<open>int64\<close> column outside the
    32-bit range fails the load with an out-of-range error after the table was created
    empty. The \<open>executemany\<close> is atomic: a row that does not fit aborts the whole
    statement.
  \<^item> \<open>Dataset\<close>: step 6 (lines 198-258). It covers the \<open>SELECT DISTINCT\<close>, the
    \<open>input_data\<close> dict and the classifier chain on the values the connector
    returns, where \<open>in\<close> raises \<open>TypeError\<close> on a non-string. It also covers
    \<open>json.dumps\<close> failing on a datetime, and the insert loop. A non-string item
    raises, a complete loop inserts one row per selected row with consecutive ids, and a
    datetime stops the loop after uncommitted inserts (C23-C25). A lemma shows that on
    text the loop's label is \<open>recall_reason\<close>. \<open>py_truthy\<close> reads a float through
    Python's \<open>repr\<close>, while \<open>Sql\<close> prints it as MySQL does; no claim depends on the
    difference.
  \<^item> \<open>History\<close>: the three databases (\<open>world\<close>), the connection parameters of
    both scripts (\<open>LOCAL_DB_CONFIG\<close>, \<open>EC2_DB_CONFIG\<close>, which name the same
    databases in both), connections with
    transactions, the history \<open>INSERT\<close>, and the failure handler shared by both
    scripts. C27: the handler's commit also commits the run's pending writes.
  \<^item> \<open>EtlRun\<close>: the ETL's try/except/finally (lines 57-298), \<open>etl_main\<close>, with the
    download of lines 88-95 (\<open>download\<close>, \<open>raise_for_status\<close>). It assumes that
    a connection, once open, stays up until the \<open>finally\<close> block, and that
    \<open>localhost\<close> and the EC2 host are different servers (three separate databases of
    \<open>world\<close>). C28-C33:
    \<^item> a successful run appends one success row, and a failed run with open connections
      one failure row with \<open>str(e)\<close>;
    \<^item> a refused connection changes nothing;
    \<^item> the analytical table comes from the \<open>kopo\<close> database on the EC2 server and is
      not refreshed when it exists;
    \<^item> after a failure no EC2 write of the run is rolled back, and the local staging
      data stays committed.
  \<^item> \<open>ValRun\<close>: the validation's top level (lines 169-246), \<open>val_script\<close>.
    \<open>val_globals\<close> lists the names the module binds, in which \<open>main()\<close> is looked
    up. C34-C37:
    \<^item> run as a script, a good run commits its success row and then raises
      \<open>NameError\<close> for \<open>main\<close>, which the module never binds;
    \<^item> a good run ran all checks and appended one success row, and a failing run
      appends one failure row;
    \<^item> without a history table the run fails and records nothing.
  \<^item> \<open>Spec2Isabelle\<close> itself holds the properties that span the two scripts. C11: after
    a successful ETL run that created the analytical table, the validation's NULL and
    range checks report no problem (NULL sums for an empty table). C26 (progress):
    after a successful ETL run, a
    validation run whose connections succeed completes without exception.

  \<^bold>\<open>Bounds and termination.\<close> Every function is total. The loops over files,
  rows and steps are structural recursions over the list. The retry loop counts up and
  terminates by a measure (a lemma of \<open>Retry\<close>). The log-name claim (C22) assumes a
  year of four digits.
  \<open>%Y\<close> prints the year unpadded, so below 1000 the names are shorter and their order
  breaks. Every run happens in years 1000 to 9999, so the assumption holds. The retry
  count is the code's default of 3 in the validation run, and any
  \<open>int\<close> in \<open>connect_with_retry\<close>. No fuel is needed.

  \<^bold>\<open>Not modelled.\<close>
  \<^item> The text of the log messages outside the checks, and the time each record is
    emitted.
  \<^item> Authentication with the configured user and password.
  \<^item> The HTTP transport and the spreadsheet decoding: their results are inputs. Only
    the status check of \<open>raise_for_status\<close> is modelled.
  \<^item> The text of exceptions: \<open>str(e)\<close> is an input.
  \<^item> \<open>time.sleep\<close>: it is counted, not performed.
  \<^item> SQL collations: text compares by code points.
  \<^item> MySQL's comparisons across types (numbers with text, \<open>INT\<close> with \<open>FLOAT\<close>).
  \<^item> A connection dropping after it was opened.
  \<^item> Type conversions of \<open>INSERT\<close> other than the two range checks: \<open>FLOAT\<close>
    precision, \<open>DATETIME\<close> and \<open>BOOLEAN\<close> conversion, and the clamping of a
    non-strict server.
  \<^item> The order of \<open>DISTINCT\<close> and \<open>GROUP BY\<close> results where SQL leaves it open.
  \<^item> InnoDB's auto-increment gaps.
  \<^item> A second \<open>AttributeError\<close> the validation's \<open>finally\<close> block would raise
    after a \<open>None\<close> connection.
  \<^item> Concurrent runs, except for the log-directory set-up (C16): the scripts are
    single-threaded.
\<close>

section \<open>Properties across the two scripts\<close>

text \<open>C11. The ETL run and the validation checks fit together: after a successful ETL run
  that found no analytical table, the validation's NULL check on the EC2 database reports
  zero NULL product names, countries and product types, or, when the join produced no
  row, NULL sums (\<open>None\<close>, since \<open>SUM\<close> over no rows is NULL); and its range check
  finds every risk grade valid.\<close>

theorem etl_then_checks_clean:
  assumes "etl_main env w = (w', None)" and "t_analytic \<notin> dom (w_ec2 w)"
  shows "(\<exists>n. snd (check_null_values (w_ec2 w')) =
            Inr (n, if n = 0 then None else Some 0, if n = 0 then None else Some 0,
                 if n = 0 then None else Some 0)) \<and>
         (\<exists>lg dist. check_data_range (w_ec2 w') = (lg, Inr dist) \<and> last lg = (INFO, MAllGradesValid) \<and>
                   set (map fst dist) \<subseteq> set valid_grades)"
proof -
  obtain p i c rs where sel: "analytic_select p i c = Inr rs"
    and st: "w_ec2 w' t_analytic = Some (AnalyticT rs)"
    using etl_success_fresh_analytic [OF assms] by blast
  have "\<exists>n. snd (check_null_values (w_ec2 w')) =
            Inr (n, if n = 0 then None else Some 0, if n = 0 then None else Some 0,
                 if n = 0 then None else Some 0)"
    using check_null_values_analytic [of p i c rs "w_ec2 w'", OF sel st]
    by (intro exI [of _ "length rs"]) simp
  then show ?thesis
    using check_data_range_analytic [of p i c rs "w_ec2 w'", OF sel st] by blast
qed

theorem etl_then_checks_clean_witness:
  "\<exists>n. snd (check_null_values (w_ec2 (fst (etl_main ex_env ex_world)))) =
     Inr (n, if n = 0 then None else Some 0, if n = 0 then None else Some 0,
          if n = 0 then None else Some 0)"
proof -
  have "t_analytic \<notin> dom (w_ec2 ex_world)" by (simp add: ex_world_def)
  from etl_then_checks_clean [OF ex_run_ok this] show ?thesis by blast
qed

text \<open>C26. Progress of the validation after the ETL: once an ETL run has succeeded, a
  validation run whose two connections succeed within their three attempts completes
  without exception. All nine checks find their tables, and the success row is
  recorded.\<close>

theorem etl_then_validation_succeeds:
  assumes "etl_main env w = (w', None)"
    and "val_connect (venv_local venv) = None" and "val_connect (venv_ec2 venv) = None"
  shows "snd (snd (val_main venv w')) = None"
proof -
  have "set excel_files \<subseteq> dom (w_local w')" by (rule etl_success_state(1) [OF assms(1)])
  then have loc: "{t_product, t_inspection, t_company} \<subseteq> dom (w_local w')"
    by (simp add: excel_files_def)
  obtain rs where an: "w_ec2 w' t_analytic = Some (AnalyticT rs)"
    using etl_success_state(2) [OF assms(1)] by blast
  obtain hs where hi: "w_ec2 w' t_history = Some (HistoryT hs)"
    using etl_success_state(4) [OF assms(1)] by blast
  show ?thesis
    by (rule val_main_succeeds [OF assms(2,3) loc etl_success_state(3) [OF assms(1)] an hi])
qed

theorem etl_then_validation_succeeds_witness:
  "snd (snd (val_main ex_venv (fst (etl_main ex_env ex_world)))) = None"
  using etl_then_validation_succeeds [OF ex_run_ok, of ex_venv]
  by (simp add: ex_venv_def val_connect_ok)

end
